(* ===== verification/Prelude.thy ===== *)
theory Prelude
  imports Complex_Main "HOL-Library.Code_Target_Numeral"
begin

text \<open>
  Shared vocabulary of the development. The Python functions of \<^verbatim>\<open>src/app/main.py\<close>
  raise exceptions and change process-wide state (the socket module's default timeout, the
  state of module \<^verbatim>\<open>random\<close>, the log). They are written here in a state-and-exception
  monad: a computation takes the state and returns the raised exception (\<open>Inl\<close>) or its
  value (\<open>Inr\<close>), together with the new state. An exception keeps the effects that
  happened before it, as in Python.

  The collection \<open>py_run\<close> holds the equations that evaluate a computation on a concrete
  state (used by the witnesses), \<open>py_elim\<close> the rules that take apart a computation that
  returned normally (used by the component proofs).
\<close>

named_theorems py_run "equations evaluating monadic computations on a given state"
named_theorems py_elim "elimination rules for monadic computations that returned normally"

type_synonym ('e, 's, 'a) exn_st = "'s \<Rightarrow> ('e + 'a) \<times> 's"

definition py_return :: "'a \<Rightarrow> ('e, 's, 'a) exn_st" where
  "py_return x = (\<lambda>s. (Inr x, s))"

definition py_raise :: "'e \<Rightarrow> ('e, 's, 'a) exn_st" where
  "py_raise e = (\<lambda>s. (Inl e, s))"

text \<open>A pure Python expression that may raise, evaluated in the current state.\<close>

definition py_lift :: "'e + 'a \<Rightarrow> ('e, 's, 'a) exn_st" where
  "py_lift r = (\<lambda>s. (r, s))"

text \<open>A state transformer that never raises (a function whose body catches everything).\<close>

definition py_total :: "('s \<Rightarrow> 'a \<times> 's) \<Rightarrow> ('e, 's, 'a) exn_st" where
  "py_total f = (\<lambda>s. (Inr (fst (f s)), snd (f s)))"

text \<open>Reading the state, e.g. \<^verbatim>\<open>time.time()\<close>.\<close>

definition py_get :: "('s \<Rightarrow> 'a) \<Rightarrow> ('e, 's, 'a) exn_st" where
  "py_get f = (\<lambda>s. (Inr (f s), s))"

definition py_modify :: "('s \<Rightarrow> 's) \<Rightarrow> ('e, 's, unit) exn_st" where
  "py_modify f = (\<lambda>s. (Inr (), f s))"

text \<open>Sequential composition: an exception of the first statement skips the rest.\<close>

definition py_bind :: "('e, 's, 'a) exn_st \<Rightarrow> ('a \<Rightarrow> ('e, 's, 'b) exn_st) \<Rightarrow> ('e, 's, 'b) exn_st" where
  "py_bind m f = (\<lambda>s. case m s of (Inl e, s') \<Rightarrow> (Inl e, s') | (Inr a, s') \<Rightarrow> f a s')"

text \<open>\<^verbatim>\<open>try: m except ...: h\<close>: the handler runs on the exception and the state the
  body left.\<close>

definition py_catch :: "('e, 's, 'a) exn_st \<Rightarrow> ('e \<Rightarrow> ('e, 's, 'a) exn_st) \<Rightarrow> ('e, 's, 'a) exn_st" where
  "py_catch m h = (\<lambda>s. case m s of (Inl e, s') \<Rightarrow> h e s' | (Inr a, s') \<Rightarrow> (Inr a, s'))"

text \<open>The same sequencing for an expression that does not touch the state.\<close>

definition exn_bind :: "'e + 'a \<Rightarrow> ('a \<Rightarrow> 'e + 'b) \<Rightarrow> 'e + 'b" where
  "exn_bind r f = (case r of Inl e \<Rightarrow> Inl e | Inr a \<Rightarrow> f a)"

text \<open>
  A state invariant of a computation: it holds after the computation, whether it returned
  or raised, whenever it held before.
\<close>

definition preserves :: "('s \<Rightarrow> bool) \<Rightarrow> ('e, 's, 'a) exn_st \<Rightarrow> bool" where
  "preserves I m \<longleftrightarrow> (\<forall>s. I s \<longrightarrow> I (snd (m s)))"

text \<open>The exceptions a computation can raise, from any state.\<close>

definition raises_only :: "('e \<Rightarrow> bool) \<Rightarrow> ('e, 's, 'a) exn_st \<Rightarrow> bool" where
  "raises_only P m \<longleftrightarrow> (\<forall>s e s'. m s = (Inl e, s') \<longrightarrow> P e)"

subsection \<open>Evaluation\<close>

lemma py_return_apply [simp, py_run]: "py_return x s = (Inr x, s)"
  by (simp add: py_return_def)

lemma py_raise_apply [simp, py_run]: "py_raise e s = (Inl e, s)"
  by (simp add: py_raise_def)

lemma py_lift_apply [simp, py_run]: "py_lift r s = (r, s)"
  by (simp add: py_lift_def)

lemma py_get_apply [simp, py_run]: "py_get f s = (Inr (f s), s)"
  by (simp add: py_get_def)

lemma py_modify_apply [simp, py_run]: "py_modify f s = (Inr (), f s)"
  by (simp add: py_modify_def)

lemma py_total_apply [py_run]: "py_total f s = (case f s of (a, s') \<Rightarrow> (Inr a, s'))"
  by (simp add: py_total_def split: prod.split)

lemma py_bind_apply [py_run]:
  "py_bind m f s = (case m s of (Inl e, s') \<Rightarrow> (Inl e, s') | (Inr a, s') \<Rightarrow> f a s')"
  by (simp add: py_bind_def)

lemma py_catch_apply [py_run]:
  "py_catch m h s = (case m s of (Inl e, s') \<Rightarrow> h e s' | (Inr a, s') \<Rightarrow> (Inr a, s'))"
  by (simp add: py_catch_def)

lemma py_bind_return [simp]: "py_bind (py_return x) f = f x"
  by (simp add: py_bind_def fun_eq_iff)

lemma py_bind_raise [simp]: "py_bind (py_raise e) f = py_raise e"
  by (simp add: py_bind_def fun_eq_iff)

lemma py_bind_lift_Inr [simp]: "py_bind (py_lift (Inr x)) f = f x"
  by (simp add: py_bind_def fun_eq_iff)

lemma py_bind_lift_Inl [simp]: "py_bind (py_lift (Inl e)) f = py_raise e"
  by (simp add: py_bind_def fun_eq_iff)

lemma py_bind_get [simp]: "py_bind (py_get g) f = (\<lambda>s. f (g s) s)"
  by (simp add: py_bind_def py_get_def)

lemma py_bind_modify [simp]: "py_bind (py_modify g) f = (\<lambda>s. f () (g s))"
  by (simp add: py_bind_def fun_eq_iff)

lemma py_bind_assoc: "py_bind (py_bind m f) g = py_bind m (\<lambda>x. py_bind (f x) g)"
  by (auto simp: py_bind_def fun_eq_iff split: prod.split sum.split)

lemma py_bind_split:
  "P (py_bind m f s) \<longleftrightarrow>
     (\<forall>e s'. m s = (Inl e, s') \<longrightarrow> P (Inl e, s')) \<and> (\<forall>a s'. m s = (Inr a, s') \<longrightarrow> P (f a s'))"
  by (simp add: py_bind_def split: prod.split sum.split)

lemma exn_bind_Inl [simp]: "exn_bind (Inl e) f = Inl e"
  by (simp add: exn_bind_def)

lemma exn_bind_Inr [simp]: "exn_bind (Inr a) f = f a"
  by (simp add: exn_bind_def)

lemma exn_bind_eq_Inl: "exn_bind r f = Inl e \<longleftrightarrow> r = Inl e \<or> (\<exists>a. r = Inr a \<and> f a = Inl e)"
  by (cases r) (simp_all add: exn_bind_def)

lemma exn_bind_eq_Inr: "exn_bind r f = Inr b \<longleftrightarrow> (\<exists>a. r = Inr a \<and> f a = Inr b)"
  by (cases r) (simp_all add: exn_bind_def)

lemma map_sum_eq_Inr_iff [simp]: "map_sum f g r = Inr b \<longleftrightarrow> (\<exists>a. r = Inr a \<and> g a = b)"
  by (cases r) auto

lemma map_sum_eq_Inl_iff [simp]: "map_sum f g r = Inl e \<longleftrightarrow> (\<exists>d. r = Inl d \<and> f d = e)"
  by (cases r) auto

lemma Inr_eq_map_sum_iff [simp]: "Inr b = map_sum f g r \<longleftrightarrow> (\<exists>a. r = Inr a \<and> g a = b)"
  by (cases r) auto

lemma Inl_eq_map_sum_iff [simp]: "Inl e = map_sum f g r \<longleftrightarrow> (\<exists>d. r = Inl d \<and> f d = e)"
  by (cases r) auto

subsection \<open>Taking apart a normal return\<close>

lemma py_bind_InrE [py_elim]:
  assumes "py_bind m f s = (Inr b, s'')"
  obtains a s' where "m s = (Inr a, s')" and "f a s' = (Inr b, s'')"
  using assms by (auto simp: py_bind_def split: prod.splits sum.splits)

lemma py_bind_InlE [py_elim]:
  assumes "py_bind m f s = (Inl e, s'')"
  obtains "m s = (Inl e, s'')"
  | a s' where "m s = (Inr a, s')" and "f a s' = (Inl e, s'')"
  using assms by (auto simp: py_bind_def split: prod.splits sum.splits)

lemma py_lift_InrE [py_elim]:
  assumes "py_lift r s = (Inr a, s')"
  obtains "r = Inr a" and "s' = s"
  using assms by simp

lemma py_total_InrE [py_elim]:
  assumes "py_total f s = (Inr a, s')"
  obtains "f s = (a, s')"
  using assms by (simp add: py_total_def prod_eq_iff)

lemma py_total_not_Inl [simp]: "py_total f s \<noteq> (Inl e, s')"
  by (simp add: py_total_def)

subsection \<open>State invariants\<close>

lemma preserves_return [intro]: "preserves I (py_return x)"
  by (simp add: preserves_def)

lemma preserves_raise [intro]: "preserves I (py_raise e)"
  by (simp add: preserves_def)

lemma preserves_lift [intro]: "preserves I (py_lift r)"
  by (simp add: preserves_def)

lemma preserves_get [intro]: "preserves I (py_get f)"
  by (simp add: preserves_def)

lemma preserves_modify [intro]: "(\<And>s. I s \<Longrightarrow> I (f s)) \<Longrightarrow> preserves I (py_modify f)"
  by (simp add: preserves_def)

lemma preserves_total [intro]: "(\<And>s. I s \<Longrightarrow> I (snd (f s))) \<Longrightarrow> preserves I (py_total f)"
  by (simp add: preserves_def py_total_def)

lemma preserves_bind [intro]:
  assumes "preserves I m" and "\<And>x. preserves I (f x)"
  shows "preserves I (py_bind m f)"
  using assms by (auto simp: preserves_def py_bind_def split: prod.split sum.split)

lemma preserves_catch [intro]:
  assumes "preserves I m" and "\<And>e. preserves I (h e)"
  shows "preserves I (py_catch m h)"
  using assms by (auto simp: preserves_def py_catch_def split: prod.split sum.split)

lemma preserves_if [intro]:
  "preserves I m1 \<Longrightarrow> preserves I m2 \<Longrightarrow> preserves I (if b then m1 else m2)"
  by simp

lemma preserves_case_option [intro]:
  "preserves I m1 \<Longrightarrow> (\<And>x. preserves I (m2 x)) \<Longrightarrow> preserves I (case r of None \<Rightarrow> m1 | Some x \<Rightarrow> m2 x)"
  by (simp split: option.split)

lemma preservesD: "preserves I m \<Longrightarrow> I s \<Longrightarrow> m s = (r, s') \<Longrightarrow> I s'"
  by (metis preserves_def snd_conv)

lemma raises_only_return [intro]: "raises_only P (py_return x)"
  by (simp add: raises_only_def)

lemma raises_only_raise [intro]: "P e \<Longrightarrow> raises_only P (py_raise e)"
  by (simp add: raises_only_def)

lemma raises_only_lift [intro]: "(\<And>e. r = Inl e \<Longrightarrow> P e) \<Longrightarrow> raises_only P (py_lift r)"
  by (simp add: raises_only_def)

lemma raises_only_get [intro]: "raises_only P (py_get f)"
  by (simp add: raises_only_def)

lemma raises_only_modify [intro]: "raises_only P (py_modify f)"
  by (simp add: raises_only_def)

lemma raises_only_total [intro]: "raises_only P (py_total f)"
  by (simp add: raises_only_def py_total_def)

lemma raises_only_bind [intro]:
  "raises_only P m \<Longrightarrow> (\<And>x. raises_only P (f x)) \<Longrightarrow> raises_only P (py_bind m f)"
  by (auto simp: raises_only_def py_bind_def split: prod.splits sum.splits)

lemma raises_only_catch [intro]:
  "(\<And>e. raises_only P (h e)) \<Longrightarrow> raises_only P (py_catch m h)"
  by (auto simp: raises_only_def py_catch_def split: prod.splits sum.splits)

lemma raises_only_if [intro]:
  "raises_only P m1 \<Longrightarrow> raises_only P m2 \<Longrightarrow> raises_only P (if b then m1 else m2)"
  by simp

lemma raises_onlyD: "raises_only P m \<Longrightarrow> m s = (Inl e, s') \<Longrightarrow> P e"
  unfolding raises_only_def by blast

text \<open>A handler needs to keep the invariant only for the exceptions the body can raise.\<close>

lemma preserves_catch_raises:
  assumes "preserves I m" and "raises_only P m" and "\<And>e. P e \<Longrightarrow> preserves I (h e)"
  shows "preserves I (py_catch m h)"
  unfolding preserves_def
proof (intro allI impI)
  fix s assume "I s"
  obtain r s' where m: "m s = (r, s')" by fastforce
  with assms(1) \<open>I s\<close> have "I s'" by (auto dest: preservesD)
  show "I (snd (py_catch m h s))"
  proof (cases r)
    case (Inl e)
    with m assms(2) have "P e" by (blast dest: raises_onlyD)
    with assms(3) \<open>I s'\<close> have "I (snd (h e s'))" by (simp add: preserves_def)
    with m Inl show ?thesis by (simp add: py_catch_def)
  qed (use m \<open>I s'\<close> in \<open>simp add: py_catch_def\<close>)
qed

subsection \<open>Exceptions raised\<close>

lemma raises_only_mono: "raises_only P m \<Longrightarrow> (\<And>e. P e \<Longrightarrow> Q e) \<Longrightarrow> raises_only Q m"
  by (simp add: raises_only_def)

subsection \<open>Lists\<close>

lemma set_append_single_subset: "set xs \<subseteq> A \<Longrightarrow> x \<in> A \<Longrightarrow> set (xs @ [x]) \<subseteq> A"
  by simp

end
