(* ===== verification/PyRuntime.thy ===== *)
theory PyRuntime
  imports Prelude "HOL-Library.Sublist"
begin

text \<open>
  The part of the Python runtime that \<^verbatim>\<open>src/app/main.py\<close> relies on, written out so
  that every exception the code can meet is a value of the model: the exception classes
  (with \<^verbatim>\<open>errors.FetchedError\<close>, whose module is not under \<^verbatim>\<open>src/\<close>), the values
  \<^verbatim>\<open>resp.json()\<close> decodes to, subscription, \<^verbatim>\<open>len\<close>, iteration and \<^verbatim>\<open>in\<close> on
  them, and the string operations \<^verbatim>\<open>int()\<close>, \<^verbatim>\<open>str()\<close> of an int, \<^verbatim>\<open>str.split\<close>,
  \<^verbatim>\<open>str.find\<close> and \<^verbatim>\<open>str.join\<close>. Strings are \<open>char list\<close>: one \<open>char\<close> per
  byte, so the model covers ASCII text (what the relay directory contains).
\<close>

datatype pykey = KStr string | KInt int

datatype exc =
    FetchedError farg
  | KeyError pykey
  | IndexError
  | ValueError
  | TypeError
  | AttributeError
  | OverflowError
  | OSError string
  | ConnectionError string
  | RequestException string
and farg = FMsg string | FExc exc

type_synonym 'a py = "exc + 'a"
type_synonym ('s, 'a) pyM = "(exc, 's, 'a) exn_st"

text \<open>
  A decoded JSON document as Python holds it: \<^verbatim>\<open>None\<close>, \<^verbatim>\<open>bool\<close>, \<^verbatim>\<open>int\<close>,
  \<^verbatim>\<open>float\<close>, \<^verbatim>\<open>str\<close>, \<^verbatim>\<open>list\<close> and \<^verbatim>\<open>dict\<close> (its items in insertion order;
  the decoder gives distinct keys).
\<close>

datatype json =
    JNull
  | JBool bool
  | JInt int
  | JFloat rat
  | JStr string
  | JList "json list"
  | JObj "(string \<times> json) list"

text \<open>\<^verbatim>\<open>str(e)\<close> of a \<^verbatim>\<open>FetchedError\<close>: the message it was built from, through any wrapping.\<close>

fun fetched_message :: "exc \<Rightarrow> string option"
  and farg_message :: "farg \<Rightarrow> string option" where
  "fetched_message (FetchedError a) = farg_message a"
| "fetched_message _ = None"
| "farg_message (FMsg m) = Some m"
| "farg_message (FExc e) = fetched_message e"

fun is_fetched_error :: "exc \<Rightarrow> bool" where
  "is_fetched_error (FetchedError _) = True"
| "is_fetched_error _ = False"

text \<open>The exceptions the interpreter raises on its own (not the network or a library).\<close>

fun is_runtime_error :: "exc \<Rightarrow> bool" where
  "is_runtime_error (KeyError _) = True"
| "is_runtime_error IndexError = True"
| "is_runtime_error ValueError = True"
| "is_runtime_error TypeError = True"
| "is_runtime_error AttributeError = True"
| "is_runtime_error OverflowError = True"
| "is_runtime_error _ = False"

subsection \<open>Strings\<close>

text \<open>Whitespace as \<^verbatim>\<open>int()\<close> skips it: the C-locale spaces and the separators 0x1c--0x1f.\<close>

definition is_py_space :: "char \<Rightarrow> bool" where
  "is_py_space c \<longleftrightarrow> c = CHR '' '' \<or> ((9::nat) \<le> of_char c \<and> of_char c \<le> (13::nat))
     \<or> ((28::nat) \<le> of_char c \<and> of_char c \<le> (31::nat))"

definition is_digit :: "char \<Rightarrow> bool" where
  "is_digit c \<longleftrightarrow> (48::nat) \<le> of_char c \<and> of_char c \<le> (57::nat)"

definition digit_value :: "char \<Rightarrow> nat" where
  "digit_value c = of_char c - 48"

definition digit_char :: "nat \<Rightarrow> char" where
  "digit_char d = char_of (48 + d)"

definition py_strip :: "string \<Rightarrow> string" where
  "py_strip s = rev (dropWhile is_py_space (rev (dropWhile is_py_space s)))"

text \<open>Digits with single underscores between them, the body of a base-10 literal.\<close>

fun digits_tail_ok :: "string \<Rightarrow> bool" where
  "digits_tail_ok [] = True"
| "digits_tail_ok (c # cs) =
     (if c = CHR ''_'' then (case cs of [] \<Rightarrow> False | d # ds \<Rightarrow> is_digit d \<and> digits_tail_ok ds)
      else is_digit c \<and> digits_tail_ok cs)"

fun digits_ok :: "string \<Rightarrow> bool" where
  "digits_ok [] = False"
| "digits_ok (c # cs) = (is_digit c \<and> digits_tail_ok cs)"

definition digits_val :: "string \<Rightarrow> nat" where
  "digits_val ds = foldl (\<lambda>acc c. 10 * acc + digit_value c) 0 (filter is_digit ds)"

definition dec_literal :: "string \<Rightarrow> nat py" where
  "dec_literal ds = (if digits_ok ds then Inr (digits_val ds) else Inl ValueError)"

text \<open>\<^verbatim>\<open>int(s)\<close> for a \<^verbatim>\<open>str\<close>: surrounding whitespace, an optional sign, a base-10
  literal; anything else raises \<^verbatim>\<open>ValueError\<close>.\<close>

definition py_int :: "string \<Rightarrow> int py" where
  "py_int s = (case py_strip s of
      [] \<Rightarrow> Inl ValueError
    | c # ds \<Rightarrow>
        if c = CHR ''-'' then map_sum id (\<lambda>n. - int n) (dec_literal ds)
        else if c = CHR ''+'' then map_sum id int (dec_literal ds)
        else map_sum id int (dec_literal (c # ds)))"

fun dec_digits :: "nat \<Rightarrow> string" where
  "dec_digits n = (if n < 10 then [digit_char n] else dec_digits (n div 10) @ [digit_char (n mod 10)])"

text \<open>\<^verbatim>\<open>str(i)\<close> of an \<^verbatim>\<open>int\<close> (also what an f-string prints).\<close>

definition str_of_int :: "int \<Rightarrow> string" where
  "str_of_int i = (if i < 0 then CHR ''-'' # dec_digits (nat (- i)) else dec_digits (nat i))"

text \<open>\<^verbatim>\<open>s.split(c)\<close> with a one-character separator.\<close>

fun py_split :: "char \<Rightarrow> string \<Rightarrow> string list" where
  "py_split c [] = [[]]"
| "py_split c (x # xs) = (if x = c then [] # py_split c xs else (let r = py_split c xs in (x # hd r) # tl r))"

text \<open>\<^verbatim>\<open>s.find(c)\<close> with a one-character argument: the first index, or -1.\<close>

fun py_find :: "string \<Rightarrow> char \<Rightarrow> int" where
  "py_find [] c = -1"
| "py_find (x # xs) c = (if x = c then 0 else (let r = py_find xs c in if r = -1 then -1 else r + 1))"

text \<open>\<^verbatim>\<open>sep.join(xs)\<close>.\<close>

fun py_join :: "string \<Rightarrow> string list \<Rightarrow> string" where
  "py_join sep [] = []"
| "py_join sep [x] = x"
| "py_join sep (x # y # zs) = x @ sep @ py_join sep (y # zs)"

subsection \<open>Sequences and JSON values\<close>

text \<open>\<^verbatim>\<open>xs[i]\<close>: negative indices count from the end, out of range raises.\<close>

definition py_index :: "'a list \<Rightarrow> int \<Rightarrow> 'a py" where
  "py_index xs i =
     (let k = (if 0 \<le> i then i else i + int (length xs))
      in if k < 0 \<or> int (length xs) \<le> k then Inl IndexError else Inr (xs ! nat k))"

text \<open>\<^verbatim>\<open>v[k]\<close> on a decoded value.\<close>

fun py_getitem :: "json \<Rightarrow> pykey \<Rightarrow> json py" where
  "py_getitem (JObj kvs) (KStr k) = (case map_of kvs k of Some v \<Rightarrow> Inr v | None \<Rightarrow> Inl (KeyError (KStr k)))"
| "py_getitem (JObj kvs) (KInt i) = Inl (KeyError (KInt i))"
| "py_getitem (JList xs) (KInt i) = py_index xs i"
| "py_getitem (JStr s) (KInt i) = map_sum id (\<lambda>c. JStr [c]) (py_index s i)"
| "py_getitem _ _ = Inl TypeError"

text \<open>\<^verbatim>\<open>len(v)\<close>.\<close>

fun py_len :: "json \<Rightarrow> nat py" where
  "py_len (JObj kvs) = Inr (length kvs)"
| "py_len (JList xs) = Inr (length xs)"
| "py_len (JStr s) = Inr (length s)"
| "py_len _ = Inl TypeError"

text \<open>The items a \<^verbatim>\<open>for\<close> loop visits: list elements, the characters of a string, the keys of a dict.\<close>

fun py_iter :: "json \<Rightarrow> json list py" where
  "py_iter (JList xs) = Inr xs"
| "py_iter (JStr s) = Inr (map (\<lambda>c. JStr [c]) s)"
| "py_iter (JObj kvs) = Inr (map (\<lambda>kv. JStr (fst kv)) kvs)"
| "py_iter _ = Inl TypeError"

text \<open>\<^verbatim>\<open>s in v\<close> for a string \<open>s\<close>: a key of a dict, an element of a list, a substring of a string.\<close>

fun py_has_str :: "json \<Rightarrow> string \<Rightarrow> bool py" where
  "py_has_str (JObj kvs) s = Inr (s \<in> set (map fst kvs))"
| "py_has_str (JList xs) s = Inr (JStr s \<in> set xs)"
| "py_has_str (JStr t) s = Inr (sublist s t)"
| "py_has_str _ s = Inl TypeError"

text \<open>A string method called on an item (\<^verbatim>\<open>addr.find\<close>): only a \<^verbatim>\<open>str\<close> has it.\<close>

fun py_as_str :: "json \<Rightarrow> string py" where
  "py_as_str (JStr s) = Inr s"
| "py_as_str _ = Inl AttributeError"

text \<open>\<^verbatim>\<open>s + v\<close> with \<open>s\<close> a string: only a \<^verbatim>\<open>str\<close> can be added.\<close>

fun py_str_add :: "string \<Rightarrow> json \<Rightarrow> string py" where
  "py_str_add s (JStr t) = Inr (s @ t)"
| "py_str_add s _ = Inl TypeError"

text \<open>Distinct keys in every dict: what \<^verbatim>\<open>json.loads\<close> produces.\<close>

fun wf_json :: "json \<Rightarrow> bool" where
  "wf_json (JList xs) = (\<forall>x \<in> set xs. wf_json x)"
| "wf_json (JObj kvs) = (distinct (map fst kvs) \<and> (\<forall>kv \<in> set kvs. wf_json (snd kv)))"
| "wf_json _ = True"

declare dec_digits.simps [simp del]

subsection \<open>Integer literals: \<^verbatim>\<open>int(str(i)) == i\<close>\<close>

lemma is_digit_digit_char: "d < 10 \<Longrightarrow> is_digit (digit_char d)"
  by (simp add: is_digit_def digit_char_def)

lemma digit_value_digit_char: "d < 10 \<Longrightarrow> digit_value (digit_char d) = d"
  by (simp add: digit_value_def digit_char_def)

lemma digit_not_space: "is_digit c \<Longrightarrow> \<not> is_py_space c"
  by (auto simp: is_digit_def is_py_space_def)

lemma dec_digits_nonempty: "dec_digits n \<noteq> []"
  by (subst dec_digits.simps) simp

lemma dec_digits_all_digits: "\<forall>c \<in> set (dec_digits n). is_digit c"
proof (induction n rule: dec_digits.induct)
  case (1 n)
  then show ?case by (subst dec_digits.simps) (auto simp: is_digit_digit_char)
qed

lemma digits_tail_ok_all_digits: "\<forall>c \<in> set cs. is_digit c \<Longrightarrow> digits_tail_ok cs"
  by (induction cs) (auto simp: is_digit_def)

lemma digits_ok_dec_digits: "digits_ok (dec_digits n)"
  using dec_digits_nonempty dec_digits_all_digits [of n]
  by (cases "dec_digits n") (auto intro: digits_tail_ok_all_digits)

lemma digits_val_dec_digits: "digits_val (dec_digits n) = n"
proof (induction n rule: dec_digits.induct)
  case (1 n)
  show ?case
  proof (cases "n < 10")
    case True
    then show ?thesis
      by (subst dec_digits.simps) (simp add: digits_val_def is_digit_digit_char digit_value_digit_char)
  next
    case False
    have "filter is_digit (dec_digits (n div 10)) = dec_digits (n div 10)"
      using dec_digits_all_digits by (simp add: filter_id_conv)
    with "1.IH" False show ?thesis
      by (subst dec_digits.simps)
         (simp add: digits_val_def is_digit_digit_char digit_value_digit_char)
  qed
qed

lemma py_strip_id:
  "s \<noteq> [] \<Longrightarrow> \<not> is_py_space (hd s) \<Longrightarrow> \<not> is_py_space (last s) \<Longrightarrow> py_strip s = s"
proof -
  assume "s \<noteq> []" "\<not> is_py_space (hd s)" "\<not> is_py_space (last s)"
  then have "dropWhile is_py_space s = s" and "dropWhile is_py_space (rev s) = rev s"
    by (simp_all add: dropWhile_eq_self_iff hd_rev)
  then show ?thesis by (simp add: py_strip_def)
qed

lemma str_of_int_strip: "py_strip (str_of_int i) = str_of_int i"
proof -
  have d: "\<not> is_py_space (hd (dec_digits n))" "\<not> is_py_space (last (dec_digits n))" for n
    using dec_digits_all_digits [of n] dec_digits_nonempty [of n] digit_not_space by auto
  show ?thesis
    using d dec_digits_nonempty
    by (auto simp: str_of_int_def is_py_space_def intro!: py_strip_id)
qed

lemma py_int_str_of_int: "py_int (str_of_int i) = Inr i"
proof (cases "i < 0")
  case True
  with str_of_int_strip [of i] show ?thesis
    by (simp add: py_int_def str_of_int_def dec_literal_def digits_ok_dec_digits digits_val_dec_digits)
next
  case False
  obtain c ds where cds: "dec_digits (nat i) = c # ds"
    using dec_digits_nonempty by (cases "dec_digits (nat i)") auto
  have "is_digit c" using dec_digits_all_digits [of "nat i"] cds by simp
  then have "c \<noteq> CHR ''-''" and "c \<noteq> CHR ''+''" by (auto simp: is_digit_def)
  moreover have "digits_ok (c # ds)" and "digits_val (c # ds) = nat i"
    using digits_ok_dec_digits [of "nat i"] digits_val_dec_digits [of "nat i"] cds by simp_all
  ultimately show ?thesis
    using False cds str_of_int_strip [of i] by (simp add: py_int_def str_of_int_def dec_literal_def)
qed

subsection \<open>Splitting, joining, searching, indexing\<close>

lemma py_split_nonempty [simp]: "py_split c s \<noteq> []"
  by (induction s) (auto simp: Let_def)

lemma py_split_no_sep: "c \<notin> set s \<Longrightarrow> py_split c s = [s]"
  by (induction s) (auto simp: Let_def)

lemma py_split_append_sep: "c \<notin> set x \<Longrightarrow> py_split c (x @ c # r) = x # py_split c r"
  by (induction x) (auto simp: Let_def)

lemma py_split_join:
  "xs \<noteq> [] \<Longrightarrow> \<forall>x \<in> set xs. c \<notin> set x \<Longrightarrow> py_split c (py_join [c] xs) = xs"
  by (induction "[c]" xs rule: py_join.induct) (auto simp: py_split_no_sep py_split_append_sep)

lemma length_py_split_ge2: "2 \<le> length (py_split c s) \<longleftrightarrow> c \<in> set s"
proof (induction s)
  case Nil
  then show ?case by simp
next
  case (Cons x xs)
  then show ?case
    by (cases "py_split c xs") (auto simp: Let_def)
qed

lemma py_find_eq_minus_one: "py_find s c = -1 \<longleftrightarrow> c \<notin> set s"
proof (induction s)
  case Nil
  then show ?case by simp
next
  case (Cons x xs)
  have "py_find xs c \<ge> -1" by (induction xs) (auto simp: Let_def)
  with Cons show ?case by (auto simp: Let_def)
qed

lemma py_index_in_set [py_elim]:
  assumes "py_index xs i = Inr x"
  obtains "x \<in> set xs"
  using assms by (auto simp: py_index_def Let_def split: if_splits)

lemma py_index_nonneg: "0 \<le> i \<Longrightarrow> py_index xs i = (if i < int (length xs) then Inr (xs ! nat i) else Inl IndexError)"
  by (simp add: py_index_def)

lemma py_getitem_list_elem:
  "py_getitem (JList xs) k = Inr v \<Longrightarrow> v \<in> set xs"
  by (cases k) (auto elim: py_index_in_set)

subsection \<open>Only runtime errors\<close>

lemma py_int_Inl: "py_int s = Inl e \<Longrightarrow> e = ValueError"
  by (auto simp: py_int_def dec_literal_def split: list.splits if_splits)

lemma py_index_Inl: "py_index xs i = Inl e \<Longrightarrow> e = IndexError"
  by (auto simp: py_index_def Let_def split: if_splits)

lemma py_getitem_Inl: "py_getitem v k = Inl e \<Longrightarrow> is_runtime_error e"
  by (cases "(v, k)" rule: py_getitem.cases) (auto dest: py_index_Inl split: option.splits)

lemma runtime_error_results:
  "py_int s = Inl e \<Longrightarrow> is_runtime_error e"
  "py_index xs i = Inl e \<Longrightarrow> is_runtime_error e"
  "py_getitem v k = Inl e \<Longrightarrow> is_runtime_error e"
  "py_len v = Inl e \<Longrightarrow> is_runtime_error e"
  "py_iter v = Inl e \<Longrightarrow> is_runtime_error e"
  "py_has_str v s = Inl e \<Longrightarrow> is_runtime_error e"
  "py_as_str v = Inl e \<Longrightarrow> is_runtime_error e"
  "py_str_add s v = Inl e \<Longrightarrow> is_runtime_error e"
  by (auto dest: py_int_Inl py_index_Inl py_getitem_Inl elim!: py_len.elims
      py_iter.elims py_has_str.elims py_as_str.elims py_str_add.elims)

end
