(* ===== verification/World.thy ===== *)
theory World
  imports PyRuntime
begin

text \<open>
  The state of the bot's process that the code of \<^verbatim>\<open>src/app/main.py\<close> reads and
  changes, and what it sends to the outside world:
  \<^item> \<open>sock_default_timeout\<close>: \<^verbatim>\<open>socket.getdefaulttimeout()\<close>, process-wide, \<open>None\<close>
    (blocking) when the process starts, set by \<^verbatim>\<open>socket.setdefaulttimeout\<close>;
  \<^item> \<open>socket_calls\<close>: how many times \<^verbatim>\<open>socket.socket()\<close> was called (it indexes the
    environment's answer to each call);
  \<^item> \<open>connects\<close>: the connection attempts made by \<^verbatim>\<open>connect_ex\<close>, in order, each with
    host, port and the timeout of the socket that made it;
  \<^item> \<open>rng\<close>: the state of module \<^verbatim>\<open>random\<close>, of an abstract type \<open>'r\<close>, and
    \<open>draws\<close>, how many times \<^verbatim>\<open>random.randint\<close> was called;
  \<^item> \<open>log\<close>: the records passed to \<^verbatim>\<open>logging\<close>;
  \<^item> \<open>clock\<close>: \<^verbatim>\<open>time.time()\<close>;
  \<^item> \<open>tg_calls\<close>: the Telegram Bot API calls made through \<^verbatim>\<open>telebot\<close>, in order.
\<close>

datatype log_level = DEBUG | ERROR

datatype log_entry = LogRec log_level string "exc option"

type_synonym attempt = "string \<times> int \<times> rat option"

text \<open>A Telegram API call: chat id, the message replied to, the text, caption or document.\<close>

datatype tg_call =
    SendMessage int string
  | ReplyTo int int string
  | SendDocument int string string

record 'r world =
  sock_default_timeout :: "rat option"
  socket_calls :: nat
  connects :: "attempt list"
  rng :: 'r
  draws :: nat
  log :: "log_entry list"
  clock :: rat
  tg_calls :: "tg_call list"

text \<open>The process right after start: nothing probed, drawn, logged or sent.\<close>

definition init_world :: "'r \<Rightarrow> rat \<Rightarrow> 'r world" where
  "init_world r t =
     \<lparr>sock_default_timeout = None, socket_calls = 0, connects = [], rng = r, draws = 0,
      log = [], clock = t, tg_calls = []\<rparr>"

definition log_append :: "log_level \<Rightarrow> string \<Rightarrow> exc option \<Rightarrow> 'r world \<Rightarrow> 'r world" where
  "log_append lv msg ex w = w\<lparr>log := log w @ [LogRec lv msg ex]\<rparr>"

lemma log_append_fields [simp]:
  "sock_default_timeout (log_append lv m ex w) = sock_default_timeout w"
  "socket_calls (log_append lv m ex w) = socket_calls w"
  "connects (log_append lv m ex w) = connects w"
  "rng (log_append lv m ex w) = rng w"
  "draws (log_append lv m ex w) = draws w"
  "log (log_append lv m ex w) = log w @ [LogRec lv m ex]"
  "clock (log_append lv m ex w) = clock w"
  "tg_calls (log_append lv m ex w) = tg_calls w"
  by (simp_all add: log_append_def)

end
