(* ===== verification/PortFilter.thy ===== *)
theory PortFilter
  imports PyRuntime
begin

text \<open>
  The port filter, \<^verbatim>\<open>check_port\<close> of \<^verbatim>\<open>src/app/main.py\<close> (lines 26--110): the
  fixed denylist \<open>bad_ports\<close> and the test that the port of \<^verbatim>\<open>host:port\<close> is not in
  it. The port is read as the code reads it, \<^verbatim>\<open>int(addr.split(":")[1])\<close>
  (\<open>addr_port\<close>), so an address without a colon raises \<^verbatim>\<open>IndexError\<close> and a port
  that is not an integer literal raises \<^verbatim>\<open>ValueError\<close>: the function does not return
  \<open>False\<close> for them.
\<close>

definition bad_ports :: "int list" where
  "bad_ports =
     [1, 7, 9, 11, 13, 15, 17, 19, 20, 21, 22, 23, 25, 37, 42, 43, 53, 69, 77, 79, 87, 95,
      101, 102, 103, 104, 109, 110, 111, 113, 115, 117, 119, 123, 135, 137, 139, 143, 161,
      179, 389, 427, 465, 512, 513, 514, 515, 526, 530, 531, 532, 540, 548, 554, 556, 563,
      587, 601, 636, 989, 990, 993, 995, 1719, 1720, 1723, 2049, 3659, 4045, 5060, 5061,
      6000, 6566, 6665, 6666, 6667, 6668, 6669, 6697, 10080]"

text \<open>\<^verbatim>\<open>int(addr.split(":")[1])\<close>.\<close>

definition addr_port :: "string \<Rightarrow> int py" where
  "addr_port addr = exn_bind (py_index (py_split CHR '':'' addr) 1) py_int"

definition check_port :: "string \<Rightarrow> bool py" where
  "check_port addr = exn_bind (addr_port addr) (\<lambda>p. Inr (p \<notin> set bad_ports))"

subsection \<open>Reading the port\<close>

lemma str_of_int_no_colon: "CHR '':'' \<notin> set (str_of_int i)"
proof -
  have "CHR '':'' \<notin> set (dec_digits n)" for n
    using dec_digits_all_digits [of n] by (auto simp: is_digit_def)
  then show ?thesis by (simp add: str_of_int_def)
qed

lemma addr_port_host_port:
  "CHR '':'' \<notin> set host \<Longrightarrow> CHR '':'' \<notin> set s \<Longrightarrow> addr_port (host @ CHR '':'' # s) = py_int s"
  by (simp add: addr_port_def py_split_append_sep py_split_no_sep py_index_def)

lemma addr_port_IndexError: "addr_port addr = Inl IndexError \<longleftrightarrow> CHR '':'' \<notin> set addr"
proof -
  have "py_index (py_split CHR '':'' addr) 1 = Inl IndexError \<longleftrightarrow> CHR '':'' \<notin> set addr"
    using length_py_split_ge2 [of "CHR '':''" addr] by (auto simp: py_index_def)
  moreover have "py_int p \<noteq> Inl IndexError" for p
    by (auto simp: py_int_def dec_literal_def split: list.split)
  ultimately show ?thesis
    by (auto simp: addr_port_def exn_bind_def py_index_def split: sum.splits if_splits)
qed

subsection \<open>The filter\<close>

text \<open>An address without a colon makes \<^verbatim>\<open>check_port\<close> raise \<^verbatim>\<open>IndexError\<close>
  (and only such an address does); it is not rejected with \<open>False\<close>.\<close>

theorem check_port_no_colon: "check_port addr = Inl IndexError \<longleftrightarrow> CHR '':'' \<notin> set addr"
  by (auto simp: check_port_def exn_bind_def addr_port_IndexError [symmetric] split: sum.splits)

theorem check_port_no_colon_witness:
  "check_port ''1.2.3.4'' = Inl IndexError \<and> check_port ''1.2.3.4:x'' \<noteq> Inl IndexError"
  using check_port_no_colon [of "''1.2.3.4''"] check_port_no_colon [of "''1.2.3.4:x''"] by simp

text \<open>C5: for an address \<^verbatim>\<open>host:p\<close> written as Python prints it, \<^verbatim>\<open>check_port\<close>
  returns \<open>False\<close> exactly for the ports of the denylist.\<close>

theorem check_port_denylist:
  "CHR '':'' \<notin> set host \<Longrightarrow> check_port (host @ CHR '':'' # str_of_int p) = Inr (p \<notin> set bad_ports)"
  by (simp add: check_port_def addr_port_host_port str_of_int_no_colon py_int_str_of_int)

theorem check_port_denylist_witness:
  "check_port ''1.2.3.4:22'' = Inr False \<and> check_port ''1.2.3.4:9001'' = Inr True"
proof -
  have a: "check_port (''1.2.3.4'' @ CHR '':'' # str_of_int 22) = Inr (22 \<notin> set bad_ports)"
    by (rule check_port_denylist) simp
  have b: "check_port (''1.2.3.4'' @ CHR '':'' # str_of_int 9001) = Inr (9001 \<notin> set bad_ports)"
    by (rule check_port_denylist) simp
  have "str_of_int 22 = ''22''" and "str_of_int 9001 = ''9001''"
    by code_simp+
  moreover have "(22::int) \<in> set bad_ports" and "(9001::int) \<notin> set bad_ports"
    by (simp_all add: bad_ports_def)
  ultimately show ?thesis using a b by simp
qed

end
