(* ===== verification/Prober.thy ===== *)
theory Prober
  imports World PortFilter
begin

text \<open>
  The reachability prober, \<^verbatim>\<open>is_socket_open\<close> of \<^verbatim>\<open>src/app/main.py\<close> (lines
  114--133). The operating system and the network are an environment \<open>probe_env\<close>:
  \<open>e_socket k\<close> is the exception the \<open>k\<close>-th call of \<^verbatim>\<open>socket.socket()\<close>
  raises, if any (resource exhaustion), and \<open>e_connect k host port t\<close> what the
  \<open>k\<close>-th \<^verbatim>\<open>connect_ex\<close> returns (an errno, 0 for a connection) or raises (name
  resolution), for a socket with timeout \<open>t\<close>. What CPython itself checks is in the
  model: \<^verbatim>\<open>connect_ex\<close> refuses a port outside 0..65535 with \<^verbatim>\<open>OverflowError\<close>
  before it reaches the network, and a new socket takes the module's default timeout at
  creation, so \<^verbatim>\<open>socket.setdefaulttimeout(2.0)\<close>, called after the socket is made,
  only affects later sockets.
\<close>

record probe_env =
  e_socket :: "nat \<Rightarrow> exc option"
  e_connect :: "nat \<Rightarrow> string \<Rightarrow> int \<Rightarrow> rat option \<Rightarrow> int py"

text \<open>A socket object: the timeout it took from the module default when it was made.\<close>

datatype sock = Sock (sock_timeout: "rat option")

text \<open>\<^verbatim>\<open>socket.socket(socket.AF_INET, socket.SOCK_STREAM)\<close>.\<close>

definition socket_new :: "'x probe_env_scheme \<Rightarrow> ('r world, sock) pyM" where
  "socket_new E w =
     (let k = socket_calls w; w' = w\<lparr>socket_calls := Suc k\<rparr>
      in case e_socket E k of
           Some ex \<Rightarrow> (Inl ex, w')
         | None \<Rightarrow> (Inr (Sock (sock_default_timeout w)), w'))"

text \<open>\<^verbatim>\<open>socket.setdefaulttimeout(t)\<close>.\<close>

definition set_default_timeout :: "rat \<Rightarrow> ('r world, unit) pyM" where
  "set_default_timeout t = py_modify (\<lambda>w. w\<lparr>sock_default_timeout := Some t\<rparr>)"

text \<open>\<^verbatim>\<open>sock.connect_ex((host, port))\<close>.\<close>

definition connect_ex :: "'x probe_env_scheme \<Rightarrow> sock \<Rightarrow> string \<Rightarrow> int \<Rightarrow> ('r world, int) pyM" where
  "connect_ex E sk host port w =
     (if port < 0 \<or> 65535 < port then (Inl OverflowError, w)
      else (e_connect E (length (connects w)) host port (sock_timeout sk),
            w\<lparr>connects := connects w @ [(host, port, sock_timeout sk)]\<rparr>))"

text \<open>The body of the \<^verbatim>\<open>try\<close> (lines 124--129). \<^verbatim>\<open>sock.close()\<close> releases the
  descriptor, which the model does not track.\<close>

definition probe_body :: "'x probe_env_scheme \<Rightarrow> string list \<Rightarrow> ('r world, bool) pyM" where
  "probe_body E addrs =
     py_bind (socket_new E) (\<lambda>sock.
     py_bind (set_default_timeout 2) (\<lambda>_.
     py_bind (py_lift (py_int (addrs ! 1))) (\<lambda>port.
     py_bind (connect_ex E sock (addrs ! 0) port) (\<lambda>result.
     py_return (result = 0)))))"

text \<open>\<^verbatim>\<open>is_socket_open(addr)\<close>: every exception of the body is logged and read as
  \<open>False\<close>; the function itself never raises.\<close>

definition is_socket_open :: "'x probe_env_scheme \<Rightarrow> string option \<Rightarrow> 'r world \<Rightarrow> bool \<times> 'r world" where
  "is_socket_open E addr w =
     (case addr of
        None \<Rightarrow> (False, w)
      | Some a \<Rightarrow>
          (let addrs = py_split CHR '':'' a in
           if length addrs < 2 then (False, w)
           else (case probe_body E addrs w of
                   (Inr b, w') \<Rightarrow> (b, w')
                 | (Inl ex, w') \<Rightarrow> (False, log_append ERROR ''Unhandled is_socket_open'' (Some ex) w'))))"

text \<open>An invariant of the process state is \<open>probe-stable\<close> when a probe and a change of the
  random generator's state keep it: every invariant of this kind holds along the whole
  sampler and fetch (\<open>parse_relays_preserves\<close>, \<open>fetch_relays_preserves\<close>).\<close>

definition probe_stable :: "'x probe_env_scheme \<Rightarrow> ('r world \<Rightarrow> bool) \<Rightarrow> bool" where
  "probe_stable E I \<longleftrightarrow>
     (\<forall>a w. I w \<longrightarrow> I (snd (is_socket_open E a w))) \<and> (\<forall>w r d. I w \<longrightarrow> I (w\<lparr>rng := r, draws := d\<rparr>))"

text \<open>The invariant of the process-wide default timeout: every connection attempt but
  the first of the process is made with the 2-second timeout, which is the default from
  the first probe on; and the log records a probe can add.\<close>

definition timeout_inv :: "'r world \<Rightarrow> bool" where
  "timeout_inv w \<longleftrightarrow>
     connects w = [] \<or> list_all (\<lambda>c. snd (snd c) = Some 2) (tl (connects w)) \<and> sock_default_timeout w = Some 2"

text \<open>Every connection attempt made so far was to a port in 0..65535.\<close>

definition ports_in_range :: "'r world \<Rightarrow> bool" where
  "ports_in_range w \<longleftrightarrow> list_all (\<lambda>c. 0 \<le> fst (snd c) \<and> fst (snd c) \<le> 65535) (connects w)"

text \<open>Well-formedness of the socket counters: each connection attempt was made on a
  socket of its own, so there are no more attempts than \<^verbatim>\<open>socket.socket()\<close> calls.\<close>

definition sockets_wf :: "'r world \<Rightarrow> bool" where
  "sockets_wf w \<longleftrightarrow> length (connects w) \<le> socket_calls w"

definition probe_log :: "log_entry \<Rightarrow> bool" where
  "probe_log x \<longleftrightarrow> (\<exists>ex. x = LogRec ERROR ''Unhandled is_socket_open'' (Some ex))"

subsection \<open>Characteristic equations\<close>

lemma probe_body_eq:
  "probe_body E addrs w =
     (let w1 = w\<lparr>socket_calls := Suc (socket_calls w)\<rparr> in
      case e_socket E (socket_calls w) of
        Some ex \<Rightarrow> (Inl ex, w1)
      | None \<Rightarrow>
          (let w2 = w1\<lparr>sock_default_timeout := Some 2\<rparr> in
           case py_int (addrs ! 1) of
             Inl e \<Rightarrow> (Inl e, w2)
           | Inr port \<Rightarrow>
               if port < 0 \<or> 65535 < port then (Inl OverflowError, w2)
               else (map_sum id (\<lambda>r. r = 0)
                       (e_connect E (length (connects w)) (addrs ! 0) port (sock_default_timeout w)),
                     w2\<lparr>connects := connects w @ [(addrs ! 0, port, sock_default_timeout w)]\<rparr>)))"
  by (auto simp: probe_body_def socket_new_def set_default_timeout_def connect_ex_def py_bind_apply Let_def
      split: option.split sum.split)

lemma is_socket_open_Some:
  "2 \<le> length (py_split CHR '':'' a) \<Longrightarrow>
   is_socket_open E (Some a) w =
     (case probe_body E (py_split CHR '':'' a) w of
        (Inr b, w') \<Rightarrow> (b, w')
      | (Inl ex, w') \<Rightarrow> (False, log_append ERROR ''Unhandled is_socket_open'' (Some ex) w'))"
  by (simp add: is_socket_open_def Let_def)

lemma addr_port_split: "2 \<le> length (py_split CHR '':'' a) \<Longrightarrow> addr_port a = py_int (py_split CHR '':'' a ! 1)"
  by (simp add: addr_port_def py_index_def)

lemma is_socket_open_effect:
  assumes "is_socket_open E addr w = (b, w')"
  shows "(connects w' = connects w \<or>
          (\<exists>h p. connects w' = connects w @ [(h, p, sock_default_timeout w)]
                 \<and> sock_default_timeout w' = Some 2))
       \<and> (sock_default_timeout w' = sock_default_timeout w \<or> sock_default_timeout w' = Some 2)"
  using assms
  by (auto simp: is_socket_open_def probe_body_eq Let_def
      split: option.splits sum.splits prod.splits if_splits)

lemma is_socket_open_TrueD:
  assumes "is_socket_open E (Some a) w = (True, w')"
  shows "\<exists>port. addr_port a = Inr port \<and> 0 \<le> port \<and> port \<le> 65535
    \<and> e_connect E (length (connects w)) (py_split CHR '':'' a ! 0) port (sock_default_timeout w) = Inr 0
    \<and> connects w' = connects w @ [(py_split CHR '':'' a ! 0, port, sock_default_timeout w)]"
proof -
  have len: "2 \<le> length (py_split CHR '':'' a)"
    using assms by (auto simp: is_socket_open_def Let_def split: if_splits)
  from assms len show ?thesis
    by (auto simp: is_socket_open_Some probe_body_eq addr_port_split Let_def
        split: option.splits sum.splits prod.splits if_splits)
qed

lemma probe_stable_probe: "probe_stable E I \<Longrightarrow> preserves I (py_total (is_socket_open E a))"
  by (auto simp: probe_stable_def)

lemma probe_stable_rng: "probe_stable E I \<Longrightarrow> I w \<Longrightarrow> I (w\<lparr>rng := r, draws := d\<rparr>)"
  by (simp add: probe_stable_def)

lemma is_socket_open_frame:
  assumes "is_socket_open E a w = (b, w')"
  shows "tg_calls w' = tg_calls w \<and> clock w' = clock w \<and> (\<exists>es. log w' = log w @ es \<and> (\<forall>x\<in>set es. probe_log x))"
  using assms
  by (auto simp: is_socket_open_def probe_body_eq Let_def probe_log_def split: option.splits sum.splits prod.splits if_splits)

lemma timeout_inv_cong:
  "connects v = connects w \<Longrightarrow> sock_default_timeout v = sock_default_timeout w \<Longrightarrow> timeout_inv v = timeout_inv w"
  by (simp add: timeout_inv_def)

lemma probe_stable_timeout_inv: "probe_stable E timeout_inv"
  unfolding probe_stable_def
proof (intro conjI allI impI)
  fix a and w :: "'r world"
  assume inv: "timeout_inv w"
  obtain b w' where st: "is_socket_open E a w = (b, w')" by fastforce
  from is_socket_open_effect [OF st] inv show "timeout_inv (snd (is_socket_open E a w))"
    by (auto simp: st timeout_inv_def tl_append_if)
qed (simp add: timeout_inv_cong [of "w\<lparr>rng := r, draws := d\<rparr>" w for w r d])

lemma probe_stable_ports_in_range: "probe_stable E ports_in_range"
  unfolding probe_stable_def
proof (intro conjI allI impI)
  fix a and w :: "'r world"
  assume "ports_in_range w"
  then show "ports_in_range (snd (is_socket_open E a w))"
    by (auto simp: ports_in_range_def is_socket_open_def probe_body_eq Let_def
        split: option.splits sum.splits prod.splits if_splits)
qed (simp add: ports_in_range_def)

lemma probe_stable_sockets_wf: "probe_stable E sockets_wf"
  unfolding probe_stable_def
proof (intro conjI allI impI)
  fix a and w :: "'r world"
  assume "sockets_wf w"
  then show "sockets_wf (snd (is_socket_open E a w))"
    by (auto simp: sockets_wf_def is_socket_open_def probe_body_eq Let_def
        split: option.splits sum.splits prod.splits if_splits)
qed (simp add: sockets_wf_def)

subsection \<open>Properties\<close>

text \<open>C6: \<^verbatim>\<open>is_socket_open\<close> answers \<open>True\<close> only after a connection attempt to the
  address's host and port, with the port in 0..65535, that the network answered with 0;
  the attempt is recorded with the timeout its socket took from the module default as it
  was before the call, and the default is 2 seconds afterwards. Conversely these
  conditions make it answer \<open>True\<close>.\<close>

theorem is_socket_open_true_iff:
  "is_socket_open E (Some a) w = (True, w') \<longleftrightarrow>
   (\<exists>port. addr_port a = Inr port \<and> 0 \<le> port \<and> port \<le> 65535 \<and> CHR '':'' \<in> set a
     \<and> e_socket E (socket_calls w) = None
     \<and> e_connect E (length (connects w)) (py_split CHR '':'' a ! 0) port (sock_default_timeout w) = Inr 0
     \<and> w' = w\<lparr>socket_calls := Suc (socket_calls w), sock_default_timeout := Some 2,
               connects := connects w @ [(py_split CHR '':'' a ! 0, port, sock_default_timeout w)]\<rparr>)"
proof
  assume h: "is_socket_open E (Some a) w = (True, w')"
  then have len: "2 \<le> length (py_split CHR '':'' a)"
    by (auto simp: is_socket_open_def Let_def split: if_splits)
  then have "CHR '':'' \<in> set a" by (simp add: length_py_split_ge2)
  with h len show "\<exists>port. addr_port a = Inr port \<and> 0 \<le> port \<and> port \<le> 65535 \<and> CHR '':'' \<in> set a
     \<and> e_socket E (socket_calls w) = None
     \<and> e_connect E (length (connects w)) (py_split CHR '':'' a ! 0) port (sock_default_timeout w) = Inr 0
     \<and> w' = w\<lparr>socket_calls := Suc (socket_calls w), sock_default_timeout := Some 2,
               connects := connects w @ [(py_split CHR '':'' a ! 0, port, sock_default_timeout w)]\<rparr>"
    by (auto simp: is_socket_open_Some probe_body_eq addr_port_split Let_def
        split: option.splits sum.splits prod.splits if_splits)
next
  assume "\<exists>port. addr_port a = Inr port \<and> 0 \<le> port \<and> port \<le> 65535 \<and> CHR '':'' \<in> set a
     \<and> e_socket E (socket_calls w) = None
     \<and> e_connect E (length (connects w)) (py_split CHR '':'' a ! 0) port (sock_default_timeout w) = Inr 0
     \<and> w' = w\<lparr>socket_calls := Suc (socket_calls w), sock_default_timeout := Some 2,
               connects := connects w @ [(py_split CHR '':'' a ! 0, port, sock_default_timeout w)]\<rparr>"
  then show "is_socket_open E (Some a) w = (True, w')"
    by (auto simp: is_socket_open_Some probe_body_eq addr_port_split length_py_split_ge2)
qed
theorem is_socket_open_true_witness:
  "fst (is_socket_open \<lparr>e_socket = (\<lambda>_. None), e_connect = (\<lambda>_ _ _ _. Inr 0)\<rparr> (Some ''1.2.3.4:80'') (init_world (0::nat) 0))
   \<and> (\<exists>port. addr_port ''1.2.3.4:80'' = Inr port \<and> 0 \<le> port \<and> port \<le> 65535)"
proof -
  have h: "is_socket_open \<lparr>e_socket = (\<lambda>_. None), e_connect = (\<lambda>_ _ _ _. Inr 0)\<rparr> (Some ''1.2.3.4:80'') (init_world (0::nat) 0) =
    (True, (init_world 0 0)\<lparr>sock_default_timeout := Some 2, socket_calls := 1,
                               connects := [(''1.2.3.4'', 80, None)]\<rparr>)"
    by (simp add: is_socket_open_Some probe_body_eq init_world_def) code_simp
  from is_socket_open_true_iff [THEN iffD1, OF h] h show ?thesis by auto
qed

text \<open>C17: a fault inside the probe (here \<^verbatim>\<open>connect_ex\<close> raising, as it does when the
  host name does not resolve) is not propagated: it is logged and the answer is \<open>False\<close>.\<close>

theorem is_socket_open_connect_fault:
  assumes "2 \<le> length (py_split CHR '':'' a)" and "addr_port a = Inr port" and "0 \<le> port" and "port \<le> 65535"
    and "e_socket E (socket_calls w) = None"
    and "e_connect E (length (connects w)) (py_split CHR '':'' a ! 0) port (sock_default_timeout w) = Inl ex"
  shows "is_socket_open E (Some a) w =
    (False, log_append ERROR ''Unhandled is_socket_open'' (Some ex)
       (w\<lparr>socket_calls := Suc (socket_calls w), sock_default_timeout := Some 2,
          connects := connects w @ [(py_split CHR '':'' a ! 0, port, sock_default_timeout w)]\<rparr>))"
  using assms by (simp add: is_socket_open_Some probe_body_eq addr_port_split Let_def)

theorem is_socket_open_connect_fault_witness:
  "is_socket_open \<lparr>e_socket = (\<lambda>_. None), e_connect = (\<lambda>_ _ _ _. Inl (OSError ''Name or service not known''))\<rparr> (Some ''relay.invalid:9001'') (init_world (0::nat) 0) =
    (False, log_append ERROR ''Unhandled is_socket_open'' (Some (OSError ''Name or service not known''))
       ((init_world 0 0)\<lparr>socket_calls := 1, sock_default_timeout := Some 2,
          connects := [(''relay.invalid'', 9001, None)]\<rparr>))"
proof -
  have p: "addr_port ''relay.invalid:9001'' = Inr 9001" by code_simp
  have "py_split CHR '':'' ''relay.invalid:9001'' ! 0 = ''relay.invalid''" by simp
  with is_socket_open_connect_fault [OF _ p, of "\<lparr>e_socket = (\<lambda>_. None), e_connect = (\<lambda>_ _ _ _. Inl (OSError ''Name or service not known''))\<rparr>" "init_world (0::nat) 0"]
  show ?thesis by (simp add: init_world_def)
qed

text \<open>C15: the first probe of the process is made with no timeout (a blocking connect):
  \<^verbatim>\<open>socket.setdefaulttimeout(2.0)\<close> runs after the socket is created, so only
  sockets of later probes get the 2-second timeout.\<close>

theorem first_probe_blocking:
  assumes "CHR '':'' \<in> set a" and "addr_port a = Inr p" and "0 \<le> p" and "p \<le> 65535"
    and "e_socket E 0 = None"
  shows "connects (snd (is_socket_open E (Some a) (init_world r t))) = [(py_split CHR '':'' a ! 0, p, None)]
    \<and> sock_default_timeout (snd (is_socket_open E (Some a) (init_world r t))) = Some 2"
proof -
  have len: "2 \<le> length (py_split CHR '':'' a)"
    using assms(1) length_py_split_ge2 by blast
  with assms show ?thesis
    by (simp add: is_socket_open_Some probe_body_eq addr_port_split init_world_def Let_def
        split: sum.split)
qed

theorem first_probe_blocking_witness:
  "connects (snd (is_socket_open \<lparr>e_socket = (\<lambda>_. None), e_connect = (\<lambda>_ _ _ _. Inr 111)\<rparr>
      (Some ''1.2.3.4:443'') (init_world (0::nat) 0))) = [(''1.2.3.4'', 443, None)]"
proof -
  have p: "addr_port ''1.2.3.4:443'' = Inr 443" by code_simp
  have "py_split CHR '':'' ''1.2.3.4:443'' ! 0 = ''1.2.3.4''" by simp
  with first_probe_blocking [of "''1.2.3.4:443''" 443 "\<lparr>e_socket = (\<lambda>_. None), e_connect = (\<lambda>_ _ _ _. Inr 111)\<rparr>" "0::nat" 0, OF _ p]
  show ?thesis by simp
qed
end
