(* ===== verification/Directory.thy ===== *)
theory Directory
  imports PyRuntime
begin

text \<open>
  The directory parser: the part of \<^verbatim>\<open>parse_relays\<close> (\<^verbatim>\<open>src/app/main.py\<close>, lines
  159--168) that validates the decoded Onionoo document and reads its relay list, and the
  two fields the sampler reads from a relay record (lines 174 and 176). The document is the
  value \<^verbatim>\<open>resp.json()\<close> returned; the code tests \<^verbatim>\<open>"relays" in json\<close>, which
  is key membership only when the document is a dict.
\<close>

definition relays_not_found :: exc where
  "relays_not_found = FetchedError (FMsg ''Fetching error, relays not found'')"

text \<open>\<^verbatim>\<open>if "relays" not in fetched_relays: raise FetchedError(...)\<close>\<close>

definition check_relays :: "json \<Rightarrow> unit py" where
  "check_relays j = exn_bind (py_has_str j ''relays'') (\<lambda>has. if \<not> has then Inl relays_not_found else Inr ())"

text \<open>\<^verbatim>\<open>fetched_relays["relays"]\<close>\<close>

definition get_relays :: "json \<Rightarrow> json py" where
  "get_relays j = py_getitem j (KStr ''relays'')"

text \<open>\<^verbatim>\<open>relay["or_addresses"]\<close> and \<^verbatim>\<open>relay["fingerprint"]\<close>.\<close>

definition relay_addresses :: "json \<Rightarrow> json py" where
  "relay_addresses relay = py_getitem relay (KStr ''or_addresses'')"

definition relay_fingerprint :: "json \<Rightarrow> json py" where
  "relay_fingerprint relay = py_getitem relay (KStr ''fingerprint'')"

end
