(* ===== verification/Output.thy ===== *)
theory Output
  imports PyRuntime
begin

text \<open>
  The output formatter: \<^verbatim>\<open>"\n".join(filtered_relays)\<close>, the value
  \<^verbatim>\<open>parse_relays\<close> returns (\<^verbatim>\<open>src/app/main.py\<close>, line 179), one accepted entry
  per line.
\<close>

definition format_relays :: "string list \<Rightarrow> string" where
  "format_relays xs = py_join ''\<newline>'' xs"

end
