(* ===== verification/Sampler.thy ===== *)
theory Sampler
  imports Prober Directory Output
begin

text \<open>
  The relay sampler, the loop of \<^verbatim>\<open>parse_relays\<close> (\<^verbatim>\<open>src/app/main.py\<close>, lines
  165--179). Module \<^verbatim>\<open>random\<close> is an environment: \<open>e_randint r a b\<close> is the value
  \<^verbatim>\<open>random.randint(a, b)\<close> draws in state \<open>r\<close> (for \<open>a \<le> b\<close>) and the next
  state; for \<open>b < a\<close> the library raises \<^verbatim>\<open>ValueError\<close> itself. The sampler's
  environment extends the prober's.
\<close>

record 'r sample_env = probe_env +
  e_randint :: "'r \<Rightarrow> int \<Rightarrow> int \<Rightarrow> int \<times> 'r"

text \<open>\<^verbatim>\<open>random.randint(a, b)\<close>.\<close>

definition randint :: "('r, 'x) sample_env_scheme \<Rightarrow> int \<Rightarrow> int \<Rightarrow> ('r world, int) pyM" where
  "randint E a b w =
     (if b < a then (Inl ValueError, w)
      else (case e_randint E (rng w) a b of
              (x, r') \<Rightarrow> (Inr x, w\<lparr>rng := r', draws := Suc (draws w)\<rparr>)))"

text \<open>Lines 172--173: \<^verbatim>\<open>rnd = random.randint(0, len(fetched_relays["relays"]) - 1)\<close>,
  \<^verbatim>\<open>relay = fetched_relays["relays"][rnd]\<close>.\<close>

definition draw_relay :: "('r, 'x) sample_env_scheme \<Rightarrow> json \<Rightarrow> ('r world, json) pyM" where
  "draw_relay E j =
     py_bind (py_lift (exn_bind (get_relays j) py_len)) (\<lambda>n.
     py_bind (randint E 0 (int n - 1)) (\<lambda>rnd.
     py_lift (exn_bind (get_relays j) (\<lambda>rs. py_getitem rs (KInt rnd)))))"

text \<open>Lines 175--176, the body of the \<^verbatim>\<open>for\<close> loop for one item \<open>a\<close>: the address
  is kept when it has no \<^verbatim>\<open>[\<close>, its port passes \<^verbatim>\<open>check_port\<close> and the probe
  answers \<open>True\<close>, tested in this order and only as far as needed (\<^verbatim>\<open>and\<close>);
  the kept line is \<^verbatim>\<open>addr + " " + relay["fingerprint"]\<close>.\<close>

definition addr_step ::
  "('r, 'x) sample_env_scheme \<Rightarrow> json \<Rightarrow> string list \<Rightarrow> json \<Rightarrow> ('r world, string list) pyM" where
  "addr_step E relay acc a =
     py_bind (py_lift (py_as_str a)) (\<lambda>addr.
     if py_find addr CHR ''['' \<noteq> -1 then py_return acc
     else py_bind (py_lift (check_port addr)) (\<lambda>ok.
       if \<not> ok then py_return acc
       else py_bind (py_total (is_socket_open E (Some addr))) (\<lambda>is_open.
         if \<not> is_open then py_return acc
         else py_bind (py_lift (exn_bind (relay_fingerprint relay) (py_str_add (addr @ '' '')))) (\<lambda>line.
           py_return (acc @ [line])))))"

text \<open>Line 174: \<^verbatim>\<open>for addr in relay["or_addresses"]\<close>, the body run on each item in
  turn; an exception ends the loop.\<close>

primrec scan_addrs ::
  "('r, 'x) sample_env_scheme \<Rightarrow> json \<Rightarrow> json list \<Rightarrow> string list \<Rightarrow> ('r world, string list) pyM" where
  "scan_addrs E relay [] acc = py_return acc"
| "scan_addrs E relay (a # as) acc = py_bind (addr_step E relay acc a) (\<lambda>acc'. scan_addrs E relay as acc')"

text \<open>One pass of the \<^verbatim>\<open>while\<close> body (lines 172--176), before \<^verbatim>\<open>counter -= 1\<close>.\<close>

definition sample_step :: "('r, 'x) sample_env_scheme \<Rightarrow> json \<Rightarrow> string list \<Rightarrow> ('r world, string list) pyM" where
  "sample_step E j acc =
     py_bind (draw_relay E j) (\<lambda>relay.
     py_bind (py_lift (exn_bind (relay_addresses relay) py_iter)) (\<lambda>addrs.
     scan_addrs E relay addrs acc))"

text \<open>Line 171: \<^verbatim>\<open>while counter > 0 and len(filtered_relays) < relays_number\<close>, with
  \<^verbatim>\<open>counter -= 1\<close> after each pass (line 177). The counter starts at the length of the
  relay list and only goes down while positive, so it is a \<open>nat\<close>.\<close>

fun sample_loop ::
  "('r, 'x) sample_env_scheme \<Rightarrow> json \<Rightarrow> int \<Rightarrow> nat \<Rightarrow> string list \<Rightarrow> ('r world, string list) pyM" where
  "sample_loop E j n counter acc w =
     (if 0 < counter \<and> int (length acc) < n then
        (case sample_step E j acc w of
           (Inr acc', w') \<Rightarrow> sample_loop E j n (counter - 1) acc' w'
         | (Inl e, w') \<Rightarrow> (Inl e, w'))
      else (Inr acc, w))"

text \<open>\<^verbatim>\<open>parse_relays(json, relays_number)\<close> (lines 159--179).\<close>

definition parse_relays :: "('r, 'x) sample_env_scheme \<Rightarrow> json \<Rightarrow> int \<Rightarrow> ('r world, string) pyM" where
  "parse_relays E j n =
     py_bind (py_lift (check_relays j)) (\<lambda>_.
     py_bind (py_lift (exn_bind (get_relays j) py_len)) (\<lambda>counter.
     py_bind (sample_loop E j n counter []) (\<lambda>filtered.
     py_return (format_relays filtered))))"


subsection \<open>What a kept line is\<close>

text \<open>\<open>probed_open E k0 c host port\<close>: among the connection attempts \<open>c\<close>, from
  index \<open>k0\<close> on, there is one to \<open>host\<close> and \<open>port\<close> that the network answered
  with 0. \<open>accepted\<close>: a line \<^verbatim>\<open>addr fingerprint\<close> built from an address of
  \<open>addrs\<close> and the relay's fingerprint, the address free of \<^verbatim>\<open>[\<close>, its port
  off the denylist and in range, and a successful attempt to it. \<open>dir_line\<close>: such a
  line for a relay of the directory's list. \<open>dir_width\<close>: the largest number of
  addresses a relay of the directory lists.\<close>

definition probed_open :: "'x probe_env_scheme \<Rightarrow> nat \<Rightarrow> attempt list \<Rightarrow> string \<Rightarrow> int \<Rightarrow> bool" where
  "probed_open E k0 c host port \<longleftrightarrow>
     (\<exists>k t. k0 \<le> k \<and> k < length c \<and> c ! k = (host, port, t) \<and> e_connect E k host port t = Inr 0)"

definition accepted :: "'x probe_env_scheme \<Rightarrow> nat \<Rightarrow> attempt list \<Rightarrow> json \<Rightarrow> json list \<Rightarrow> string \<Rightarrow> bool" where
  "accepted E k0 c relay addrs line \<longleftrightarrow>
     (\<exists>addr fp port. line = addr @ CHR '' '' # fp \<and> JStr addr \<in> set addrs \<and>
        relay_fingerprint relay = Inr (JStr fp) \<and> CHR ''['' \<notin> set addr \<and>
        addr_port addr = Inr port \<and> port \<notin> set bad_ports \<and> 0 \<le> port \<and> port \<le> 65535 \<and>
        probed_open E k0 c (py_split CHR '':'' addr ! 0) port)"

definition dir_line :: "'x probe_env_scheme \<Rightarrow> json \<Rightarrow> nat \<Rightarrow> attempt list \<Rightarrow> string \<Rightarrow> bool" where
  "dir_line E j k0 c line \<longleftrightarrow>
     (\<exists>xs relay addrs. get_relays j = Inr (JList xs) \<and> relay \<in> set xs \<and>
        exn_bind (relay_addresses relay) py_iter = Inr addrs \<and> accepted E k0 c relay addrs line)"

definition dir_width :: "json \<Rightarrow> nat" where
  "dir_width j =
     (case get_relays j of
        Inr (JList xs) \<Rightarrow>
          fold max (map (\<lambda>r. case exn_bind (relay_addresses r) py_iter of Inr as \<Rightarrow> length as | Inl _ \<Rightarrow> 0) xs) 0
      | _ \<Rightarrow> 0)"

text \<open>The exceptions the sampler can raise: the interpreter's own, and the
  \<^verbatim>\<open>FetchedError\<close> of a document without relays.\<close>

definition sampler_error :: "exc \<Rightarrow> bool" where
  "sampler_error e \<longleftrightarrow> is_runtime_error e \<or> e = relays_not_found"

declare sample_loop.simps [simp del]

subsection \<open>The address loop\<close>

lemma probed_open_mono:
  "probed_open E k0 c h p \<Longrightarrow> prefix c c' \<Longrightarrow> k0' \<le> k0 \<Longrightarrow> probed_open E k0' c' h p"
  unfolding probed_open_def
  by (metis (no_types, lifting) order.trans order_less_le_trans prefix_length_le nth_append prefix_def)

lemma accepted_mono:
  "accepted E k0 c relay as l \<Longrightarrow> prefix c c' \<Longrightarrow> k0' \<le> k0 \<Longrightarrow> set as \<subseteq> set as'
   \<Longrightarrow> accepted E k0' c' relay as' l"
proof -
  assume acc: "accepted E k0 c relay as l" and pre: "prefix c c'" "k0' \<le> k0" and sub: "set as \<subseteq> set as'"
  from acc obtain addr fp port where
    parts: "l = addr @ CHR '' '' # fp" "JStr addr \<in> set as" "relay_fingerprint relay = Inr (JStr fp)"
      "CHR ''['' \<notin> set addr" "addr_port addr = Inr port" "port \<notin> set bad_ports" "0 \<le> port" "port \<le> 65535"
    and po: "probed_open E k0 c (py_split CHR '':'' addr ! 0) port"
    unfolding accepted_def by blast
  from po pre have "probed_open E k0' c' (py_split CHR '':'' addr ! 0) port"
    by (rule probed_open_mono)
  with parts sub show ?thesis
    unfolding accepted_def by blast
qed

lemma dir_line_mono:
  "dir_line E j k0 c l \<Longrightarrow> prefix c c' \<Longrightarrow> k0' \<le> k0 \<Longrightarrow> dir_line E j k0' c' l"
  unfolding dir_line_def by (blast intro: accepted_mono)

lemma is_socket_open_prefix:
  "is_socket_open E addr w = (b, w') \<Longrightarrow> prefix (connects w) (connects w')"
  by (auto dest!: is_socket_open_effect)

lemma is_socket_open_draws:
  "is_socket_open E addr w = (b, w') \<Longrightarrow> draws w' = draws w"
  by (auto simp: is_socket_open_def probe_body_eq Let_def split: option.splits sum.splits prod.splits if_splits)

lemma addr_step_effect:
  "addr_step E relay acc a w = (r, w') \<Longrightarrow> prefix (connects w) (connects w') \<and> draws w' = draws w"
  unfolding addr_step_def
  by (auto simp: py_bind_apply py_total_apply is_socket_open_prefix is_socket_open_draws
      split: sum.splits prod.splits if_splits)

lemma addr_step_Inr:
  assumes "addr_step E relay acc a w = (Inr acc', w')"
  shows "acc' = acc \<or> (\<exists>l. acc' = acc @ [l] \<and> accepted E (length (connects w)) (connects w') relay [a] l)"
proof -
  { fix addr fp w1
    assume nb: "CHR ''['' \<notin> set addr" and cp: "check_port addr = Inr True"
      and op: "is_socket_open E (Some addr) w = (True, w')" and fp: "relay_fingerprint relay = Inr (JStr fp)"
    from is_socket_open_TrueD [OF op] obtain port where
      port: "addr_port addr = Inr port" "0 \<le> port" "port \<le> 65535"
      and conn: "e_connect E (length (connects w)) (py_split CHR '':'' addr ! 0) port (sock_default_timeout w) = Inr 0"
      and c1: "connects w' = connects w @ [(py_split CHR '':'' addr ! 0, port, sock_default_timeout w)]"
      by blast
    from cp port have "port \<notin> set bad_ports" by (simp add: check_port_def)
    moreover have "probed_open E (length (connects w)) (connects w') (py_split CHR '':'' addr ! 0) port"
      unfolding probed_open_def using conn c1 by auto
    ultimately have "accepted E (length (connects w)) (connects w') relay [JStr addr] (addr @ CHR '' '' # fp)"
      unfolding accepted_def using nb fp port by auto }
  note keep = this
  from assms show ?thesis
    unfolding addr_step_def
    by (auto simp: py_bind_apply py_total_apply py_find_eq_minus_one exn_bind_eq_Inr
        split: sum.splits prod.splits if_splits elim!: py_as_str.elims py_str_add.elims simp: keep)
qed

lemma scan_addrs_effect:
  "scan_addrs E relay as acc w = (r, w') \<Longrightarrow> prefix (connects w) (connects w') \<and> draws w' = draws w"
proof (induction as arbitrary: acc w)
  case Nil
  then show ?case by simp
next
  case (Cons a as)
  from Cons.prems show ?case
    by (auto simp: py_bind_apply split: prod.splits sum.splits
        dest!: addr_step_effect Cons.IH intro: prefix_order.trans)
qed

lemma scan_addrs_Inr:
  "scan_addrs E relay as acc w = (Inr acc', w') \<Longrightarrow>
   \<exists>new. acc' = acc @ new \<and> length new \<le> length as \<and>
     (\<forall>l \<in> set new. accepted E (length (connects w)) (connects w') relay as l)"
proof (induction as arbitrary: acc w)
  case Nil
  then show ?case by simp
next
  case (Cons a as)
  from Cons.prems obtain acc1 w1 where s1: "addr_step E relay acc a w = (Inr acc1, w1)"
    and rest: "scan_addrs E relay as acc1 w1 = (Inr acc', w')"
    by (auto elim: py_bind_InrE)
  from Cons.IH [OF rest] obtain new where new: "acc' = acc1 @ new" "length new \<le> length as"
    and ok2: "\<forall>l \<in> set new. accepted E (length (connects w1)) (connects w') relay as l"
    by blast
  have p01: "prefix (connects w) (connects w1)" using addr_step_effect [OF s1] by simp
  have p1: "prefix (connects w1) (connects w')" using scan_addrs_effect [OF rest] by simp
  have k: "length (connects w) \<le> length (connects w1)" using p01 by (rule prefix_length_le)
  have lift: "accepted E (length (connects w)) (connects w') relay (a # as) l"
    if "l \<in> set new" for l
  proof -
    from ok2 that have "accepted E (length (connects w1)) (connects w') relay as l" by blast
    then show ?thesis by (rule accepted_mono [OF _ prefix_order.refl k]) auto
  qed
  from addr_step_Inr [OF s1] show ?case
  proof
    assume "acc1 = acc"
    with new lift show ?thesis by (intro exI [of _ new]) auto
  next
    assume "\<exists>l. acc1 = acc @ [l] \<and> accepted E (length (connects w)) (connects w1) relay [a] l"
    then obtain l where l: "acc1 = acc @ [l]" and al: "accepted E (length (connects w)) (connects w1) relay [a] l"
      by blast
    from al p1 have "accepted E (length (connects w)) (connects w') relay (a # as) l"
      by (rule accepted_mono) auto
    with new l lift show ?thesis by (intro exI [of _ "l # new"]) auto
  qed
qed

lemma randint_effect:
  "randint E a b w = (r, w') \<Longrightarrow> connects w' = connects w \<and> draws w \<le> draws w' \<and> draws w' \<le> Suc (draws w)
     \<and> (\<forall>x. r = Inr x \<longrightarrow> draws w' = Suc (draws w))"
  by (auto simp: randint_def split: if_splits prod.splits)

lemma draw_relay_effect:
  "draw_relay E j w = (r, w') \<Longrightarrow> connects w' = connects w \<and> draws w \<le> draws w' \<and> draws w' \<le> Suc (draws w)
     \<and> (\<forall>x. r = Inr x \<longrightarrow> draws w' = Suc (draws w))"
  unfolding draw_relay_def
  by (auto simp: py_bind_apply split: prod.splits sum.splits dest!: randint_effect)

text \<open>The item \<^verbatim>\<open>fetched_relays["relays"][rnd]\<close>: a relay of the list, or a
  character when the value is a string.\<close>

lemma relay_item_cases:
  assumes "exn_bind (get_relays j) (\<lambda>rs. py_getitem rs (KInt i)) = Inr relay"
  shows "(\<exists>xs. get_relays j = Inr (JList xs) \<and> relay \<in> set xs) \<or> (\<exists>s c. get_relays j = Inr (JStr s) \<and> relay = JStr [c])"
proof -
  from assms obtain rs where rs: "get_relays j = Inr rs" and g: "py_getitem rs (KInt i) = Inr relay"
    by (auto simp: exn_bind_eq_Inr)
  show ?thesis
  proof (cases rs)
    case (JList xs)
    with g have "relay \<in> set xs" by (auto elim: py_index_in_set)
    with rs JList show ?thesis by blast
  next
    case (JStr s)
    with g rs show ?thesis by auto
  qed (use g in auto)
qed

lemma draw_relay_Inr:
  "draw_relay E j w = (Inr relay, w') \<Longrightarrow>
   (\<exists>xs. get_relays j = Inr (JList xs) \<and> relay \<in> set xs) \<or> (\<exists>s c. get_relays j = Inr (JStr s) \<and> relay = JStr [c])"
  unfolding draw_relay_def by (auto elim!: py_bind_InrE dest!: relay_item_cases)

lemma sample_step_effect:
  "sample_step E j acc w = (r, w') \<Longrightarrow> prefix (connects w) (connects w') \<and> draws w \<le> draws w' \<and> draws w' \<le> Suc (draws w)"
  unfolding sample_step_def
  by (auto simp: py_bind_apply split: prod.splits sum.splits dest!: draw_relay_effect scan_addrs_effect)

lemma sample_step_Inr:
  assumes "sample_step E j acc w = (Inr acc', w')"
  shows "\<exists>new xs relay addrs. acc' = acc @ new \<and> get_relays j = Inr (JList xs) \<and> relay \<in> set xs \<and>
     exn_bind (relay_addresses relay) py_iter = Inr addrs \<and> length new \<le> length addrs \<and>
     draws w' = Suc (draws w) \<and> (\<forall>l \<in> set new. dir_line E j (length (connects w)) (connects w') l)"
proof -
  from assms obtain relay w1 where d: "draw_relay E j w = (Inr relay, w1)"
    and r1: "py_bind (py_lift (exn_bind (relay_addresses relay) py_iter))
               (\<lambda>addrs. scan_addrs E relay addrs acc) w1 = (Inr acc', w')"
    unfolding sample_step_def by (rule py_bind_InrE)
  from r1 obtain addrs where a: "exn_bind (relay_addresses relay) py_iter = Inr addrs"
    and s: "scan_addrs E relay addrs acc w1 = (Inr acc', w')"
    by (auto elim: py_bind_InrE)
  from d have c1: "connects w1 = connects w" and d1: "draws w1 = Suc (draws w)"
    by (auto dest: draw_relay_effect)
  from draw_relay_Inr [OF d] a obtain xs where xs: "get_relays j = Inr (JList xs)" "relay \<in> set xs"
    by (auto simp: relay_addresses_def exn_bind_eq_Inr)
  from scan_addrs_Inr [OF s] obtain new where n1: "acc' = acc @ new" and n2: "length new \<le> length addrs"
    and ok: "\<forall>l \<in> set new. accepted E (length (connects w1)) (connects w') relay addrs l" by blast
  have dr: "draws w' = Suc (draws w)" using scan_addrs_effect [OF s] d1 by simp
  have "\<forall>l \<in> set new. dir_line E j (length (connects w)) (connects w') l"
    using ok xs a c1 unfolding dir_line_def by metis
  with n1 n2 xs a dr show ?thesis by blast
qed

subsection \<open>The sampling loop\<close>

lemma fold_max_init: "(a::nat) \<le> fold max xs a"
  by (induction xs arbitrary: a) (auto intro: order.trans [OF max.cobounded2])

lemma fold_max_ge: "x \<in> set xs \<Longrightarrow> (x::nat) \<le> fold max xs a"
  by (induction xs arbitrary: a) (auto intro: order.trans [OF max.cobounded1 fold_max_init])

lemma sample_loop_unfold:
  "sample_loop E j n c acc w =
     (if 0 < c \<and> int (length acc) < n then
        (case sample_step E j acc w of
           (Inr acc', w') \<Rightarrow> sample_loop E j n (c - 1) acc' w'
         | (Inl e, w') \<Rightarrow> (Inl e, w'))
      else (Inr acc, w))"
  by (rule sample_loop.simps)

lemma sample_loop_effect:
  "sample_loop E j n c acc w = (r, w') \<Longrightarrow>
   prefix (connects w) (connects w') \<and> draws w \<le> draws w' \<and> draws w' \<le> draws w + c"
proof (induction E j n c acc w arbitrary: r w' rule: sample_loop.induct)
  case (1 E j n c acc w)
  show ?case
  proof (cases "0 < c \<and> int (length acc) < n")
    case False
    with "1.prems" show ?thesis by (simp add: sample_loop_unfold)
  next
    case True
    obtain r1 w1 where st: "sample_step E j acc w = (r1, w1)" by fastforce
    note e1 = sample_step_effect [OF st]
    show ?thesis
    proof (cases r1)
      case (Inl e)
      with True st "1.prems" e1 show ?thesis by (simp add: sample_loop_unfold)
    next
      case (Inr acc1)
      with True st "1.prems" have "sample_loop E j n (c - 1) acc1 w1 = (r, w')"
        by (simp add: sample_loop_unfold)
      from "1.IH" [OF True st [symmetric] Inr this] e1 True show ?thesis
        by (auto intro: prefix_order.trans)
    qed
  qed
qed

lemma sample_loop_Inr_induct [consumes 1, case_names stop step]:
  assumes run: "sample_loop E j n c acc w = (Inr acc', w')"
    and stop: "\<And>c acc w. \<not> (0 < c \<and> int (length acc) < n) \<Longrightarrow> P c acc w acc w"
    and step: "\<And>c acc w acc1 w1. int (length acc) < n \<Longrightarrow>
                 sample_step E j acc w = (Inr acc1, w1) \<Longrightarrow>
                 sample_loop E j n c acc1 w1 = (Inr acc', w') \<Longrightarrow>
                 P c acc1 w1 acc' w' \<Longrightarrow> P (Suc c) acc w acc' w'"
  shows "P c acc w acc' w'"
  using run
proof (induction c arbitrary: acc w)
  case 0
  then have "acc' = acc" "w' = w" by (simp_all add: sample_loop_unfold)
  with stop [of 0] show ?case by simp
next
  case (Suc c)
  show ?case
  proof (cases "int (length acc) < n")
    case False
    with Suc.prems have "acc' = acc" "w' = w" by (simp_all add: sample_loop_unfold)
    with False stop [of "Suc c"] show ?thesis by simp
  next
    case True
    obtain r1 w1 where st: "sample_step E j acc w = (r1, w1)" by fastforce
    with True Suc.prems obtain acc1 where r1: "r1 = Inr acc1"
      and rest: "sample_loop E j n c acc1 w1 = (Inr acc', w')"
      by (cases r1) (simp_all add: sample_loop_unfold)
    from rest have "P c acc1 w1 acc' w'" by (rule Suc.IH)
    with True st r1 rest show ?thesis by (auto intro: step)
  qed
qed

lemma sample_loop_Inr:
  assumes "sample_loop E j n c acc w = (Inr acc', w')"
  shows "\<exists>new. acc' = acc @ new \<and> (\<forall>l \<in> set new. dir_line E j (length (connects w)) (connects w') l)"
  using assms
proof (induction rule: sample_loop_Inr_induct)
  case (stop c acc w)
  then show ?case by simp
next
  case (step c acc w acc1 w1)
  from sample_step_Inr [OF step.hyps(2)] obtain new1 where
    n1: "acc1 = acc @ new1" and ok1: "\<forall>l \<in> set new1. dir_line E j (length (connects w)) (connects w1) l"
    by blast
  from step.IH obtain new2 where n2: "acc' = acc1 @ new2"
    and ok2: "\<forall>l \<in> set new2. dir_line E j (length (connects w1)) (connects w') l" by blast
  have p01: "prefix (connects w) (connects w1)" using sample_step_effect [OF step.hyps(2)] by simp
  have p1: "prefix (connects w1) (connects w')" using sample_loop_effect [OF step.hyps(3)] by simp
  have k: "length (connects w) \<le> length (connects w1)" using p01 by (rule prefix_length_le)
  have "dir_line E j (length (connects w)) (connects w') l" if "l \<in> set (new1 @ new2)" for l
    using that ok1 ok2 p1 k unfolding dir_line_def
    by (metis Un_iff accepted_mono order.refl prefix_order.refl set_append)
  with n1 n2 show ?case by (intro exI [of _ "new1 @ new2"]) auto
qed

lemma sample_loop_exhausted:
  assumes "sample_loop E j n c acc w = (Inr acc', w')" and "int (length acc') < n"
  shows "draws w' = draws w + c"
  using assms
proof (induction rule: sample_loop_Inr_induct)
  case (stop c acc w)
  then show ?case by simp
next
  case (step c acc w acc1 w1)
  from sample_step_Inr [OF step.hyps(2)] have "draws w1 = Suc (draws w)" by blast
  with step.IH step.prems show ?case by simp
qed

lemma sample_loop_width:
  assumes "sample_loop E j n c acc w = (Inr acc', w')"
  shows "int (length acc') \<le> max (int (length acc)) (n - 1 + int (dir_width j))"
  using assms
proof (induction rule: sample_loop_Inr_induct)
  case (stop c acc w)
  then show ?case by simp
next
  case (step c acc w acc1 w1)
  from sample_step_Inr [OF step.hyps(2)] obtain new xs relay addrs where
    n1: "acc1 = acc @ new" and xs: "get_relays j = Inr (JList xs)" "relay \<in> set xs"
    and a: "exn_bind (relay_addresses relay) py_iter = Inr addrs" and l: "length new \<le> length addrs"
    by blast
  have "length addrs \<le> dir_width j"
  proof -
    have "length addrs \<in> set (map (\<lambda>r. case exn_bind (relay_addresses r) py_iter of
                                 Inr as \<Rightarrow> length as | Inl _ \<Rightarrow> 0) xs)"
      using xs(2) a by (force simp: image_iff)
    then show ?thesis using xs(1) by (simp add: dir_width_def fold_max_ge)
  qed
  with n1 l step.hyps(1) have "int (length acc1) \<le> n - 1 + int (dir_width j)" by simp
  with step.IH show ?case by linarith
qed

subsection \<open>Exceptions\<close>

lemma check_port_Inl: "check_port a = Inl e \<Longrightarrow> is_runtime_error e"
  by (auto simp: check_port_def addr_port_def exn_bind_eq_Inl intro: runtime_error_results)

lemma relay_fields_Inl:
  "exn_bind (relay_fingerprint r) (py_str_add s) = Inl e \<Longrightarrow> is_runtime_error e"
  "exn_bind (relay_addresses r) py_iter = Inl e \<Longrightarrow> is_runtime_error e"
  "exn_bind (get_relays j) py_len = Inl e \<Longrightarrow> is_runtime_error e"
  "exn_bind (get_relays j) (\<lambda>rs. py_getitem rs (KInt i)) = Inl e \<Longrightarrow> is_runtime_error e"
  "check_relays j = Inl e \<Longrightarrow> sampler_error e"
  by (auto simp: relay_fingerprint_def relay_addresses_def get_relays_def check_relays_def
      exn_bind_eq_Inl sampler_error_def intro: runtime_error_results split: if_splits)

lemma randint_raises: "raises_only is_runtime_error (randint E a b)"
  by (auto simp: raises_only_def randint_def split: if_splits prod.splits)

lemma addr_step_raises: "raises_only is_runtime_error (addr_step E relay acc a)"
  unfolding addr_step_def
  by (intro raises_only_bind raises_only_lift raises_only_if raises_only_return raises_only_total)
     (auto intro: runtime_error_results check_port_Inl relay_fields_Inl)

lemma scan_addrs_raises: "raises_only is_runtime_error (scan_addrs E relay as acc)"
  by (induction as arbitrary: acc) (auto intro!: raises_only_bind addr_step_raises)

lemma sample_step_raises: "raises_only is_runtime_error (sample_step E j acc)"
  unfolding sample_step_def draw_relay_def
  by (intro raises_only_bind raises_only_lift scan_addrs_raises randint_raises)
     (auto intro: relay_fields_Inl)

lemma sample_loop_raises: "raises_only is_runtime_error (sample_loop E j n c acc)"
proof (induction c arbitrary: acc)
  case 0
  then show ?case by (simp add: raises_only_def sample_loop_unfold)
next
  case (Suc c)
  show ?case
    unfolding raises_only_def
  proof (intro allI impI)
    fix w e w'
    assume run: "sample_loop E j n (Suc c) acc w = (Inl e, w')"
    show "is_runtime_error e"
    proof (cases "sample_step E j acc w")
      case (Pair r w1)
      with run sample_step_raises [THEN raises_onlyD] Suc.IH [THEN raises_onlyD] show ?thesis
        by (cases r) (auto simp: sample_loop_unfold split: if_splits)
    qed
  qed
qed

subsection \<open>Invariants of the process state\<close>

lemma randint_preserves: "probe_stable E I \<Longrightarrow> preserves I (randint E a b)"
  by (auto simp: preserves_def randint_def probe_stable_rng split: prod.split)

lemma addr_step_preserves: "probe_stable E I \<Longrightarrow> preserves I (addr_step E relay acc a)"
  unfolding addr_step_def by (intro preserves_bind preserves_lift preserves_if preserves_return probe_stable_probe)

lemma scan_addrs_preserves: "probe_stable E I \<Longrightarrow> preserves I (scan_addrs E relay as acc)"
  by (induction as arbitrary: acc) (auto intro!: preserves_bind addr_step_preserves)

lemma sample_step_preserves: "probe_stable E I \<Longrightarrow> preserves I (sample_step E j acc)"
  unfolding sample_step_def draw_relay_def
  by (intro preserves_bind preserves_lift randint_preserves scan_addrs_preserves)

lemma sample_loop_preserves: "probe_stable E I \<Longrightarrow> preserves I (sample_loop E j n c acc)"
proof (induction c arbitrary: acc)
  case 0
  then show ?case by (simp add: preserves_def sample_loop_unfold)
next
  case (Suc c)
  show ?case
    unfolding preserves_def
  proof (intro allI impI)
    fix w
    assume "I w"
    obtain r w1 where st: "sample_step E j acc w = (r, w1)" by fastforce
    from preservesD [OF sample_step_preserves [OF Suc.prems] \<open>I w\<close> st] have "I w1" .
    have IH: "\<And>acc s. I s \<Longrightarrow> I (snd (sample_loop E j n c acc s))"
      using Suc.IH [OF Suc.prems] by (simp add: preserves_def)
    with st \<open>I w\<close> \<open>I w1\<close> show "I (snd (sample_loop E j n (Suc c) acc w))"
      by (cases r) (auto simp: sample_loop_unfold [of E j n "Suc c"])
  qed
qed

lemma parse_relays_preserves: "probe_stable E I \<Longrightarrow> preserves I (parse_relays E j n)"
  unfolding parse_relays_def by (intro preserves_bind preserves_lift preserves_return sample_loop_preserves)

subsection \<open>parse_relays\<close>

text \<open>Fixtures for the concrete runs below: a network where every connection succeeds or
  every one is refused, a random module whose \<^verbatim>\<open>randint(a, b)\<close> returns \<open>a\<close>, and
  directories built from relay records.\<close>

abbreviation up_env :: "nat sample_env" where
  "up_env \<equiv> \<lparr>e_socket = (\<lambda>_. None), e_connect = (\<lambda>_ _ _ _. Inr 0), e_randint = (\<lambda>r a b. (a, Suc r))\<rparr>"

abbreviation down_env :: "nat sample_env" where
  "down_env \<equiv> \<lparr>e_socket = (\<lambda>_. None), e_connect = (\<lambda>_ _ _ _. Inr 111), e_randint = (\<lambda>r a b. (a, Suc r))\<rparr>"

abbreviation relay_rec :: "string \<Rightarrow> string list \<Rightarrow> json" where
  "relay_rec fp addrs \<equiv> JObj [(''fingerprint'', JStr fp), (''or_addresses'', JList (map JStr addrs))]"

abbreviation directory :: "json list \<Rightarrow> json" where
  "directory rs \<equiv> JObj [(''relays'', JList rs)]"

lemma parse_relays_Inr_loop:
  assumes "parse_relays E j n w = (Inr out, w')"
  obtains N entries where "check_relays j = Inr ()" and "exn_bind (get_relays j) py_len = Inr N"
    and "sample_loop E j n N [] w = (Inr entries, w')" and "out = format_relays entries"
  using assms unfolding parse_relays_def by (auto elim!: py_bind_InrE)

lemma parse_relays_raises: "raises_only sampler_error (parse_relays E j n)"
  unfolding parse_relays_def
  by (intro raises_only_bind raises_only_lift raises_only_return)
     (auto intro: relay_fields_Inl raises_only_mono [OF sample_loop_raises] simp: sampler_error_def
       dest: relay_fields_Inl(5) [unfolded sampler_error_def])
lemma parse_relays_fst_Inr:
  assumes "fst (parse_relays E j n w) = Inr out"
  obtains w' where "parse_relays E j n w = (Inr out, w')"
  using assms by (cases "parse_relays E j n w") auto

text \<open>C1: every line \<^verbatim>\<open>parse_relays\<close> returns is \<^verbatim>\<open>addr fingerprint\<close> for an
  address and the fingerprint of a relay of the directory's list, where the address has
  no \<^verbatim>\<open>[\<close>, its port is off the denylist and in 0..65535, and a connection attempt
  to it made during this run succeeded.\<close>

theorem parse_relays_sound:
  assumes "parse_relays E j n w = (Inr out, w')"
  shows "\<exists>entries. out = format_relays entries \<and>
           (\<forall>l \<in> set entries. dir_line E j (length (connects w)) (connects w') l)"
proof -
  from assms obtain N entries where loop: "sample_loop E j n N [] w = (Inr entries, w')"
    and out: "out = format_relays entries"
    by (rule parse_relays_Inr_loop)
  from sample_loop_Inr [OF loop] out show ?thesis by auto
qed

theorem parse_relays_sound_witness:
  "\<exists>w' entries. parse_relays up_env (directory [relay_rec ''F'' [''1.2.3.4:80'']]) 5 (init_world 0 0)
      = (Inr ''1.2.3.4:80 F'', w') \<and> ''1.2.3.4:80 F'' = format_relays entries \<and>
     (\<forall>l \<in> set entries. dir_line up_env (directory [relay_rec ''F'' [''1.2.3.4:80'']]) 0 (connects w') l)"
proof -
  have "fst (parse_relays up_env (directory [relay_rec ''F'' [''1.2.3.4:80'']]) 5 (init_world 0 0))
        = Inr ''1.2.3.4:80 F''"
    by code_simp
  then obtain w' where h: "parse_relays up_env (directory [relay_rec ''F'' [''1.2.3.4:80'']]) 5 (init_world 0 0)
        = (Inr ''1.2.3.4:80 F'', w')"
    by (rule parse_relays_fst_Inr)
  from parse_relays_sound [OF h] h show ?thesis by (auto simp: init_world_def)
qed

text \<open>C4: the loop terminates after at most as many draws as the relay list has
  entries, whatever the network and the random module do, including when it raises.\<close>

theorem parse_relays_draws:
  "draws w \<le> draws (snd (parse_relays E j n w)) \<and>
   draws (snd (parse_relays E j n w)) \<le> draws w + (case exn_bind (get_relays j) py_len of Inr N \<Rightarrow> N | Inl _ \<Rightarrow> 0)"
proof (cases "check_relays j")
  case (Inl e)
  then show ?thesis by (simp add: parse_relays_def)
next
  case (Inr u)
  show ?thesis
  proof (cases "exn_bind (get_relays j) py_len")
    case (Inl e)
    with Inr show ?thesis by (simp add: parse_relays_def)
  next
    case (Inr N)
    obtain r w' where loop: "sample_loop E j n N [] w = (r, w')" by fastforce
    from sample_loop_effect [OF loop] \<open>check_relays j = Inr u\<close> Inr loop show ?thesis
      by (cases r) (simp_all add: parse_relays_def py_bind_apply)
  qed
qed

text \<open>C14: when \<^verbatim>\<open>parse_relays\<close> returns fewer lines than \<^verbatim>\<open>relays_number\<close>, it
  made exactly one draw per entry of the relay list (the counter ran out), so relays may be
  drawn again and others never.\<close>

theorem parse_relays_exhausted:
  assumes "parse_relays E j n w = (Inr out, w')" and "exn_bind (get_relays j) py_len = Inr N"
  shows "\<exists>entries. out = format_relays entries \<and> (int (length entries) < n \<longrightarrow> draws w' = draws w + N)"
proof -
  from assms(1) obtain N' entries where "exn_bind (get_relays j) py_len = Inr N'"
    and loop: "sample_loop E j n N' [] w = (Inr entries, w')" and out: "out = format_relays entries"
    by (rule parse_relays_Inr_loop)
  with assms(2) have "N' = N" by simp
  with loop out sample_loop_exhausted [OF loop] show ?thesis by auto
qed

theorem parse_relays_exhausted_witness:
  "\<exists>w' entries. parse_relays down_env (directory [relay_rec ''F'' [''1.2.3.4:80'']]) 5 (init_world 0 0)
      = (Inr [], w') \<and> [] = format_relays entries \<and> (int (length entries) < 5 \<longrightarrow> draws w' = 0 + 1)"
proof -
  have "fst (parse_relays down_env (directory [relay_rec ''F'' [''1.2.3.4:80'']]) 5 (init_world 0 0)) = Inr []"
    by code_simp
  then obtain w' where h: "parse_relays down_env (directory [relay_rec ''F'' [''1.2.3.4:80'']]) 5 (init_world 0 0)
        = (Inr [], w')"
    by (rule parse_relays_fst_Inr)
  have n: "exn_bind (get_relays (directory [relay_rec ''F'' [''1.2.3.4:80'']])) py_len = Inr 1"
    by (simp add: get_relays_def)
  from parse_relays_exhausted [OF h n] h show ?thesis by (auto simp: init_world_def)
qed

text \<open>C13: the number of lines exceeds \<^verbatim>\<open>relays_number\<close> by less than the largest
  number of addresses one relay lists: the bound is checked only between draws.\<close>

theorem parse_relays_overshoot_bound:
  assumes "parse_relays E j n w = (Inr out, w')"
  shows "\<exists>entries. out = format_relays entries \<and> int (length entries) \<le> max 0 (n - 1 + int (dir_width j))"
proof -
  from assms obtain N entries where loop: "sample_loop E j n N [] w = (Inr entries, w')"
    and out: "out = format_relays entries"
    by (rule parse_relays_Inr_loop)
  from sample_loop_width [OF loop] out show ?thesis by auto
qed

theorem parse_relays_overshoot_bound_witness:
  "\<exists>w' entries. parse_relays up_env (directory [relay_rec ''F'' [''1.2.3.4:80'', ''5.6.7.8:443'']]) 1
      (init_world 0 0) = (Inr ''1.2.3.4:80 F\<newline>5.6.7.8:443 F'', w') \<and>
     ''1.2.3.4:80 F\<newline>5.6.7.8:443 F'' = format_relays entries \<and>
     int (length entries) \<le> max 0 (1 - 1 + int (dir_width (directory [relay_rec ''F'' [''1.2.3.4:80'', ''5.6.7.8:443'']])))"
proof -
  have "fst (parse_relays up_env (directory [relay_rec ''F'' [''1.2.3.4:80'', ''5.6.7.8:443'']]) 1 (init_world 0 0))
        = Inr ''1.2.3.4:80 F\<newline>5.6.7.8:443 F''"
    by code_simp
  then obtain w' where h: "parse_relays up_env (directory [relay_rec ''F'' [''1.2.3.4:80'', ''5.6.7.8:443'']]) 1
        (init_world 0 0) = (Inr ''1.2.3.4:80 F\<newline>5.6.7.8:443 F'', w')"
    by (rule parse_relays_fst_Inr)
  from parse_relays_overshoot_bound [OF h] h show ?thesis by blast
qed

text \<open>The output can hold more lines than \<^verbatim>\<open>relays_number\<close>: one relay with two
  reachable addresses and \<^verbatim>\<open>relays_number = 1\<close> gives two lines.\<close>

theorem parse_relays_exceeds_relays_number:
  "fst (parse_relays up_env (directory [relay_rec ''F'' [''1.2.3.4:80'', ''5.6.7.8:443'']]) 1 (init_world 0 0))
     = Inr (format_relays [''1.2.3.4:80 F'', ''5.6.7.8:443 F''])"
  by code_simp

text \<open>A port that \<^verbatim>\<open>int()\<close> reads but that is not written as plain digits,
  such as \<^verbatim>\<open>8_0\<close> or \<^verbatim>\<open> 443\<close>, passes the filter: the probe connects to the
  number (80, 443) while the line keeps the text as the directory wrote it.\<close>

theorem parse_relays_loose_port_text:
  "fst (parse_relays up_env (directory [relay_rec ''F'' [''1.2.3.4:8_0'', ''5.6.7.8: 443'']]) 5 (init_world 0 0))
     = Inr ''1.2.3.4:8_0 F\<newline>5.6.7.8: 443 F''
   \<and> connects (snd (parse_relays up_env (directory [relay_rec ''F'' [''1.2.3.4:8_0'', ''5.6.7.8: 443'']]) 5
       (init_world 0 0))) = [(''1.2.3.4'', 80, None), (''5.6.7.8'', 443, Some 2)]"
  by code_simp

text \<open>C16: an address without a colon (and without \<^verbatim>\<open>[\<close>) is not skipped: when
  the \<^verbatim>\<open>for\<close> loop of line 174 reaches it, \<^verbatim>\<open>check_port\<close> raises
  \<^verbatim>\<open>IndexError\<close>, and the loop ends with that exception, whatever the relay, the
  lines gathered and the addresses after it: nothing is probed, and the lines found
  so far are lost.\<close>

theorem scan_addrs_malformed_aborts:
  assumes "CHR '':'' \<notin> set a" and "CHR ''['' \<notin> set a"
  shows "scan_addrs E relay (JStr a # as) acc w = (Inl IndexError, w)"
proof -
  from assms(1) have "addr_port a = Inl IndexError" by (simp add: addr_port_IndexError)
  with assms(2) show ?thesis
    by (simp add: addr_step_def check_port_def py_find_eq_minus_one py_bind_apply)
qed

theorem scan_addrs_malformed_aborts_witness:
  "scan_addrs up_env (relay_rec ''F'' [''1.2.3.4'', ''5.6.7.8:443''])
     [JStr ''1.2.3.4'', JStr ''5.6.7.8:443''] [''5.6.7.8:80 F''] (init_world 0 0) =
   (Inl IndexError, init_world 0 0)"
  by (rule scan_addrs_malformed_aborts) simp_all

text \<open>The same on a whole run: the relay's other addresses are not tried and the
  run ends with the exception.\<close>

theorem parse_relays_malformed_address_aborts:
  "fst (parse_relays up_env (directory [relay_rec ''F'' [''1.2.3.4'', ''5.6.7.8:443'']]) 5 (init_world 0 0))
     = Inl IndexError"
  by code_simp

text \<open>The example of the specification: one relay \<^verbatim>\<open>F\<close> with address
  \<^verbatim>\<open>1.2.3.4:80\<close>, every probe successful, \<^verbatim>\<open>relays_number = 5\<close>: the
  result is the single line \<^verbatim>\<open>1.2.3.4:80 F\<close> (one entry, so one draw).\<close>

theorem parse_relays_spec_example:
  "fst (parse_relays up_env (directory [relay_rec ''F'' [''1.2.3.4:80'']]) 5 (init_world 0 0))
     = Inr ''1.2.3.4:80 F''"
  by code_simp

text \<open>C26: an empty relay list, or a \<^verbatim>\<open>relays_number\<close> of 0 or less, gives the
  empty output at once: nothing is drawn or probed and the process state is unchanged.\<close>

theorem parse_relays_no_work:
  assumes "check_relays j = Inr ()" and "exn_bind (get_relays j) py_len = Inr N" and "N = 0 \<or> n \<le> 0"
  shows "parse_relays E j n w = (Inr [], w)"
  using assms by (auto simp: parse_relays_def sample_loop_unfold format_relays_def py_bind_apply)

theorem parse_relays_no_work_witness:
  "parse_relays up_env (directory []) 30 (init_world 0 0) = (Inr [], init_world 0 0) \<and>
   parse_relays up_env (directory [relay_rec ''F'' [''1.2.3.4:80'']]) 0 (init_world 0 0) = (Inr [], init_world 0 0)"
proof
  show "parse_relays up_env (directory []) 30 (init_world 0 0) = (Inr [], init_world 0 0)"
    by (rule parse_relays_no_work [where N = 0]) (simp_all add: check_relays_def get_relays_def)
  show "parse_relays up_env (directory [relay_rec ''F'' [''1.2.3.4:80'']]) 0 (init_world 0 0)
          = (Inr [], init_world 0 0)"
    by (rule parse_relays_no_work [where N = 1]) (simp_all add: check_relays_def get_relays_def)
qed

text \<open>C25: a dict without the key \<^verbatim>\<open>relays\<close> raises the \<^verbatim>\<open>FetchedError\<close>
  "Fetching error, relays not found" before anything else happens.\<close>

theorem parse_relays_missing_key:
  "''relays'' \<notin> set (map fst kvs) \<Longrightarrow> parse_relays E (JObj kvs) n w = (Inl relays_not_found, w)"
  by (simp add: parse_relays_def check_relays_def)

theorem parse_relays_missing_key_witness:
  "parse_relays up_env (JObj [(''version'', JStr ''8.0'')]) 30 (init_world 0 0)
     = (Inl relays_not_found, init_world 0 0)"
  by (rule parse_relays_missing_key) simp

text \<open>A document that is not a dict is refused with an exception, either the
  \<^verbatim>\<open>FetchedError\<close> or the \<^verbatim>\<open>TypeError\<close> of subscripting it, even when
  \<^verbatim>\<open>"relays" in json\<close> holds (a list holding the string, a string containing it).\<close>

theorem parse_relays_not_dict:
  assumes "\<forall>kvs. j \<noteq> JObj kvs"
  shows "\<exists>e. parse_relays E j n w = (Inl e, w) \<and> (e = relays_not_found \<or> e = TypeError)"
  using assms
  by (cases j) (auto simp: parse_relays_def check_relays_def get_relays_def)

theorem parse_relays_not_dict_witness:
  "\<exists>e. parse_relays up_env (JList [JStr ''relays'']) 30 (init_world 0 0) = (Inl e, init_world 0 0)
     \<and> (e = relays_not_found \<or> e = TypeError)"
  by (rule parse_relays_not_dict) simp

end
