(* ===== verification/Fetch.thy ===== *)
theory Fetch
  imports Sampler
begin

text \<open>
  The directory fetch, \<^verbatim>\<open>fetch_relays\<close> of \<^verbatim>\<open>src/app/main.py\<close> (lines 137--155),
  with the constants it uses (lines 14--22). The HTTP library is an environment:
  \<open>e_get now url timeout headers\<close> is what \<^verbatim>\<open>requests.get\<close> returns (a response,
  whose \<^verbatim>\<open>.json()\<close> may itself raise) or raises when it is called at time \<open>now\<close>,
  so that the directory may change between two fetches; \<open>e_seed t\<close> is the state of module
  \<^verbatim>\<open>random\<close> after \<^verbatim>\<open>random.seed(t, 2)\<close>. The environment extends the
  sampler's.
\<close>

record http_response =
  status_code :: int
  resp_json :: "json py"

record 'r fetch_env = "'r sample_env" +
  e_seed :: "rat \<Rightarrow> 'r"
  e_get :: "rat \<Rightarrow> string \<Rightarrow> int \<Rightarrow> (string \<times> string) list \<Rightarrow> http_response py"

definition onion_url :: string where
  "onion_url = ''https://onionoo.torproject.org/details?type=relay&running=true&fields=fingerprint,or_addresses''"

definition user_agent :: string where
  "user_agent = ''Mozilla/5.0 (Linux; Android 10; Android SDK built for x86) AppleWebKit/537.36 (KHTML, like Gecko) Chrome/91.0.4472.120 Mobile Safari/537.36 ''"

text \<open>\<^verbatim>\<open>random.seed(time.time(), 2)\<close> (line 140).\<close>

definition seed_random :: "('r, 'x) fetch_env_scheme \<Rightarrow> ('r world, unit) pyM" where
  "seed_random E = py_modify (\<lambda>w. w\<lparr>rng := e_seed E (clock w)\<rparr>)"

text \<open>The body of the \<^verbatim>\<open>try\<close> (lines 143--151).\<close>

definition fetch_body :: "('r, 'x) fetch_env_scheme \<Rightarrow> int \<Rightarrow> int \<Rightarrow> ('r world, string) pyM" where
  "fetch_body E relays_number timeout =
     py_bind (py_get clock) (\<lambda>now.
     py_bind (py_lift (e_get E now onion_url timeout [(''User-Agent'', user_agent)])) (\<lambda>resp.
     if status_code resp \<noteq> 200
     then py_raise (FetchedError (FMsg (''Fetching error, server response code is '' @ str_of_int (status_code resp))))
     else py_bind (py_lift (resp_json resp)) (\<lambda>j. parse_relays E j relays_number)))"

text \<open>The two \<^verbatim>\<open>except\<close> clauses (lines 152--155), in order: a
  \<^verbatim>\<open>requests.ConnectionError\<close> becomes a fixed message, any other exception (a
  \<^verbatim>\<open>FetchedError\<close> raised inside the \<^verbatim>\<open>try\<close> included) is wrapped.\<close>

fun is_connection_error :: "exc \<Rightarrow> bool" where
  "is_connection_error (ConnectionError _) = True"
| "is_connection_error _ = False"

definition fetch_handler :: "exc \<Rightarrow> exc" where
  "fetch_handler e =
     (if is_connection_error e then FetchedError (FMsg ''Fetching error, server connection error'')
      else FetchedError (FExc e))"

definition fetch_relays :: "('r, 'x) fetch_env_scheme \<Rightarrow> int \<Rightarrow> int \<Rightarrow> ('r world, string) pyM" where
  "fetch_relays E relays_number timeout =
     py_bind (seed_random E) (\<lambda>_.
     py_catch (fetch_body E relays_number timeout) (\<lambda>e. py_raise (fetch_handler e)))"

text \<open>A line served by the directory: one \<^verbatim>\<open>parse_relays\<close> may return for a
  directory that the server answered with status 200 at some time, the connection
  attempt that accepted it among the attempts \<open>c\<close>.\<close>

definition served_line :: "('r, 'x) fetch_env_scheme \<Rightarrow> int \<Rightarrow> attempt list \<Rightarrow> string \<Rightarrow> bool" where
  "served_line E t c l \<longleftrightarrow>
     (\<exists>now resp j. e_get E now onion_url t [(''User-Agent'', user_agent)] = Inr resp \<and>
        status_code resp = 200 \<and> resp_json resp = Inr j \<and> dir_line E j 0 c l)"

subsection \<open>Properties\<close>

lemma fetch_relays_eq:
  "fetch_relays E n t w =
     (case fetch_body E n t (w\<lparr>rng := e_seed E (clock w)\<rparr>) of
        (Inl e, w') \<Rightarrow> (Inl (fetch_handler e), w')
      | (Inr out, w') \<Rightarrow> (Inr out, w'))"
  by (simp add: fetch_relays_def seed_random_def py_catch_apply split: prod.split sum.split)

lemma parse_relays_not_connection_error:
  "parse_relays E j n w = (Inl e, w') \<Longrightarrow> \<not> is_connection_error e"
proof -
  assume "parse_relays E j n w = (Inl e, w')"
  then have "sampler_error e" by (rule raises_onlyD [OF parse_relays_raises])
  then show ?thesis
    by (cases e) (simp_all add: sampler_error_def relays_not_found_def)
qed

lemma fetch_relays_preserves: "probe_stable E I \<Longrightarrow> preserves I (fetch_relays E n t)"
  unfolding fetch_relays_def fetch_body_def seed_random_def
proof (intro preserves_bind preserves_catch preserves_modify preserves_get preserves_lift preserves_if preserves_raise parse_relays_preserves)
  fix w assume "probe_stable E I" "I w"
  then show "I (w\<lparr>rng := e_seed E (clock w)\<rparr>)"
    using probe_stable_rng [where r = "e_seed E (clock w)" and d = "draws w", OF \<open>probe_stable E I\<close> \<open>I w\<close>] by simp
qed

lemma fetch_relays_Inr:
  assumes "fetch_relays E n t w = (Inr out, w')"
  shows "\<exists>resp j. e_get E (clock w) onion_url t [(''User-Agent'', user_agent)] = Inr resp \<and>
     status_code resp = 200 \<and> resp_json resp = Inr j \<and>
     parse_relays E j n (w\<lparr>rng := e_seed E (clock w)\<rparr>) = (Inr out, w')"
  using assms
  by (auto simp: fetch_relays_eq fetch_body_def py_bind_apply split: prod.splits sum.splits if_splits)

lemma fetch_relays_served:
  assumes "fetch_relays E n t w = (Inr out, w')"
  shows "\<exists>ls. out = format_relays ls \<and> (\<forall>l \<in> set ls. served_line E t (connects w') l)"
proof -
  obtain resp j where get: "e_get E (clock w) onion_url t [(''User-Agent'', user_agent)] = Inr resp"
    and st: "status_code resp = 200" and js: "resp_json resp = Inr j"
    and pr: "parse_relays E j n (w\<lparr>rng := e_seed E (clock w)\<rparr>) = (Inr out, w')"
    using fetch_relays_Inr [OF assms] by blast
  from pr obtain N entries where "sample_loop E j n N [] (w\<lparr>rng := e_seed E (clock w)\<rparr>) = (Inr entries, w')"
    and out: "out = format_relays entries"
    by (rule parse_relays_Inr_loop)
  from sample_loop_Inr [OF this(1)] have "\<forall>l \<in> set entries. dir_line E j 0 (connects w') l"
    by (auto elim: dir_line_mono)
  with get st js out show ?thesis unfolding served_line_def by blast
qed

lemma served_line_mono: "served_line E t c l \<Longrightarrow> prefix c c' \<Longrightarrow> served_line E t c' l"
  unfolding served_line_def by (blast intro: dir_line_mono)

text \<open>A fixture for the concrete runs: the network and random module of \<open>up_env\<close>,
  and an HTTP library whose \<^verbatim>\<open>requests.get\<close> always gives \<open>r\<close>.\<close>

abbreviation web_env :: "http_response py \<Rightarrow> nat fetch_env" where
  "web_env r \<equiv> \<lparr>e_socket = (\<lambda>_. None), e_connect = (\<lambda>_ _ _ _. Inr 0), e_randint = (\<lambda>s a b. (a, Suc s)),
                 e_seed = (\<lambda>t. 0), e_get = (\<lambda>_ _ _ _. r)\<rparr>"

text \<open>C7: whatever happens inside it, \<^verbatim>\<open>fetch_relays\<close> raises nothing but a
  \<^verbatim>\<open>FetchedError\<close>.\<close>

theorem fetch_relays_only_fetched_error:
  "fetch_relays E n t w = (Inl e, w') \<Longrightarrow> is_fetched_error e"
  by (auto simp: fetch_relays_eq fetch_handler_def split: prod.splits sum.splits)

theorem fetch_relays_only_fetched_error_witness:
  "\<exists>e w'. fetch_relays (web_env (Inr \<lparr>status_code = 503, resp_json = Inl (RequestException ''not JSON'')\<rparr>)) 30 5
            (init_world 0 0) = (Inl e, w') \<and> is_fetched_error e"
proof -
  obtain r w' where h: "fetch_relays (web_env (Inr \<lparr>status_code = 503, resp_json = Inl (RequestException ''not JSON'')\<rparr>)) 30 5
            (init_world 0 0) = (r, w')" by fastforce
  moreover have "\<exists>e. r = Inl e"
    using h by (auto simp: fetch_relays_eq fetch_body_def split: prod.splits sum.splits)
  ultimately show ?thesis using fetch_relays_only_fetched_error by blast
qed

text \<open>C23: a response whose status is not exactly 200 (a 204 or another 2xx
  included) is refused with the \<^verbatim>\<open>FetchedError\<close> raised inside the
  \<^verbatim>\<open>try\<close>, which the generic \<^verbatim>\<open>except\<close> clause wraps once more; the message
  (\<open>fetched_message\<close>) is kept through the wrapping.\<close>

theorem fetch_relays_bad_status:
  assumes "e_get E (clock w) onion_url t [(''User-Agent'', user_agent)] = Inr resp" and "status_code resp \<noteq> 200"
  shows "fetch_relays E n t w =
     (Inl (FetchedError (FExc (FetchedError (FMsg (''Fetching error, server response code is '' @ str_of_int (status_code resp)))))),
      w\<lparr>rng := e_seed E (clock w)\<rparr>)"
  using assms by (simp add: fetch_relays_eq fetch_body_def fetch_handler_def)

theorem fetch_relays_bad_status_witness:
  "fetch_relays (web_env (Inr \<lparr>status_code = 204, resp_json = Inr (JObj [(''relays'', JList [])])\<rparr>)) 30 5 (init_world 0 0)
   = (Inl (FetchedError (FExc (FetchedError (FMsg ''Fetching error, server response code is 204'')))),
      (init_world 0 0)\<lparr>rng := 0\<rparr>)"
proof -
  have "str_of_int 204 = ''204''" by code_simp
  with fetch_relays_bad_status [of "web_env (Inr \<lparr>status_code = 204, resp_json = Inr (JObj [(''relays'', JList [])])\<rparr>)"]
  show ?thesis by (simp add: init_world_def)
qed

text \<open>C24: a \<^verbatim>\<open>requests.ConnectionError\<close> becomes the fixed message
  "Fetching error, server connection error".\<close>

theorem fetch_relays_connection_error:
  "e_get E (clock w) onion_url t [(''User-Agent'', user_agent)] = Inl (ConnectionError m) \<Longrightarrow>
   fetch_relays E n t w = (Inl (FetchedError (FMsg ''Fetching error, server connection error'')), w\<lparr>rng := e_seed E (clock w)\<rparr>)"
  by (simp add: fetch_relays_eq fetch_body_def fetch_handler_def)

theorem fetch_relays_connection_error_witness:
  "fetch_relays (web_env (Inl (ConnectionError ''Name or service not known''))) 30 5 (init_world 0 0)
   = (Inl (FetchedError (FMsg ''Fetching error, server connection error'')), (init_world 0 0)\<lparr>rng := 0\<rparr>)"
  using fetch_relays_connection_error [of "web_env (Inl (ConnectionError ''Name or service not known''))"]
  by (simp add: init_world_def)

text \<open>C22: on a 200 response with a decodable body, \<^verbatim>\<open>fetch_relays\<close> is
  \<^verbatim>\<open>parse_relays\<close> run on the body after reseeding the random module, its
  exceptions wrapped in \<^verbatim>\<open>FetchedError\<close>; none of them is taken for a connection
  error, since the probes catch every network fault.\<close>

theorem fetch_relays_ok:
  assumes "e_get E (clock w) onion_url t [(''User-Agent'', user_agent)] = Inr resp" and "status_code resp = 200"
    and "resp_json resp = Inr j"
  shows "fetch_relays E n t w =
     (case parse_relays E j n (w\<lparr>rng := e_seed E (clock w)\<rparr>) of
        (Inl e, w') \<Rightarrow> (Inl (FetchedError (FExc e)), w')
      | (Inr out, w') \<Rightarrow> (Inr out, w'))"
  using assms
  by (auto simp: fetch_relays_eq fetch_body_def fetch_handler_def dest: parse_relays_not_connection_error
      split: prod.split sum.split)

theorem fetch_relays_ok_witness:
  "fetch_relays (web_env (Inr \<lparr>status_code = 200, resp_json = Inr (directory [relay_rec ''F'' [''1.2.3.4'']])\<rparr>)) 30 5
     (init_world 0 0) =
   (case parse_relays (web_env (Inr \<lparr>status_code = 200, resp_json = Inr (directory [relay_rec ''F'' [''1.2.3.4'']])\<rparr>))
           (directory [relay_rec ''F'' [''1.2.3.4'']]) 30 ((init_world 0 0)\<lparr>rng := 0\<rparr>) of
      (Inl e, w') \<Rightarrow> (Inl (FetchedError (FExc e)), w')
    | (Inr out, w') \<Rightarrow> (Inr out, w'))"
  using fetch_relays_ok [of "web_env (Inr \<lparr>status_code = 200, resp_json = Inr (directory [relay_rec ''F'' [''1.2.3.4'']])\<rparr>)"]
  by (simp add: init_world_def)

end
