(* ===== verification/Config.thy ===== *)
theory Config
  imports PyRuntime
begin

text \<open>
  The configuration loader, class \<^verbatim>\<open>Config\<close> of \<^verbatim>\<open>src/app/config.py\<close>: the
  defaults of \<^verbatim>\<open>__init__\<close> and \<^verbatim>\<open>init_env\<close>, which overrides them from the
  process environment (a map from variable names to values). \<^verbatim>\<open>init_env\<close> mutates
  the object field by field, so an \<^verbatim>\<open>int()\<close> that raises leaves the fields
  assigned before it changed; the model threads the object as state.
\<close>

record config =
  timeout :: int
  relays_number :: int
  telegram_token :: "string option"
  debug :: bool

text \<open>\<^verbatim>\<open>Config.__init__\<close> (lines 6--10).\<close>

definition config_init :: config where
  "config_init = \<lparr>timeout = 5, relays_number = 30, telegram_token = Some [], debug = True\<rparr>"

text \<open>An integer setting: \<^verbatim>\<open>if os.getenv(k) is not None: self.f = int(os.environ[k])\<close>.\<close>

definition int_setting :: "(string \<Rightarrow> string option) \<Rightarrow> string \<Rightarrow> (int \<Rightarrow> config \<Rightarrow> config) \<Rightarrow> (config, unit) pyM" where
  "int_setting env k upd =
     (case env k of
        None \<Rightarrow> py_return ()
      | Some v \<Rightarrow> py_bind (py_lift (py_int v)) (\<lambda>x. py_modify (upd x)))"

text \<open>\<^verbatim>\<open>Config.init_env\<close> (lines 12--25).\<close>

definition init_env :: "(string \<Rightarrow> string option) \<Rightarrow> (config, unit) pyM" where
  "init_env env =
     py_bind (py_modify (\<lambda>c. c\<lparr>telegram_token := env ''TOKEN''\<rparr>)) (\<lambda>_.
     py_bind (py_modify (\<lambda>c. case env ''DEBUG'' of
                               None \<Rightarrow> c
                             | Some v \<Rightarrow> c\<lparr>debug := (v = ''1'' \<or> v = ''true'')\<rparr>)) (\<lambda>_.
     py_bind (int_setting env ''REQUEST_TIMEOUT'' (\<lambda>x c. c\<lparr>timeout := x\<rparr>)) (\<lambda>_.
     int_setting env ''RELAYS_NUMBER'' (\<lambda>x c. c\<lparr>relays_number := x\<rparr>))))"

subsection \<open>Properties\<close>

lemma int_setting_None [simp]: "env k = None \<Longrightarrow> int_setting env k upd c = (Inr (), c)"
  by (simp add: int_setting_def)

lemma int_setting_Some:
  "env k = Some v \<Longrightarrow> int_setting env k upd c = (case py_int v of Inl e \<Rightarrow> (Inl e, c) | Inr x \<Rightarrow> (Inr (), upd x c))"
  by (simp add: int_setting_def py_bind_apply split: sum.split)

text \<open>The value an integer setting takes when \<^verbatim>\<open>init_env\<close> returns: the default
  \<open>d\<close> when the variable is unset, else what \<^verbatim>\<open>int()\<close> reads, and whether the
  \<^verbatim>\<open>DEBUG\<close> test holds.\<close>

definition env_int :: "(string \<Rightarrow> string option) \<Rightarrow> string \<Rightarrow> int \<Rightarrow> int" where
  "env_int env k d = (case env k of None \<Rightarrow> d | Some s \<Rightarrow> projr (py_int s))"

definition env_debug :: "(string \<Rightarrow> string option) \<Rightarrow> bool \<Rightarrow> bool" where
  "env_debug env d = (case env ''DEBUG'' of None \<Rightarrow> d | Some v \<Rightarrow> v = ''1'' \<or> v = ''true'')"

lemma int_setting_Inr:
  assumes "int_setting env k upd c = (Inr (), c')"
  shows "c' = (case env k of None \<Rightarrow> c | Some s \<Rightarrow> upd (projr (py_int s)) c)"
  using assms by (auto simp: int_setting_Some split: option.splits sum.splits)

text \<open>\<^verbatim>\<open>init_env\<close> raises exactly when one of the two integer settings is set to
  text \<^verbatim>\<open>int()\<close> refuses, and then raises \<^verbatim>\<open>ValueError\<close>.\<close>

lemma init_env_Inl:
  "fst (init_env env c) = Inl e \<longleftrightarrow>
     e = ValueError \<and> ((\<exists>s. env ''REQUEST_TIMEOUT'' = Some s \<and> isl (py_int s)) \<or>
                       (\<exists>s. env ''RELAYS_NUMBER'' = Some s \<and> isl (py_int s)))"
  by (auto simp: init_env_def int_setting_def py_bind_apply isl_def dest: py_int_Inl
      split: option.splits sum.splits prod.splits)

text \<open>When \<^verbatim>\<open>init_env\<close> returns, every field is the one the environment sets.\<close>

lemma init_env_Inr:
  assumes "init_env env c = (Inr (), c')"
  shows "c' = c\<lparr>timeout := env_int env ''REQUEST_TIMEOUT'' (timeout c),
                 relays_number := env_int env ''RELAYS_NUMBER'' (relays_number c),
                 telegram_token := env ''TOKEN'', debug := env_debug env (debug c)\<rparr>"
proof -
  let ?c1 = "c\<lparr>telegram_token := env ''TOKEN'', debug := env_debug env (debug c)\<rparr>"
  obtain c2 where t: "int_setting env ''REQUEST_TIMEOUT'' (\<lambda>x c. c\<lparr>timeout := x\<rparr>) ?c1 = (Inr (), c2)"
    and r: "int_setting env ''RELAYS_NUMBER'' (\<lambda>x c. c\<lparr>relays_number := x\<rparr>) c2 = (Inr (), c')"
    using assms
    by (auto simp: init_env_def py_bind_apply env_debug_def split: option.splits sum.splits prod.splits)
  show ?thesis
    using int_setting_Inr [OF t] int_setting_Inr [OF r]
    by (simp add: env_int_def split: option.split)
qed

text \<open>With no variable set, the configuration keeps the defaults of
  \<^verbatim>\<open>__init__\<close> (timeout 5, 30 relays, debug on) and the token becomes
  \<^verbatim>\<open>None\<close>.\<close>

theorem init_env_defaults:
  "init_env (\<lambda>_. None) config_init = (Inr (), \<lparr>timeout = 5, relays_number = 30, telegram_token = None, debug = True\<rparr>)"
  by (simp add: init_env_def config_init_def py_bind_apply)

text \<open>C27: \<^verbatim>\<open>RELAYS_NUMBER\<close> is taken as any integer literal, zero and negative
  values included: nothing checks that it is positive.\<close>

theorem init_env_relays_number:
  assumes "env ''RELAYS_NUMBER'' = Some s" and "py_int s = Inr k"
    and "env ''REQUEST_TIMEOUT'' = None"
  shows "init_env env c = (Inr (), c\<lparr>telegram_token := env ''TOKEN'',
            debug := (case env ''DEBUG'' of None \<Rightarrow> debug c | Some v \<Rightarrow> v = ''1'' \<or> v = ''true''),
            relays_number := k\<rparr>)"
  using assms by (simp add: init_env_def int_setting_Some py_bind_apply split: option.split)

theorem init_env_relays_number_witness:
  "init_env (\<lambda>k. if k = ''RELAYS_NUMBER'' then Some ''-3'' else None) config_init
     = (Inr (), \<lparr>timeout = 5, relays_number = -3, telegram_token = None, debug = True\<rparr>)"
proof -
  have "py_int ''-3'' = Inr (-3)" by code_simp
  from init_env_relays_number [OF _ this, of "\<lambda>k. if k = ''RELAYS_NUMBER'' then Some ''-3'' else None" config_init]
  show ?thesis by (simp add: config_init_def)
qed

text \<open>C28: a \<^verbatim>\<open>REQUEST_TIMEOUT\<close> that is not an integer literal makes
  \<^verbatim>\<open>init_env\<close> raise \<^verbatim>\<open>ValueError\<close> (the bot does not start).\<close>

theorem init_env_bad_timeout:
  assumes "env ''REQUEST_TIMEOUT'' = Some s" and "py_int s = Inl e"
  shows "fst (init_env env c) = Inl ValueError"
  using assms py_int_Inl [OF assms(2)] by (simp add: init_env_def int_setting_Some py_bind_apply)

theorem init_env_bad_timeout_witness:
  "fst (init_env (\<lambda>k. if k = ''REQUEST_TIMEOUT'' then Some ''5s'' else None) config_init) = Inl ValueError"
proof -
  have "py_int ''5s'' = Inl ValueError" by code_simp
  with init_env_bad_timeout [of "\<lambda>k. if k = ''REQUEST_TIMEOUT'' then Some ''5s'' else None"]
  show ?thesis by simp
qed

end
