(* ===== verification/Bot.thy ===== *)
theory Bot
  imports Fetch Config
begin

text \<open>
  The command handlers of \<^verbatim>\<open>src/app/main.py\<close> registered with \<^verbatim>\<open>telebot\<close>:
  \<^verbatim>\<open>send_welcome\<close> for \<^verbatim>\<open>/start\<close> and \<^verbatim>\<open>/help\<close> (lines 203--211) and
  \<^verbatim>\<open>relays\<close> for \<^verbatim>\<open>/relays\<close> (lines 215--245). The Telegram Bot API is an
  environment: \<open>e_tg k call\<close> is the exception the \<open>k\<close>-th API call raises, if any.
  Every call is recorded in \<open>tg_calls\<close>, whether or not it then fails. An exception
  that leaves a handler is caught and logged by \<^verbatim>\<open>telebot\<close>'s polling loop, which
  goes on with the next update.
\<close>

record 'r bot_env = "'r fetch_env" +
  e_tg :: "nat \<Rightarrow> tg_call \<Rightarrow> exc option"

text \<open>The incoming message: its chat and its id (what \<^verbatim>\<open>reply_to\<close> quotes).\<close>

record tg_message =
  msg_chat :: int
  msg_id :: int

text \<open>One Bot API request (\<^verbatim>\<open>bot.send_message\<close>, \<^verbatim>\<open>bot.reply_to\<close>,
  \<^verbatim>\<open>bot.send_document\<close>).\<close>

definition tg_api :: "('r, 'x) bot_env_scheme \<Rightarrow> tg_call \<Rightarrow> ('r world, unit) pyM" where
  "tg_api E call w =
     (let w' = w\<lparr>tg_calls := tg_calls w @ [call]\<rparr>
      in case e_tg E (length (tg_calls w)) call of
           Some ex \<Rightarrow> (Inl ex, w')
         | None \<Rightarrow> (Inr (), w'))"

definition welcome_text :: string where
  "welcome_text =
     ''\<newline>Hi, this is a bot giving a list of relays for tor. Below is a list of available commands.\<newline>\<newline>'' @
     ''/start - greeting, help on bot commands\<newline>/help - alias for /start\<newline>'' @
     ''/relays - to get a text document with tor relays\<newline>\<newline>        ''"

definition not_available_text :: string where
  "not_available_text = ''The list of relays is not available. Try later''"

text \<open>\<^verbatim>\<open>send_welcome(message)\<close>.\<close>

definition send_welcome :: "('r, 'x) bot_env_scheme \<Rightarrow> tg_message \<Rightarrow> ('r world, unit) pyM" where
  "send_welcome E m = tg_api E (ReplyTo (msg_chat m) (msg_id m) welcome_text)"

text \<open>Lines 217--220: the first notice, its failure only logged.\<close>

definition relays_notice :: "('r, 'x) bot_env_scheme \<Rightarrow> tg_message \<Rightarrow> ('r world, unit) pyM" where
  "relays_notice E m =
     py_catch (tg_api E (SendMessage (msg_chat m) ''Trying to get a list of relays'')) (\<lambda>ex.
       py_modify (log_append ERROR ''get relays send reply to user'' (Some ex)))"

text \<open>Lines 222--235: the fetch and its two \<^verbatim>\<open>except\<close> clauses, each logging, replying
  and returning (\<open>None\<close>: the handler stops). The reply is outside any \<^verbatim>\<open>try\<close>, so
  its failure leaves the handler.\<close>

definition relays_fetch :: "('r, 'x) bot_env_scheme \<Rightarrow> config \<Rightarrow> tg_message \<Rightarrow> ('r world, string option) pyM" where
  "relays_fetch E cfg m =
     py_catch
       (py_bind (fetch_relays E (relays_number cfg) (timeout cfg)) (\<lambda>output.
        py_bind (py_modify (log_append DEBUG ''load relays successful'' None)) (\<lambda>_.
        py_return (Some output))))
       (\<lambda>e. if is_fetched_error e
            then py_bind (py_modify (log_append ERROR ''get relays fetched error'' (Some e))) (\<lambda>_.
                 py_bind (tg_api E (ReplyTo (msg_chat m) (msg_id m) not_available_text)) (\<lambda>_.
                 py_return None))
            else py_bind (py_modify (log_append ERROR ''get relays fetch relays:'' (Some e))) (\<lambda>_.
                 py_bind (tg_api E (ReplyTo (msg_chat m) (msg_id m) not_available_text)) (\<lambda>_.
                 py_return None)))"

text \<open>Lines 237--245: the document, with the caption naming the configured number, its
  failure only logged. \<^verbatim>\<open>output.encode("utf-8")\<close> is the identity on the model's
  byte strings.\<close>

text \<open>The caption of the document, \<^verbatim>\<open>f"List of {config.relays_number} tor relays"\<close>
  (line 239).\<close>

definition relays_caption :: "config \<Rightarrow> string" where
  "relays_caption cfg = ''List of '' @ str_of_int (relays_number cfg) @ '' tor relays''"

definition relays_document :: "('r, 'x) bot_env_scheme \<Rightarrow> config \<Rightarrow> tg_message \<Rightarrow> string \<Rightarrow> ('r world, unit) pyM" where
  "relays_document E cfg m output =
     py_catch
       (tg_api E (SendDocument (msg_chat m) (relays_caption cfg) output))
       (\<lambda>ex. py_modify (log_append ERROR ''get relays send reply to user'' (Some ex)))"

text \<open>\<^verbatim>\<open>relays(message)\<close> (lines 214--245).\<close>

definition relays_handler :: "('r, 'x) bot_env_scheme \<Rightarrow> config \<Rightarrow> tg_message \<Rightarrow> ('r world, unit) pyM" where
  "relays_handler E cfg m =
     py_bind (relays_notice E m) (\<lambda>_.
     py_bind (relays_fetch E cfg m) (\<lambda>r.
     case r of
       None \<Rightarrow> py_return ()
     | Some output \<Rightarrow> relays_document E cfg m output))"

subsection \<open>What the handlers promise\<close>

text \<open>The second Bot API call of a \<^verbatim>\<open>/relays\<close> answer in chat \<open>c\<close>: the
  not-available reply or the document with the caption.\<close>

definition relays_answer :: "config \<Rightarrow> int \<Rightarrow> tg_call \<Rightarrow> bool" where
  "relays_answer cfg c x =
     (case x of
        ReplyTo c' _ t \<Rightarrow> c' = c \<and> t = not_available_text
      | SendDocument c' cap _ \<Rightarrow> c' = c \<and> cap = relays_caption cfg
      | SendMessage _ _ \<Rightarrow> False)"

text \<open>An invariant of the process state is \<open>handler-stable\<close> when it is probe-stable and
  neither a Bot API call nor a log record other than the one of the generic
  \<^verbatim>\<open>except Exception\<close> clause of \<^verbatim>\<open>relays\<close> (line 231) breaks it.\<close>

definition bot_stable :: "('r, 'x) bot_env_scheme \<Rightarrow> ('r world \<Rightarrow> bool) \<Rightarrow> bool" where
  "bot_stable E I \<longleftrightarrow>
     probe_stable E I \<and> (\<forall>w c. I w \<longrightarrow> I (w\<lparr>tg_calls := c\<rparr>))
     \<and> (\<forall>w lv msg ex. msg \<noteq> ''get relays fetch relays:'' \<longrightarrow> I w \<longrightarrow> I (log_append lv msg ex w))"

subsection \<open>Frames and transcripts\<close>

lemma fetch_relays_raises: "raises_only is_fetched_error (fetch_relays E n t)"
  by (auto simp: raises_only_def fetch_relays_eq fetch_handler_def split: prod.splits sum.splits)

lemma fetch_relays_frame:
  assumes "fetch_relays E n t (w :: 'r world) = (r, w')"
  shows "tg_calls w' = tg_calls w \<and> (\<exists>es. log w' = log w @ es \<and> (\<forall>x\<in>set es. probe_log x))"
proof -
  let ?I = "\<lambda>v :: 'r world. tg_calls v = tg_calls w \<and> (\<exists>es. log v = log w @ es \<and> (\<forall>x\<in>set es. probe_log x))"
  have A: "\<And>a v. ?I v \<Longrightarrow> ?I (snd (is_socket_open E a v))"
  proof -
    fix a and v :: "'r world" assume "?I v"
    moreover obtain b v' where "is_socket_open E a v = (b, v')" by fastforce
    ultimately show "?I (snd (is_socket_open E a v))"
      by (fastforce dest: is_socket_open_frame)
  qed
  have "probe_stable E ?I"
    unfolding probe_stable_def using A by simp
  moreover have "?I w" by simp
  ultimately show ?thesis using assms by (blast dest: preservesD [OF fetch_relays_preserves])
qed

lemma relays_notice_run:
  "fst (relays_notice E m w) = Inr ()"
  "tg_calls (snd (relays_notice E m w)) = tg_calls w @ [SendMessage (msg_chat m) ''Trying to get a list of relays'']"
  by (simp_all add: relays_notice_def tg_api_def py_catch_apply Let_def split: option.split)

lemma relays_handler_calls:
  "\<exists>x. tg_calls (snd (relays_handler E cfg m w)) =
         tg_calls w @ [SendMessage (msg_chat m) ''Trying to get a list of relays'', x] \<and> relays_answer cfg (msg_chat m) x"
proof -
  obtain w1 where n: "relays_notice E m w = (Inr (), w1)"
    using relays_notice_run(1) by (metis prod.collapse)
  have t1: "tg_calls w1 = tg_calls w @ [SendMessage (msg_chat m) ''Trying to get a list of relays'']"
    using relays_notice_run(2) [of E m w] n by simp
  obtain r w2 where f: "fetch_relays E (relays_number cfg) (timeout cfg) w1 = (r, w2)" by fastforce
  from fetch_relays_frame [OF f] t1 have t2: "tg_calls w2 = tg_calls w1" by simp
  show ?thesis
  proof (cases r)
    case (Inl e)
    with f have "is_fetched_error e" by (blast dest: raises_onlyD [OF fetch_relays_raises])
    with n f t1 t2 Inl show ?thesis
      by (simp add: relays_handler_def relays_fetch_def py_bind_apply py_catch_apply tg_api_def relays_answer_def
          Let_def split: option.split)
  next
    case (Inr out)
    with n f t1 t2 show ?thesis
      by (simp add: relays_handler_def relays_fetch_def relays_document_def py_bind_apply py_catch_apply tg_api_def
          relays_answer_def Let_def split: option.split)
  qed
qed

lemma tg_api_preserves: "bot_stable E I \<Longrightarrow> preserves I (tg_api E call)"
  by (auto simp: preserves_def bot_stable_def tg_api_def Let_def split: option.split)

lemma log_append_preserves:
  "bot_stable E I \<Longrightarrow> msg \<noteq> ''get relays fetch relays:'' \<Longrightarrow> preserves I (py_modify (log_append lv msg ex))"
  by (auto simp: bot_stable_def)

lemma relays_fetch_preserves: "bot_stable E I \<Longrightarrow> preserves I (relays_fetch E cfg m)"
  unfolding relays_fetch_def
proof (rule preserves_catch_raises [where P = is_fetched_error])
  assume st: "bot_stable E I"
  then have "probe_stable E I" by (simp add: bot_stable_def)
  with st show "preserves I (py_bind (fetch_relays E (relays_number cfg) (timeout cfg)) (\<lambda>output.
      py_bind (py_modify (log_append DEBUG ''load relays successful'' None)) (\<lambda>_. py_return (Some output))))"
    by (intro preserves_bind fetch_relays_preserves log_append_preserves preserves_return) simp_all
  show "raises_only is_fetched_error (py_bind (fetch_relays E (relays_number cfg) (timeout cfg)) (\<lambda>output.
      py_bind (py_modify (log_append DEBUG ''load relays successful'' None)) (\<lambda>_. py_return (Some output))))"
    by (intro raises_only_bind fetch_relays_raises raises_only_modify raises_only_return)
  fix e assume "is_fetched_error e"
  with st show "preserves I (if is_fetched_error e
            then py_bind (py_modify (log_append ERROR ''get relays fetched error'' (Some e))) (\<lambda>_.
                 py_bind (tg_api E (ReplyTo (msg_chat m) (msg_id m) not_available_text)) (\<lambda>_.
                 py_return None))
            else py_bind (py_modify (log_append ERROR ''get relays fetch relays:'' (Some e))) (\<lambda>_.
                 py_bind (tg_api E (ReplyTo (msg_chat m) (msg_id m) not_available_text)) (\<lambda>_.
                 py_return None)))"
    by (simp only: if_True) (intro preserves_bind log_append_preserves tg_api_preserves preserves_return; simp)
qed

lemma relays_handler_preserves: "bot_stable E I \<Longrightarrow> preserves I (relays_handler E cfg m)"
  unfolding relays_handler_def relays_notice_def relays_document_def
  by (intro preserves_bind preserves_case_option preserves_catch preserves_return tg_api_preserves
      log_append_preserves relays_fetch_preserves; simp)

lemma send_welcome_preserves: "bot_stable E I \<Longrightarrow> preserves I (send_welcome E m)"
  unfolding send_welcome_def by (rule tg_api_preserves)

lemma fetch_relays_connects:
  assumes "fetch_relays E n t (w :: 'r world) = (r, w')"
  shows "prefix (connects w) (connects w')"
proof -
  let ?I = "\<lambda>v :: 'r world. prefix (connects w) (connects v)"
  have "\<And>a v. ?I v \<Longrightarrow> ?I (snd (is_socket_open E a v))"
  proof -
    fix a and v :: "'r world" assume "?I v"
    moreover obtain b v' where "is_socket_open E a v = (b, v')" by fastforce
    ultimately show "?I (snd (is_socket_open E a v))"
      by (auto dest!: is_socket_open_effect intro: prefix_order.trans)
  qed
  then have "probe_stable E ?I" unfolding probe_stable_def by simp
  then show ?thesis using assms by (auto dest: preservesD [OF fetch_relays_preserves])
qed

lemma relays_handler_run:
  assumes "relays_notice E m w = (Inr (), w1)" and "fetch_relays E (relays_number cfg) (timeout cfg) w1 = (r, w2)"
  shows "tg_calls (snd (relays_handler E cfg m w)) =
           tg_calls w2 @ [case r of Inl _ \<Rightarrow> ReplyTo (msg_chat m) (msg_id m) not_available_text
                                | Inr out \<Rightarrow> SendDocument (msg_chat m) (relays_caption cfg) out]
         \<and> connects (snd (relays_handler E cfg m w)) = connects w2"
proof (cases r)
  case (Inl e)
  with assms have "is_fetched_error e" by (blast dest: raises_onlyD [OF fetch_relays_raises])
  with assms Inl show ?thesis
    by (simp add: relays_handler_def relays_fetch_def py_bind_apply py_catch_apply tg_api_def Let_def
        split: option.split)
next
  case (Inr out)
  with assms show ?thesis
    by (simp add: relays_handler_def relays_fetch_def relays_document_def py_bind_apply py_catch_apply
        tg_api_def Let_def split: option.split)
qed

lemma relays_notice_connects: "connects (snd (relays_notice E m w)) = connects w"
  by (simp add: relays_notice_def tg_api_def py_catch_apply Let_def split: option.split)

subsection \<open>Properties\<close>

text \<open>A fixture: the network, random module and HTTP library of \<open>web_env\<close>, and a Bot API
  whose \<open>k\<close>-th call raises \<open>tg k call\<close>.\<close>

abbreviation tg_env :: "http_response py \<Rightarrow> (nat \<Rightarrow> tg_call \<Rightarrow> exc option) \<Rightarrow> nat bot_env" where
  "tg_env r tg \<equiv> \<lparr>e_socket = (\<lambda>_. None), e_connect = (\<lambda>_ _ _ _. Inr 0), e_randint = (\<lambda>s a b. (a, Suc s)),
                   e_seed = (\<lambda>t. 0), e_get = (\<lambda>_ _ _ _. r), e_tg = tg\<rparr>"

text \<open>C18: when the fetch fails, \<^verbatim>\<open>relays\<close> logs the \<^verbatim>\<open>FetchedError\<close>, replies
  "The list of relays is not available. Try later" to the message and stops; the reply's
  own failure leaves the handler, and no document is sent.\<close>

theorem relays_handler_fetch_failure:
  assumes "fetch_relays E (relays_number cfg) (timeout cfg) (snd (relays_notice E m w)) = (Inl e, w2)"
  shows "relays_handler E cfg m w =
     ((case e_tg E (length (tg_calls w2)) (ReplyTo (msg_chat m) (msg_id m) not_available_text) of
         None \<Rightarrow> Inr ()
       | Some ex \<Rightarrow> Inl ex),
      (log_append ERROR ''get relays fetched error'' (Some e) w2)
        \<lparr>tg_calls := tg_calls w2 @ [ReplyTo (msg_chat m) (msg_id m) not_available_text]\<rparr>)"
proof -
  obtain w1 where n: "relays_notice E m w = (Inr (), w1)"
    using relays_notice_run(1) by (metis prod.collapse)
  with assms have "is_fetched_error e" by (auto dest: raises_onlyD [OF fetch_relays_raises])
  with n assms show ?thesis
    by (simp add: relays_handler_def relays_fetch_def py_bind_apply py_catch_apply tg_api_def Let_def
        split: option.split)
qed

theorem relays_handler_fetch_failure_witness:
  "\<exists>w'. relays_handler (tg_env (Inr \<lparr>status_code = 503, resp_json = Inr JNull\<rparr>) (\<lambda>_ _. None)) config_init
           \<lparr>msg_chat = 7, msg_id = 1\<rparr> (init_world 0 0) = (Inr (), w')
     \<and> tg_calls w' = [SendMessage 7 ''Trying to get a list of relays'', ReplyTo 7 1 not_available_text]"
proof -
  let ?E = "tg_env (Inr \<lparr>status_code = 503, resp_json = Inr JNull\<rparr>) (\<lambda>_ _. None)"
  let ?m = "\<lparr>msg_chat = 7, msg_id = 1\<rparr>"
  obtain r w2 where f: "fetch_relays ?E (relays_number config_init) (timeout config_init)
      (snd (relays_notice ?E ?m (init_world 0 0))) = (r, w2)" by fastforce
  then obtain e where "r = Inl e"
    by (auto simp: fetch_relays_eq fetch_body_def config_init_def split: prod.splits sum.splits)
  moreover from f have "tg_calls w2 = [SendMessage 7 ''Trying to get a list of relays'']"
    by (auto simp: fetch_relays_eq fetch_body_def config_init_def relays_notice_def tg_api_def init_world_def
        py_catch_apply split: prod.splits sum.splits)
  ultimately show ?thesis
    using relays_handler_fetch_failure [OF f [unfolded \<open>r = Inl e\<close>]] by simp
qed

text \<open>C19: when the fetch succeeds, \<^verbatim>\<open>relays\<close> sends the output as a document whose
  caption names the configured \<^verbatim>\<open>relays_number\<close>, not the number of lines sent, and
  a failure of the upload is only logged. With \<^verbatim>\<open>relays_number = 1\<close> and a relay with
  two reachable addresses the caption says 1 and the document holds 2 lines.\<close>

theorem relays_handler_document:
  assumes "fetch_relays E (relays_number cfg) (timeout cfg) (snd (relays_notice E m w)) = (Inr out, w2)"
  shows "relays_handler E cfg m w =
     (Inr (),
      let call = SendDocument (msg_chat m) (relays_caption cfg) out;
          w3 = (log_append DEBUG ''load relays successful'' None w2)\<lparr>tg_calls := tg_calls w2 @ [call]\<rparr>
      in case e_tg E (length (tg_calls w2)) call of
           None \<Rightarrow> w3
         | Some ex \<Rightarrow> log_append ERROR ''get relays send reply to user'' (Some ex) w3)"
proof -
  obtain w1 where n: "relays_notice E m w = (Inr (), w1)"
    using relays_notice_run(1) by (metis prod.collapse)
  with assms show ?thesis
    by (simp add: relays_handler_def relays_fetch_def relays_document_def py_bind_apply py_catch_apply
        tg_api_def Let_def split: option.split)
qed

theorem relays_handler_document_witness:
  "\<exists>w'. relays_handler
           (tg_env (Inr \<lparr>status_code = 200, resp_json = Inr (directory [relay_rec ''F'' [''1.2.3.4:80'', ''5.6.7.8:443'']])\<rparr>)
             (\<lambda>_ _. None))
           (config_init\<lparr>relays_number := 1\<rparr>) \<lparr>msg_chat = 7, msg_id = 1\<rparr> (init_world 0 0) = (Inr (), w')
     \<and> tg_calls w' = [SendMessage 7 ''Trying to get a list of relays'',
                      SendDocument 7 ''List of 1 tor relays'' ''1.2.3.4:80 F\<newline>5.6.7.8:443 F'']"
proof -
  let ?E = "tg_env (Inr \<lparr>status_code = 200, resp_json = Inr (directory [relay_rec ''F'' [''1.2.3.4:80'', ''5.6.7.8:443'']])\<rparr>)
             (\<lambda>_ _. None)"
  let ?c = "config_init\<lparr>relays_number := 1\<rparr>"
  let ?m = "\<lparr>msg_chat = 7, msg_id = 1\<rparr>"
  obtain r w2 where f: "fetch_relays ?E (relays_number ?c) (timeout ?c) (snd (relays_notice ?E ?m (init_world 0 0))) = (r, w2)"
    by fastforce
  have "fst (fetch_relays ?E (relays_number ?c) (timeout ?c) (snd (relays_notice ?E ?m (init_world 0 0))))
     = Inr ''1.2.3.4:80 F\<newline>5.6.7.8:443 F''
   \<and> tg_calls (snd (fetch_relays ?E (relays_number ?c) (timeout ?c) (snd (relays_notice ?E ?m (init_world 0 0)))))
     = [SendMessage 7 ''Trying to get a list of relays'']"
    by code_simp
  with f have "r = Inr ''1.2.3.4:80 F\<newline>5.6.7.8:443 F''" "tg_calls w2 = [SendMessage 7 ''Trying to get a list of relays'']"
    by simp_all
  moreover have "relays_caption ?c = ''List of 1 tor relays''" by code_simp
  ultimately show ?thesis
    using relays_handler_document [OF f [unfolded \<open>r = _\<close>]] by (simp add: Let_def)
qed

text \<open>Round trip through the configuration: a \<^verbatim>\<open>RELAYS_NUMBER\<close> written as
  \<^verbatim>\<open>str(k)\<close> is read back by \<^verbatim>\<open>Config.init_env\<close> as \<open>k\<close>, and the caption of
  the document prints it as \<^verbatim>\<open>str(k)\<close> again.\<close>

theorem relays_number_roundtrip:
  "\<exists>c'. init_env (\<lambda>v. if v = ''RELAYS_NUMBER'' then Some (str_of_int k) else None) config_init = (Inr (), c')
        \<and> relays_number c' = k \<and> relays_caption c' = ''List of '' @ str_of_int k @ '' tor relays''"
  by (simp add: init_env_def int_setting_Some py_int_str_of_int py_bind_apply relays_caption_def)

end
