(* ===== verification/Polling.thy ===== *)
theory Polling
  imports Bot
begin

text \<open>
  The bot's main loop, \<^verbatim>\<open>bot.infinity_polling()\<close> (line 250), with the handlers
  registered by the decorators of lines 202 and 214. \<^verbatim>\<open>telebot\<close> is a library the
  sources only call: the model takes from it that an update whose command is
  \<^verbatim>\<open>/start\<close> or \<^verbatim>\<open>/help\<close> runs \<^verbatim>\<open>send_welcome\<close>, one whose command is
  \<^verbatim>\<open>/relays\<close> runs \<^verbatim>\<open>relays\<close>, any other is dropped, and an exception leaving a
  handler is logged and polling goes on. Updates are handled one at a time.
  \<open>reachable E cfg\<close> is the set of process states after start (\<open>init_world\<close>),
  any sequence of updates and any advance of the clock, for the environment \<open>E\<close> and
  the configuration \<open>cfg\<close> read at start.
\<close>

text \<open>An update: the command \<^verbatim>\<open>telebot\<close> extracted from the text, if the text is
  a command, and the message.\<close>

datatype update = Update (upd_command: "string option") (upd_msg: tg_message)

definition dispatch :: "('r, 'x) bot_env_scheme \<Rightarrow> config \<Rightarrow> update \<Rightarrow> ('r world, unit) pyM" where
  "dispatch E cfg u =
     (case upd_command u of
        Some c \<Rightarrow>
          if c = ''start'' \<or> c = ''help'' then send_welcome E (upd_msg u)
          else if c = ''relays'' then relays_handler E cfg (upd_msg u)
          else py_return ()
      | None \<Rightarrow> py_return ())"

definition handle_update :: "('r, 'x) bot_env_scheme \<Rightarrow> config \<Rightarrow> update \<Rightarrow> 'r world \<Rightarrow> 'r world" where
  "handle_update E cfg u w =
     (case dispatch E cfg u w of
        (Inl ex, w') \<Rightarrow> log_append ERROR ''Infinity polling exception'' (Some ex) w'
      | (Inr _, w') \<Rightarrow> w')"

inductive reachable :: "('r, 'x) bot_env_scheme \<Rightarrow> config \<Rightarrow> 'r world \<Rightarrow> bool" for E cfg where
  start: "reachable E cfg (init_world r t)"
| update: "reachable E cfg w \<Longrightarrow> reachable E cfg (handle_update E cfg u w)"
| tick: "reachable E cfg w \<Longrightarrow> clock w \<le> t \<Longrightarrow> reachable E cfg (w\<lparr>clock := t\<rparr>)"

text \<open>The Bot API calls of a run, read as a sequence of answers: the welcome text, or
  the notice followed by the second call of a \<^verbatim>\<open>/relays\<close> answer in the same chat.\<close>

fun calls_ok :: "config \<Rightarrow> tg_call list \<Rightarrow> bool" where
  "calls_ok cfg [] = True"
| "calls_ok cfg (ReplyTo c i t # cs) = (t = welcome_text \<and> calls_ok cfg cs)"
| "calls_ok cfg (SendMessage c t # x # cs) =
     (t = ''Trying to get a list of relays'' \<and> relays_answer cfg c x \<and> calls_ok cfg cs)"
| "calls_ok cfg _ = False"

text \<open>No log record of the generic \<^verbatim>\<open>except Exception\<close> clause of \<^verbatim>\<open>relays\<close>.\<close>

definition no_generic_record :: "'r world \<Rightarrow> bool" where
  "no_generic_record w = list_all (\<lambda>x. case x of LogRec _ msg _ \<Rightarrow> msg \<noteq> ''get relays fetch relays:'') (log w)"

subsection \<open>Invariants\<close>

lemma calls_ok_append [simp]: "calls_ok cfg xs \<Longrightarrow> calls_ok cfg (xs @ ys) = calls_ok cfg ys"
  by (induction cfg xs rule: calls_ok.induct) auto

lemma dispatch_preserves: "bot_stable E I \<Longrightarrow> preserves I (dispatch E cfg u)"
  unfolding dispatch_def
  by (auto intro: send_welcome_preserves relays_handler_preserves split: option.split)

lemma handle_update_preserves:
  assumes "bot_stable E I" and "I w"
  shows "I (handle_update E cfg u w)"
proof -
  obtain r w' where d: "dispatch E cfg u w = (r, w')" by fastforce
  have "I w'" using preservesD [OF dispatch_preserves [OF assms(1)] assms(2) d] .
  moreover have "\<And>ex. I w' \<Longrightarrow> I (log_append ERROR ''Infinity polling exception'' (Some ex) w')"
    using assms(1) by (simp add: bot_stable_def)
  ultimately show ?thesis
    using d by (cases r) (simp_all add: handle_update_def)
qed

lemma reachable_invariant:
  assumes "reachable E cfg w" and "bot_stable E I" and "\<And>r t. I (init_world r t)"
    and "\<And>v t. I v \<Longrightarrow> I (v\<lparr>clock := t\<rparr>)"
  shows "I w"
  using assms(1) by induction (auto intro: assms(3,4) handle_update_preserves [OF assms(2)])

lemma dispatch_calls:
  "\<exists>cs. tg_calls (snd (dispatch E cfg u w)) = tg_calls w @ cs \<and> calls_ok cfg cs"
proof (cases "upd_command u")
  case (Some c)
  show ?thesis
  proof (cases "c = ''start'' \<or> c = ''help''")
    case True
    with Some show ?thesis
      by (auto simp: dispatch_def send_welcome_def tg_api_def Let_def split: option.split)
  next
    case False
    obtain x where "tg_calls (snd (relays_handler E cfg (upd_msg u) w)) =
        tg_calls w @ [SendMessage (msg_chat (upd_msg u)) ''Trying to get a list of relays'', x]"
      and "relays_answer cfg (msg_chat (upd_msg u)) x"
      using relays_handler_calls by blast
    with Some False show ?thesis by (auto simp: dispatch_def)
  qed
qed (auto simp: dispatch_def)

lemma handle_update_calls: "tg_calls (handle_update E cfg u w) = tg_calls (snd (dispatch E cfg u w))"
  by (cases "dispatch E cfg u w") (auto simp: handle_update_def split: sum.split)

lemma bot_stable_timeout_inv: "bot_stable E timeout_inv"
  by (simp add: bot_stable_def probe_stable_timeout_inv timeout_inv_cong [of "log_append lv m ex w" w for lv m ex w]
      timeout_inv_cong [of "w\<lparr>tg_calls := c\<rparr>" w for w c])

lemma bot_stable_ports_in_range: "bot_stable E ports_in_range"
  by (simp add: bot_stable_def probe_stable_ports_in_range ports_in_range_def)

lemma bot_stable_sockets_wf: "bot_stable E sockets_wf"
  by (simp add: bot_stable_def probe_stable_sockets_wf sockets_wf_def)

lemma bot_stable_no_generic_record: "bot_stable E no_generic_record"
  unfolding bot_stable_def probe_stable_def
proof (intro conjI allI impI)
  fix a and w :: "'r world"
  assume "no_generic_record w"
  moreover obtain b w' where "is_socket_open E a w = (b, w')" by fastforce
  ultimately show "no_generic_record (snd (is_socket_open E a w))"
    by (auto dest!: is_socket_open_frame simp: no_generic_record_def probe_log_def list_all_iff; force)
qed (auto simp: no_generic_record_def)

subsection \<open>Properties\<close>

text \<open>A fixture: \<^verbatim>\<open>/relays\<close> sent in chat 7 to a bot whose directory holds one relay
  with two reachable addresses, every Bot API call succeeding.\<close>

abbreviation relays_update :: update where
  "relays_update \<equiv> Update (Some ''relays'') \<lparr>msg_chat = 7, msg_id = 1\<rparr>"

abbreviation two_addr_env :: "nat bot_env" where
  "two_addr_env \<equiv> tg_env (Inr \<lparr>status_code = 200,
     resp_json = Inr (directory [relay_rec ''F'' [''1.2.3.4:80'', ''5.6.7.8:443'']])\<rparr>) (\<lambda>_ _. None)"

text \<open>C9: handling updates one at a time, the bot's Bot API calls are a sequence of
  answers: the welcome text for \<^verbatim>\<open>/start\<close> and \<^verbatim>\<open>/help\<close>, and for
  \<^verbatim>\<open>/relays\<close> the notice followed, in the same chat, by the not-available reply or
  by the document captioned with the configured number.\<close>

theorem reachable_calls_ok:
  assumes "reachable E cfg w"
  shows "calls_ok cfg (tg_calls w)"
  using assms
proof induction
  case (start r t)
  then show ?case by (simp add: init_world_def)
next
  case (update w u)
  obtain cs where "tg_calls (snd (dispatch E cfg u w)) = tg_calls w @ cs" and "calls_ok cfg cs"
    using dispatch_calls by blast
  with update.IH show ?case by (simp add: handle_update_calls)
qed simp

theorem reachable_calls_ok_witness:
  "calls_ok config_init (tg_calls (handle_update two_addr_env config_init relays_update (init_world 0 0)))"
  by (rule reachable_calls_ok [OF reachable.update [OF reachable.start]])

text \<open>C8: with updates handled one at a time (the sequential polling of
  \<open>reachable\<close>; on the two worker threads of \<^verbatim>\<open>TeleBot\<close> this fails, C10), in
  every state the bot reaches every connection attempt but the first of the process is
  made with the 2-second timeout, and from the first attempt on the default timeout is
  2 seconds.\<close>

theorem reachable_timeout_inv:
  assumes "reachable E cfg w"
  shows "timeout_inv w"
  using assms
  by (rule reachable_invariant [OF _ bot_stable_timeout_inv])
     (simp_all add: timeout_inv_def init_world_def)

theorem reachable_timeout_inv_witness:
  "timeout_inv (handle_update two_addr_env config_init relays_update (init_world 0 0))"
  by (rule reachable_timeout_inv [OF reachable.update [OF reachable.start]])

text \<open>C20: the generic \<^verbatim>\<open>except Exception\<close> clause of \<^verbatim>\<open>relays\<close> (lines
  231--234) is dead code: \<^verbatim>\<open>fetch_relays\<close> raises nothing but
  \<^verbatim>\<open>FetchedError\<close>, so no reachable state has logged its record.\<close>

theorem reachable_no_generic_record:
  assumes "reachable E cfg w"
  shows "no_generic_record w"
  using assms
  by (rule reachable_invariant [OF _ bot_stable_no_generic_record])
     (simp_all add: no_generic_record_def init_world_def)

theorem reachable_no_generic_record_witness:
  "no_generic_record (handle_update (tg_env (Inl (RequestException ''timeout'')) (\<lambda>_ _. None)) config_init
     relays_update (init_world 0 0))"
  by (rule reachable_no_generic_record [OF reachable.update [OF reachable.start]])

text \<open>\<^verbatim>\<open>connect_ex\<close> is only ever reached with a port in 0..65535: in every
  state the bot reaches, every recorded connection attempt has its port in range (an
  address whose port is out of range raises \<^verbatim>\<open>OverflowError\<close> before connecting,
  and \<^verbatim>\<open>is_socket_open\<close> absorbs it).\<close>

theorem reachable_ports_in_range:
  assumes "reachable E cfg w"
  shows "ports_in_range w"
  using assms
  by (rule reachable_invariant [OF _ bot_stable_ports_in_range])
     (simp_all add: ports_in_range_def init_world_def)

theorem reachable_ports_in_range_witness:
  "ports_in_range (handle_update (tg_env (Inr \<lparr>status_code = 200,
       resp_json = Inr (directory [relay_rec ''F'' [''1.2.3.4:70000'', ''5.6.7.8:443'']])\<rparr>) (\<lambda>_ _. None))
     config_init relays_update (init_world 0 0))"
  by (rule reachable_ports_in_range [OF reachable.update [OF reachable.start]])

text \<open>C21: in every state the bot reaches, there are no more connection attempts than
  sockets created: every \<^verbatim>\<open>connect_ex\<close> runs on the fresh socket of its probe.\<close>

theorem reachable_sockets_wf:
  assumes "reachable E cfg w"
  shows "sockets_wf w"
  using assms
  by (rule reachable_invariant [OF _ bot_stable_sockets_wf])
     (simp_all add: sockets_wf_def init_world_def)

theorem reachable_sockets_wf_witness:
  "sockets_wf (handle_update two_addr_env config_init relays_update (init_world 0 0))"
  by (rule reachable_sockets_wf [OF reachable.update [OF reachable.start]])

text \<open>C12: every \<^verbatim>\<open>/relays\<close> update is answered: whatever the state, the network,
  the directory server and the Bot API do, handling it terminates after exactly two Bot
  API calls in the chat of the message, the notice and then the not-available reply or
  the document.\<close>

theorem relays_update_answered:
  "\<exists>x. tg_calls (handle_update E cfg (Update (Some ''relays'') m) w) =
         tg_calls w @ [SendMessage (msg_chat m) ''Trying to get a list of relays'', x]
       \<and> relays_answer cfg (msg_chat m) x"
  using relays_handler_calls [of E cfg m w] by (simp add: handle_update_calls dispatch_def)

end
