(* ===== verification/Startup.thy ===== *)
theory Startup
  imports Polling
begin

text \<open>
  Module start-up of \<^verbatim>\<open>src/app/main.py\<close> (lines 181--199 and 246--250): the banner
  and the first message are printed, the configuration is built and read from the
  environment, the bot object is made with the token, \<^verbatim>\<open>logging.basicConfig\<close> sets
  the level from \<^verbatim>\<open>config.debug\<close>, the level is printed, and the polling loop
  starts. An exception of \<^verbatim>\<open>init_env\<close> ends the process before the bot is made.
  Standard output is the list of the lines printed, as in the \<open>Hello_World\<close> entry of
  the AFP; the log of the process state holds every record the code passes to
  \<^verbatim>\<open>logging\<close>, and \<open>emitted\<close> is what \<^verbatim>\<open>logging\<close> writes of it at the level
  \<open>startup\<close> returns. \<open>running\<close> is the set of states of the whole process: a
  start-up that succeeds, then polling with the configuration it built.
\<close>

text \<open>Lines 186--197: \<^verbatim>\<open>Config()\<close>, \<^verbatim>\<open>init_env()\<close> and the level given to
  \<^verbatim>\<open>logging.basicConfig\<close>.\<close>

definition startup :: "(string \<Rightarrow> string option) \<Rightarrow> (config \<times> log_level) py" where
  "startup env =
     (case init_env env config_init of
        (Inl e, _) \<Rightarrow> Inl e
      | (Inr _, cfg) \<Rightarrow> Inr (cfg, if debug cfg then DEBUG else ERROR))"

text \<open>\<^verbatim>\<open>logging.getLevelName\<close> and the numeric value of the two levels the code uses.\<close>

definition level_name :: "log_level \<Rightarrow> string" where
  "level_name lv = (case lv of DEBUG \<Rightarrow> ''DEBUG'' | ERROR \<Rightarrow> ''ERROR'')"

definition level_no :: "log_level \<Rightarrow> nat" where
  "level_no lv = (case lv of DEBUG \<Rightarrow> 10 | ERROR \<Rightarrow> 40)"

text \<open>The records the root logger configured by \<^verbatim>\<open>basicConfig(level=lv)\<close> writes:
  those of a level at least \<open>lv\<close>.\<close>

definition emitted :: "log_level \<Rightarrow> log_entry list \<Rightarrow> log_entry list" where
  "emitted lv = filter (\<lambda>r. case r of LogRec l _ _ \<Rightarrow> level_no lv \<le> level_no l)"

text \<open>The object \<^verbatim>\<open>telebot.TeleBot(config.telegram_token)\<close> of line 189, which keeps
  the token it is given; its API calls are the oracles of \<open>bot_env\<close>.\<close>

datatype telebot = TeleBot "string option"

text \<open>Lines 181--199 and 246--247: the start-up with what it prints; \<open>banner\<close> is the
  text \<^verbatim>\<open>Figlet(font="graffiti").renderText("tor2relays")\<close> that the library draws.
  The result is the exception that ends the process, or the bot, the configuration and
  the logging level with which \<^verbatim>\<open>bot.infinity_polling()\<close> starts.\<close>

definition main_start :: "string \<Rightarrow> (string \<Rightarrow> string option) \<Rightarrow>
    (exc + telebot \<times> config \<times> log_level) \<times> string list" where
  "main_start banner env =
     (let out = [banner, ''t2r bot started''] in
      case startup env of
        Inl e \<Rightarrow> (Inl e, out)
      | Inr (cfg, lv) \<Rightarrow>
          (Inr (TeleBot (telegram_token cfg), cfg, lv),
           out @ [''logging level is '' @ level_name lv, ''Listen telegram connections'']))"

text \<open>The states of the process: after a start-up that succeeds, any state of the
  polling loop (line 250) with the configuration start-up built.\<close>

inductive running :: "('r, 'x) bot_env_scheme \<Rightarrow> string \<Rightarrow> (string \<Rightarrow> string option) \<Rightarrow> 'r world \<Rightarrow> bool"
  for E banner env where
  run: "main_start banner env = (Inr (b, cfg, lv), out) \<Longrightarrow> reachable E cfg w \<Longrightarrow> running E banner env w"

inductive_cases runningE: "running E banner env w"

subsection \<open>Properties\<close>

lemma emitted_DEBUG [simp]: "emitted DEBUG rs = rs"
  by (simp add: emitted_def level_no_def split: log_entry.split log_level.split)

lemma emitted_ERROR [simp]: "emitted ERROR rs = filter (\<lambda>r. case r of LogRec l _ _ \<Rightarrow> l = ERROR) rs"
  unfolding emitted_def
  by (rule filter_cong [OF refl]) (simp add: level_no_def split: log_entry.split log_level.split)

lemma startup_Inr:
  assumes "startup env = Inr (cfg, lv)"
  shows "cfg = \<lparr>timeout = env_int env ''REQUEST_TIMEOUT'' 5, relays_number = env_int env ''RELAYS_NUMBER'' 30,
                telegram_token = env ''TOKEN'', debug = env_debug env True\<rparr>
         \<and> lv = (if debug cfg then DEBUG else ERROR)"
proof -
  obtain c' where i: "init_env env config_init = (Inr (), c')" and "cfg = c'" "lv = (if debug c' then DEBUG else ERROR)"
    using assms by (auto simp: startup_def split: prod.splits sum.splits)
  then show ?thesis using init_env_Inr [OF i] by (simp add: config_init_def)
qed

lemma main_start_Inr:
  assumes "main_start banner env = (Inr (b, cfg, lv), out)"
  shows "startup env = Inr (cfg, lv) \<and> b = TeleBot (env ''TOKEN'') \<and>
         out = [banner, ''t2r bot started'', ''logging level is '' @ level_name lv, ''Listen telegram connections'']"
proof (cases "startup env")
  case (Inr r)
  with assms startup_Inr [of env cfg lv] show ?thesis
    by (cases r) (auto simp: main_start_def Let_def)
qed (use assms in \<open>simp add: main_start_def\<close>)

lemma main_start_Inl:
  "(main_start banner env = (Inl e, out)) \<longleftrightarrow> fst (init_env env config_init) = Inl e \<and> out = [banner, ''t2r bot started'']"
  by (auto simp: main_start_def startup_def split: prod.splits sum.splits)

lemma running_config:
  assumes "running E banner env w"
  obtains cfg where "timeout cfg = env_int env ''REQUEST_TIMEOUT'' 5" and "reachable E cfg w"
  using assms
proof (rule runningE)
  fix b cfg lv out
  assume "main_start banner env = (Inr (b, cfg, lv), out)" and r: "reachable E cfg w"
  then have "startup env = Inr (cfg, lv)" by (simp add: main_start_Inr)
  with startup_Inr [OF this] r show thesis by (intro that [of cfg]) simp_all
qed


text \<open>The bot logs at level \<^verbatim>\<open>DEBUG\<close> unless \<^verbatim>\<open>DEBUG\<close> is set to a value other
  than \<^verbatim>\<open>1\<close> or \<^verbatim>\<open>true\<close>: debug logging is on by default, since
  \<^verbatim>\<open>Config.__init__\<close> sets \<^verbatim>\<open>debug = True\<close>.\<close>

theorem startup_log_level:
  assumes "startup env = Inr (cfg, th)"
  shows "th = (case env ''DEBUG'' of None \<Rightarrow> DEBUG | Some v \<Rightarrow> if v = ''1'' \<or> v = ''true'' then DEBUG else ERROR)"
  using assms
  by (auto simp: startup_def init_env_def int_setting_def config_init_def py_bind_apply
      split: option.splits sum.splits prod.splits)

theorem startup_log_level_witness:
  "startup (\<lambda>_. None) = Inr (\<lparr>timeout = 5, relays_number = 30, telegram_token = None, debug = True\<rparr>, DEBUG)
   \<and> DEBUG = (case (\<lambda>_. None :: string option) ''DEBUG'' of None \<Rightarrow> DEBUG
                | Some v \<Rightarrow> if v = ''1'' \<or> v = ''true'' then DEBUG else ERROR)"
proof -
  have s: "startup (\<lambda>_. None) = Inr (\<lparr>timeout = 5, relays_number = 30, telegram_token = None, debug = True\<rparr>, DEBUG)"
    by (simp add: startup_def init_env_def config_init_def py_bind_apply)
  with startup_log_level [OF s] show ?thesis by simp
qed

text \<open>C29: a start-up that succeeds prints the banner, \<^verbatim>\<open>t2r bot started\<close>, the
  logging level and \<^verbatim>\<open>Listen telegram connections\<close>, in this order; the level is
  \<^verbatim>\<open>DEBUG\<close> unless \<^verbatim>\<open>DEBUG\<close> is set to a value other than \<^verbatim>\<open>1\<close> or
  \<^verbatim>\<open>true\<close>; the bot gets the token of \<^verbatim>\<open>TOKEN\<close>, \<^verbatim>\<open>None\<close> when it is unset;
  and the configuration polling runs with holds every setting of the environment,
  the defaults of \<^verbatim>\<open>__init__\<close> (timeout 5, 30 relays) for those unset.\<close>

theorem main_start_ok:
  assumes "main_start banner env = (Inr (b, cfg, lv), out)"
  shows "cfg = \<lparr>timeout = env_int env ''REQUEST_TIMEOUT'' 5, relays_number = env_int env ''RELAYS_NUMBER'' 30,
                telegram_token = env ''TOKEN'', debug = env_debug env True\<rparr>
         \<and> b = TeleBot (env ''TOKEN'')
         \<and> out = [banner, ''t2r bot started'',
                  ''logging level is '' @ (if env_debug env True then ''DEBUG'' else ''ERROR''),
                  ''Listen telegram connections'']"
proof -
  from main_start_Inr [OF assms] have s: "startup env = Inr (cfg, lv)"
    and b: "b = TeleBot (env ''TOKEN'')"
    and o: "out = [banner, ''t2r bot started'', ''logging level is '' @ level_name lv, ''Listen telegram connections'']"
    by simp_all
  from startup_Inr [OF s] b o show ?thesis by (simp add: level_name_def)
qed

theorem main_start_ok_witness:
  "main_start ''tor2relays'' (\<lambda>_. None) =
     (Inr (TeleBot None, \<lparr>timeout = 5, relays_number = 30, telegram_token = None, debug = True\<rparr>, DEBUG),
      [''tor2relays'', ''t2r bot started'', ''logging level is DEBUG'', ''Listen telegram connections''])
   \<and> [''tor2relays'', ''t2r bot started'', ''logging level is DEBUG'', ''Listen telegram connections''] =
     [''tor2relays'', ''t2r bot started'',
      ''logging level is '' @ (if env_debug (\<lambda>_. None) True then ''DEBUG'' else ''ERROR''),
      ''Listen telegram connections'']"
proof -
  have m: "main_start ''tor2relays'' (\<lambda>_. None) =
     (Inr (TeleBot None, \<lparr>timeout = 5, relays_number = 30, telegram_token = None, debug = True\<rparr>, DEBUG),
      [''tor2relays'', ''t2r bot started'', ''logging level is DEBUG'', ''Listen telegram connections''])"
    by (simp add: main_start_def startup_def init_env_def config_init_def py_bind_apply level_name_def)
  from main_start_ok [OF m] m show ?thesis by simp
qed

text \<open>C30: the bot does not start exactly when \<^verbatim>\<open>REQUEST_TIMEOUT\<close> or
  \<^verbatim>\<open>RELAYS_NUMBER\<close> is set to text \<^verbatim>\<open>int()\<close> refuses: \<^verbatim>\<open>init_env\<close> then raises
  \<^verbatim>\<open>ValueError\<close>, which ends the process after the banner and
  \<^verbatim>\<open>t2r bot started\<close> were printed and before the bot is made.\<close>

theorem main_start_error:
  "main_start banner env = (Inl e, out) \<longleftrightarrow>
     out = [banner, ''t2r bot started''] \<and> e = ValueError \<and>
     ((\<exists>s. env ''REQUEST_TIMEOUT'' = Some s \<and> isl (py_int s)) \<or>
      (\<exists>s. env ''RELAYS_NUMBER'' = Some s \<and> isl (py_int s)))"
  by (auto simp: main_start_Inl init_env_Inl)

theorem main_start_error_witness:
  "main_start ''tor2relays'' (\<lambda>k. if k = ''RELAYS_NUMBER'' then Some ''thirty'' else None) =
     (Inl ValueError, [''tor2relays'', ''t2r bot started''])"
proof -
  have "isl (py_int ''thirty'')" by code_simp
  then show ?thesis
    using main_start_error [of "''tor2relays''" "\<lambda>k. if k = ''RELAYS_NUMBER'' then Some ''thirty'' else None"]
    by simp
qed

end
