(* ===== verification/SelectSpec.thy ===== *)
theory SelectSpec
  imports Sampler
begin

text \<open>
  The selection algorithm of the specification (section 4.4) as a pure function, and
  the refinement lemma: on a directory whose addresses all parse, with a random module
  that draws the indices \<open>dr 0, dr 1, ...\<close> and a network that accepts a connection to
  \<open>h:p\<close> exactly when \<open>reach h p\<close>, \<^verbatim>\<open>parse_relays\<close> returns the lines of the
  abstract algorithm.
\<close>

type_synonym relay_record = "string \<times> string list"

text \<open>An address \<open>host:port\<close> with the port in range, or nothing.\<close>

definition parse_address :: "string \<Rightarrow> (string \<times> int) option" where
  "parse_address a =
     (case py_split CHR '':'' a of
        [h, p] \<Rightarrow> (case py_int p of Inr k \<Rightarrow> if 0 \<le> k \<and> k \<le> 65535 then Some (h, k) else None | Inl _ \<Rightarrow> None)
      | _ \<Rightarrow> None)"

definition accepts :: "(string \<Rightarrow> int \<Rightarrow> bool) \<Rightarrow> string \<Rightarrow> bool" where
  "accepts reach a \<longleftrightarrow>
     CHR ''['' \<notin> set a \<and> (case parse_address a of Some (h, p) \<Rightarrow> p \<notin> set bad_ports \<and> reach h p | None \<Rightarrow> False)"

definition record_lines :: "(string \<Rightarrow> int \<Rightarrow> bool) \<Rightarrow> relay_record \<Rightarrow> string list" where
  "record_lines reach r = map (\<lambda>a. a @ CHR '' '' # fst r) (filter (accepts reach) (snd r))"

fun select_loop ::
  "relay_record list \<Rightarrow> (string \<Rightarrow> int \<Rightarrow> bool) \<Rightarrow> (nat \<Rightarrow> nat) \<Rightarrow> int \<Rightarrow> nat \<Rightarrow> nat \<Rightarrow> string list \<Rightarrow> string list"
where
  "select_loop rs reach dr n k 0 acc = acc"
| "select_loop rs reach dr n k (Suc c) acc =
     (if int (length acc) < n then select_loop rs reach dr n (Suc k) c (acc @ record_lines reach (rs ! dr k))
      else acc)"

definition select :: "relay_record list \<Rightarrow> (string \<Rightarrow> int \<Rightarrow> bool) \<Rightarrow> (nat \<Rightarrow> nat) \<Rightarrow> int \<Rightarrow> nat \<Rightarrow> string list" where
  "select rs reach dr n k = select_loop rs reach dr n k (length rs) []"

text \<open>The decoded directory of a list of records, and the environment of a run.\<close>

definition relay_json :: "relay_record \<Rightarrow> json" where
  "relay_json r = JObj [(''fingerprint'', JStr (fst r)), (''or_addresses'', JList (map JStr (snd r)))]"

definition directory_json :: "relay_record list \<Rightarrow> json" where
  "directory_json rs = JObj [(''relays'', JList (map relay_json rs))]"

definition det_env :: "(string \<Rightarrow> int \<Rightarrow> bool) \<Rightarrow> (nat \<Rightarrow> nat) \<Rightarrow> nat sample_env" where
  "det_env reach dr =
     \<lparr>e_socket = (\<lambda>_. None), e_connect = (\<lambda>k h p t. if reach h p then Inr 0 else Inr 111),
      e_randint = (\<lambda>k a b. (int (dr k), Suc k))\<rparr>"

text \<open>Every address has an IPv6 bracket or is \<open>host:port\<close> with an integer port.\<close>

definition addr_wf :: "string \<Rightarrow> bool" where
  "addr_wf a \<longleftrightarrow>
     CHR ''['' \<in> set a \<or> (case py_split CHR '':'' a of [h, p] \<Rightarrow> (case py_int p of Inr _ \<Rightarrow> True | Inl _ \<Rightarrow> False) | _ \<Rightarrow> False)"

definition records_wf :: "relay_record list \<Rightarrow> bool" where
  "records_wf rs \<longleftrightarrow> list_all (\<lambda>r. list_all addr_wf (snd r)) rs"

subsection \<open>Refinement\<close>

lemma is_socket_open_det:
  assumes "py_split CHR '':'' a = [h, p]" and "py_int p = Inr k"
  shows "\<exists>w'. is_socket_open (det_env reach dr) (Some a) w = (0 \<le> k \<and> k \<le> 65535 \<and> reach h k, w')
              \<and> rng w' = rng w"
  using assms by (auto simp: is_socket_open_def probe_body_eq det_env_def Let_def)

lemma addr_step_det:
  assumes "addr_wf a"
  shows "\<exists>w'. addr_step (det_env reach dr) (relay_json (fp, as)) acc (JStr a) w =
               (Inr (if accepts reach a then acc @ [a @ CHR '' '' # fp] else acc), w') \<and> rng w' = rng w"
proof (cases "CHR ''['' \<in> set a")
  case True
  then show ?thesis
    by (simp add: addr_step_def accepts_def py_find_eq_minus_one)
next
  case False
  with assms obtain h p k where sp: "py_split CHR '':'' a = [h, p]" and pk: "py_int p = Inr k"
    by (auto simp: addr_wf_def split: list.splits sum.splits)
  then have port: "addr_port a = Inr k" by (simp add: addr_port_def py_index_def)
  have pa: "parse_address a = (if 0 \<le> k \<and> k \<le> 65535 then Some (h, k) else None)"
    using sp pk by (simp add: parse_address_def)
  obtain w1 where so: "is_socket_open (det_env reach dr) (Some a) w = (0 \<le> k \<and> k \<le> 65535 \<and> reach h k, w1)"
    and r1: "rng w1 = rng w"
    using is_socket_open_det [OF sp pk] by blast
  show ?thesis
    using False port pa so r1
    by (auto simp: addr_step_def accepts_def check_port_def relay_json_def relay_fingerprint_def
        py_find_eq_minus_one py_bind_apply py_total_apply)
qed

lemma scan_addrs_det:
  assumes "list_all addr_wf bs"
  shows "\<exists>w'. scan_addrs (det_env reach dr) (relay_json (fp, as)) (map JStr bs) acc w =
               (Inr (acc @ map (\<lambda>a. a @ CHR '' '' # fp) (filter (accepts reach) bs)), w') \<and> rng w' = rng w"
  using assms
proof (induction bs arbitrary: acc w)
  case Nil
  then show ?case by simp
next
  case (Cons b bs)
  obtain w1 where st: "addr_step (det_env reach dr) (relay_json (fp, as)) acc (JStr b) w =
      (Inr (if accepts reach b then acc @ [b @ CHR '' '' # fp] else acc), w1)" and r1: "rng w1 = rng w"
    using addr_step_det Cons.prems by fastforce
  from Cons.IH [of "if accepts reach b then acc @ [b @ CHR '' '' # fp] else acc" w1] Cons.prems st r1
  show ?case by (auto simp: py_bind_apply)
qed

lemma sample_step_det:
  assumes "records_wf rs" and "dr (rng w) < length rs"
  shows "\<exists>w'. sample_step (det_env reach dr) (directory_json rs) acc w =
               (Inr (acc @ record_lines reach (rs ! dr (rng w))), w') \<and> rng w' = Suc (rng w)"
proof -
  obtain fp as where r: "rs ! dr (rng w) = (fp, as)" by fastforce
  have "list_all addr_wf as"
    using assms r nth_mem [OF assms(2)] by (fastforce simp: records_wf_def list_all_iff)
  then obtain w' where sc: "scan_addrs (det_env reach dr) (relay_json (fp, as)) (map JStr as) acc
      (w\<lparr>rng := Suc (rng w), draws := Suc (draws w)\<rparr>) =
      (Inr (acc @ map (\<lambda>a. a @ CHR '' '' # fp) (filter (accepts reach) as)), w')"
    and "rng w' = Suc (rng w)"
    using scan_addrs_det by fastforce
  with assms(2) r show ?thesis
    by (simp add: sample_step_def draw_relay_def randint_def det_env_def directory_json_def get_relays_def
        relay_addresses_def py_index_def record_lines_def py_bind_apply)
       (force simp: relay_json_def)
qed

lemma sample_loop_det:
  assumes "records_wf rs" and "\<forall>k. dr k < length rs"
  shows "fst (sample_loop (det_env reach dr) (directory_json rs) n c acc w) = Inr (select_loop rs reach dr n (rng w) c acc)"
proof (induction c arbitrary: acc w)
  case 0
  then show ?case by (simp add: sample_loop_unfold)
next
  case (Suc c)
  obtain w' where st: "sample_step (det_env reach dr) (directory_json rs) acc w =
      (Inr (acc @ record_lines reach (rs ! dr (rng w))), w')" and r: "rng w' = Suc (rng w)"
    using sample_step_det assms by blast
  from Suc.IH [of "acc @ record_lines reach (rs ! dr (rng w))" w'] st r show ?case
    by (simp add: sample_loop_unfold [of _ _ _ "Suc c"])
qed

text \<open>C3: refinement of the selection algorithm of the specification: on a directory
  whose addresses are all \<open>host:port\<close> or bracketed, with a random module drawing the
  indices \<open>dr k\<close> and a network answering by \<open>reach\<close>, \<^verbatim>\<open>parse_relays\<close>
  returns the lines of \<open>select\<close>: one draw per record, the addresses of the drawn record
  that have no \<^verbatim>\<open>[\<close>, parse, have an allowed port and are reachable, the cap
  \<^verbatim>\<open>relays_number\<close> tested only between draws.\<close>

theorem parse_relays_refines_select:
  assumes "records_wf rs" and "\<forall>k. dr k < length rs"
  shows "fst (parse_relays (det_env reach dr) (directory_json rs) n w) =
         Inr (format_relays (select rs reach dr n (rng w)))"
proof -
  have "check_relays (directory_json rs) = Inr ()" and "exn_bind (get_relays (directory_json rs)) py_len = Inr (length rs)"
    by (simp_all add: check_relays_def get_relays_def directory_json_def)
  with sample_loop_det [OF assms, of reach n "length rs" "[]" w] show ?thesis
    by (cases "sample_loop (det_env reach dr) (directory_json rs) n (length rs) [] w")
       (simp add: parse_relays_def py_bind_apply select_def)
qed

theorem parse_relays_refines_select_witness:
  "records_wf [(''F'', [''1.2.3.4:80'', ''[::1]:443'', ''1.2.3.4:22'']), (''G'', [''5.6.7.8:9001''])]
   \<and> (\<forall>k. k mod 2 < length [(''F'', [''1.2.3.4:80'', ''[::1]:443'', ''1.2.3.4:22'']), (''G'', [''5.6.7.8:9001''])])
   \<and> fst (parse_relays (det_env (\<lambda>h p. h = ''1.2.3.4'') (\<lambda>k. k mod 2))
         (directory_json [(''F'', [''1.2.3.4:80'', ''[::1]:443'', ''1.2.3.4:22'']), (''G'', [''5.6.7.8:9001''])]) 5
         (init_world 0 0))
     = Inr (format_relays [''1.2.3.4:80 F''])"
proof -
  let ?rs = "[(''F'', [''1.2.3.4:80'', ''[::1]:443'', ''1.2.3.4:22'']), (''G'', [''5.6.7.8:9001''])]"
  have wf: "records_wf ?rs" by code_simp
  have dr: "\<forall>k. k mod 2 < length ?rs" by (simp add: numeral_2_eq_2)
  have "select ?rs (\<lambda>h p. h = ''1.2.3.4'') (\<lambda>k. k mod 2) 5 0 = [''1.2.3.4:80 F'']" by code_simp
  with parse_relays_refines_select [OF wf dr, of "\<lambda>h p. h = ''1.2.3.4''" 5 "init_world 0 0"] wf dr
  show ?thesis by (simp add: init_world_def)
qed

end
