(* ===== verification/PortLookup.thy ===== *)
theory PortLookup
  imports PortFilter
begin

text \<open>
  The specification (section 4.2) asks a reimplementation to look ports up in a set
  rather than by the linear scan of \<^verbatim>\<open>port not in bad_ports\<close>, and to stay
  functionally equivalent. This theory gives such a lookup, a binary search over the
  denylist, which is sorted, and proves the port filter built on it equal to
  \<open>check_port\<close>.
\<close>

function bsearch :: "int list \<Rightarrow> int \<Rightarrow> bool" where
  "bsearch xs p =
     (if xs = [] then False
      else let m = length xs div 2; y = xs ! m in
           if p = y then True
           else if p < y then bsearch (take m xs) p
           else bsearch (drop (Suc m) xs) p)"
  by pat_completeness auto
termination
  by (relation "measure (\<lambda>(xs, p). length xs)") auto

declare bsearch.simps [simp del]

definition check_port_bsearch :: "string \<Rightarrow> bool py" where
  "check_port_bsearch addr = exn_bind (addr_port addr) (\<lambda>p. Inr (\<not> bsearch bad_ports p))"

subsection \<open>Binary search is membership\<close>

lemma set_take_nth_drop:
  "m < length xs \<Longrightarrow> set xs = set (take m xs) \<union> {xs ! m} \<union> set (drop (Suc m) xs)"
  by (metis Cons_nth_drop_Suc append_take_drop_id set_append set_simps(2) Un_insert_right Un_empty_right
      Un_insert_left)

lemma sorted_take_le: "sorted xs \<Longrightarrow> m < length xs \<Longrightarrow> x \<in> set (take m xs) \<Longrightarrow> x \<le> xs ! m"
proof -
  assume s: "sorted xs" and m: "m < length xs" and "x \<in> set (take m xs)"
  then obtain i where "i < m" and "x = xs ! i" by (auto simp: in_set_conv_nth)
  with s m show ?thesis by (simp add: sorted_nth_mono)
qed

lemma sorted_drop_ge: "sorted xs \<Longrightarrow> x \<in> set (drop (Suc m) xs) \<Longrightarrow> xs ! m \<le> x"
proof -
  assume s: "sorted xs" and "x \<in> set (drop (Suc m) xs)"
  then obtain i where "i < length xs - Suc m" and "x = xs ! (Suc m + i)" by (auto simp: in_set_conv_nth)
  with s show ?thesis by (simp add: sorted_nth_mono)
qed

lemma bsearch_correct: "sorted xs \<Longrightarrow> bsearch xs p \<longleftrightarrow> p \<in> set xs"
proof (induction xs p rule: bsearch.induct)
  case (1 xs p)
  show ?case
  proof (cases "xs = []")
    case True
    then show ?thesis by (simp add: bsearch.simps)
  next
    case False
    let ?m = "length xs div 2"
    have m: "?m < length xs" using False by simp
    have st: "sorted (take ?m xs)" "sorted (drop (Suc ?m) xs)"
      using "1.prems" by (simp_all add: sorted_wrt_take sorted_wrt_drop)
    have split: "set xs = set (take ?m xs) \<union> {xs ! ?m} \<union> set (drop (Suc ?m) xs)"
      using m by (rule set_take_nth_drop)
    let ?y = "xs ! ?m"
    have ih: "\<not> p = ?y \<Longrightarrow> p < ?y \<Longrightarrow> bsearch (take ?m xs) p \<longleftrightarrow> p \<in> set (take ?m xs)"
      "\<not> p = ?y \<Longrightarrow> \<not> p < ?y \<Longrightarrow> bsearch (drop (Suc ?m) xs) p \<longleftrightarrow> p \<in> set (drop (Suc ?m) xs)"
      using "1.IH" [OF False refl refl] st by simp_all
    have lo: "p < ?y \<Longrightarrow> p \<notin> set (drop (Suc ?m) xs)"
      using sorted_drop_ge [OF "1.prems", of p ?m] by fastforce
    have hi: "\<not> p < ?y \<Longrightarrow> p \<noteq> ?y \<Longrightarrow> p \<notin> set (take ?m xs)"
      using sorted_take_le [OF "1.prems" m, of p] by fastforce
    have eq: "bsearch xs p = (if p = ?y then True else if p < ?y then bsearch (take ?m xs) p
                              else bsearch (drop (Suc ?m) xs) p)"
      using False by (subst bsearch.simps) (simp add: Let_def)
    show ?thesis
      unfolding eq split using ih lo hi by auto
  qed
qed

lemma bad_ports_sorted: "sorted bad_ports"
  by code_simp

text \<open>The port filter on the binary search over the denylist is \<open>check_port\<close>, on
  every address, errors included.\<close>

theorem check_port_bsearch_eq: "check_port_bsearch addr = check_port addr"
  by (simp add: check_port_bsearch_def check_port_def bsearch_correct [OF bad_ports_sorted])

end
