(* ===== verification/Documents.thy ===== *)
theory Documents
  imports Polling
begin

text \<open>
  The documents the bot sends, with updates handled one at a time: \<open>documents_ok\<close>
  says every document in the Bot API calls of a state is made of lines a directory
  served, each accepted by a connection attempt of that state; \<^verbatim>\<open>relays\<close> and the
  polling loop keep it.
\<close>

subsection \<open>The documents the bot sends\<close>

text \<open>Every document in the Bot API calls of the state \<open>w\<close> is made of lines served by
  the directory, each accepted by a connection attempt of \<open>w\<close>.\<close>

definition documents_ok :: "('r, 'x) bot_env_scheme \<Rightarrow> config \<Rightarrow> 'r world \<Rightarrow> bool" where
  "documents_ok E cfg w \<longleftrightarrow>
     (\<forall>c cap doc. SendDocument c cap doc \<in> set (tg_calls w) \<longrightarrow>
        (\<exists>ls. doc = format_relays ls \<and> (\<forall>l \<in> set ls. served_line E (timeout cfg) (connects w) l)))"

lemma documents_ok_extend:
  assumes "documents_ok E cfg w" and "prefix (connects w) (connects v)" and "tg_calls v = tg_calls w @ cs"
    and "\<And>c cap doc. SendDocument c cap doc \<in> set cs \<Longrightarrow>
           \<exists>ls. doc = format_relays ls \<and> (\<forall>l \<in> set ls. served_line E (timeout cfg) (connects v) l)"
  shows "documents_ok E cfg v"
  using assms unfolding documents_ok_def by (fastforce intro: served_line_mono)

lemma relays_handler_documents_ok:
  assumes "documents_ok E cfg w"
  shows "documents_ok E cfg (snd (relays_handler E cfg m w))"
proof -
  obtain w1 where n: "relays_notice E m w = (Inr (), w1)"
    using relays_notice_run(1) by (metis prod.collapse)
  obtain r w2 where f: "fetch_relays E (relays_number cfg) (timeout cfg) w1 = (r, w2)" by fastforce
  have c1: "connects w1 = connects w" using relays_notice_connects [of E m w] n by simp
  have t1: "tg_calls w1 = tg_calls w @ [SendMessage (msg_chat m) ''Trying to get a list of relays'']"
    using relays_notice_run(2) [of E m w] n by simp
  note run = relays_handler_run [OF n f]
  show ?thesis
  proof (rule documents_ok_extend [OF assms])
    show "prefix (connects w) (connects (snd (relays_handler E cfg m w)))"
      using run fetch_relays_connects [OF f] c1 by simp
    show "tg_calls (snd (relays_handler E cfg m w)) = tg_calls w @
        [SendMessage (msg_chat m) ''Trying to get a list of relays'',
         case r of Inl _ \<Rightarrow> ReplyTo (msg_chat m) (msg_id m) not_available_text
                 | Inr out \<Rightarrow> SendDocument (msg_chat m) (relays_caption cfg) out]"
      using run fetch_relays_frame [OF f] t1 by simp
  next
    fix c cap doc
    assume "SendDocument c cap doc \<in> set [SendMessage (msg_chat m) ''Trying to get a list of relays'',
         case r of Inl _ \<Rightarrow> ReplyTo (msg_chat m) (msg_id m) not_available_text
                 | Inr out \<Rightarrow> SendDocument (msg_chat m) (relays_caption cfg) out]"
    then have "r = Inr doc" by (cases r) auto
    with f run show "\<exists>ls. doc = format_relays ls \<and>
        (\<forall>l \<in> set ls. served_line E (timeout cfg) (connects (snd (relays_handler E cfg m w))) l)"
      by (simp add: fetch_relays_served)
  qed
qed

lemma handle_update_documents_ok:
  assumes "documents_ok E cfg w"
  shows "documents_ok E cfg (handle_update E cfg u w)"
proof -
  have "documents_ok E cfg (snd (dispatch E cfg u w))"
  proof (cases "upd_command u = Some ''relays''")
    case True
    with assms show ?thesis by (simp add: dispatch_def relays_handler_documents_ok)
  next
    case False
    then have "tg_calls (snd (dispatch E cfg u w)) = tg_calls w \<or>
        (\<exists>x. tg_calls (snd (dispatch E cfg u w)) = tg_calls w @ [ReplyTo (msg_chat (upd_msg u)) (msg_id (upd_msg u)) welcome_text])"
      and "connects (snd (dispatch E cfg u w)) = connects w"
      by (auto simp: dispatch_def send_welcome_def tg_api_def Let_def split: option.splits)
    with assms show ?thesis by (auto simp: documents_ok_def)
  qed
  moreover have "tg_calls (handle_update E cfg u w) = tg_calls (snd (dispatch E cfg u w))"
    and "connects (handle_update E cfg u w) = connects (snd (dispatch E cfg u w))"
    by (simp add: handle_update_calls, simp add: handle_update_def split: prod.split sum.split)
  ultimately show ?thesis by (simp add: documents_ok_def)
qed

text \<open>In every state the polling loop reaches, every document the bot has sent is
  made of lines served by the directory for the configured timeout.\<close>

theorem reachable_documents_sound:
  assumes "reachable E cfg w"
  shows "documents_ok E cfg w"
  using assms
proof induction
  case (update w u)
  then show ?case by (simp add: handle_update_documents_ok)
qed (simp_all add: documents_ok_def init_world_def)

theorem reachable_documents_sound_witness:
  "documents_ok two_addr_env config_init (handle_update two_addr_env config_init relays_update (init_world 0 0))"
  by (rule reachable_documents_sound [OF reachable.update [OF reachable.start]])

end
