(* ===== verification/Thread.thy ===== *)
theory Thread
  imports Prelude
begin

text \<open>
  Threads: a computation of the state-and-exception monad cut into atomic steps, so
  that steps of several threads can interleave. A thread has finished with a result
  (\<open>Ret\<close>) or has an atomic action to run on the shared state, which gives the rest
  of the thread (\<open>Act\<close>). \<open>th_seq\<close> runs a thread alone to its end; it maps every
  thread combinator onto its monadic counterpart, so a thread built like a monadic
  program, with the same atomic operations, runs alone exactly as that program does.
  Two ways to reason about a thread among others: \<open>th_pres\<close>, an invariant every
  step keeps, and \<open>th_rg\<close>, rely-guarantee with assertions stable under the steps
  of the other threads, with a rule per combinator.
\<close>

datatype ('e, 's, 'a) thread = Ret "'e + 'a" | Act "'s \<Rightarrow> ('e, 's, 'a) thread \<times> 's"

primrec th_bind :: "('e, 's, 'a) thread \<Rightarrow> ('a \<Rightarrow> ('e, 's, 'b) thread) \<Rightarrow> ('e, 's, 'b) thread" where
  "th_bind (Ret r) f = (case r of Inl e \<Rightarrow> Ret (Inl e) | Inr a \<Rightarrow> f a)"
| "th_bind (Act g) f = Act (map_prod (\<lambda>t. th_bind t f) id \<circ> g)"

primrec th_catch :: "('e, 's, 'a) thread \<Rightarrow> ('e \<Rightarrow> ('e, 's, 'a) thread) \<Rightarrow> ('e, 's, 'a) thread" where
  "th_catch (Ret r) h = (case r of Inl e \<Rightarrow> h e | Inr a \<Rightarrow> Ret (Inr a))"
| "th_catch (Act g) h = Act (map_prod (\<lambda>t. th_catch t h) id \<circ> g)"

primrec th_seq :: "('e, 's, 'a) thread \<Rightarrow> ('e, 's, 'a) exn_st" where
  "th_seq (Ret r) = (\<lambda>s. (r, s))"
| "th_seq (Act g) = (\<lambda>s. case map_prod th_seq id (g s) of (k, s') \<Rightarrow> k s')"

text \<open>An atomic operation: one step that runs a monadic computation on the state.\<close>

definition th_atom :: "('e, 's, 'a) exn_st \<Rightarrow> ('e, 's, 'a) thread" where
  "th_atom m = Act (\<lambda>s. case m s of (r, s') \<Rightarrow> (Ret r, s'))"

abbreviation th_return :: "'a \<Rightarrow> ('e, 's, 'a) thread" where
  "th_return a \<equiv> Ret (Inr a)"

abbreviation th_raise :: "'e \<Rightarrow> ('e, 's, 'a) thread" where
  "th_raise e \<equiv> Ret (Inl e)"

text \<open>A pure expression that may raise: no step.\<close>

definition th_lift :: "'e + 'a \<Rightarrow> ('e, 's, 'a) thread" where
  "th_lift r = Ret r"

subsection \<open>Running a thread alone\<close>

lemma th_seq_bind [simp]: "th_seq (th_bind t f) = py_bind (th_seq t) (\<lambda>a. th_seq (f a))"
proof (induction t)
  case (Ret r)
  then show ?case by (rule ext) (simp add: py_bind_apply split: sum.split)
next
  case (Act g)
  show ?case
  proof (rule ext)
    fix s
    obtain t s' where gs: "g s = (t, s')" by fastforce
    have "th_seq (th_bind t f) = py_bind (th_seq t) (\<lambda>a. th_seq (f a))"
      using Act.IH [of "g s" t] gs by (simp add: range_eqI [of _ g s])
    with gs show "th_seq (th_bind (Act g) f) s = py_bind (th_seq (Act g)) (\<lambda>a. th_seq (f a)) s"
      by (simp add: py_bind_apply)
  qed
qed

lemma th_seq_catch [simp]: "th_seq (th_catch t h) = py_catch (th_seq t) (\<lambda>e. th_seq (h e))"
proof (induction t)
  case (Ret r)
  then show ?case by (rule ext) (simp add: py_catch_apply split: sum.split)
next
  case (Act g)
  show ?case
  proof (rule ext)
    fix s
    obtain t s' where gs: "g s = (t, s')" by fastforce
    have "th_seq (th_catch t h) = py_catch (th_seq t) (\<lambda>e. th_seq (h e))"
      using Act.IH [of "g s" t] gs by (simp add: range_eqI [of _ g s])
    with gs show "th_seq (th_catch (Act g) h) s = py_catch (th_seq (Act g)) (\<lambda>e. th_seq (h e)) s"
      by (simp add: py_catch_apply)
  qed
qed

lemma th_seq_atom [simp]: "th_seq (th_atom m) = m"
  by (rule ext) (simp add: th_atom_def split: prod.split)

lemma th_seq_lift [simp]: "th_seq (th_lift r) = py_lift r"
  by (rule ext) (simp add: th_lift_def)

lemma th_bind_lift: "th_bind (th_lift r) f = (case r of Inl e \<Rightarrow> Ret (Inl e) | Inr a \<Rightarrow> f a)"
  by (simp add: th_lift_def)

lemma th_catch_lift: "th_catch (th_lift r) h = (case r of Inl e \<Rightarrow> h e | Inr a \<Rightarrow> Ret (Inr a))"
  by (simp add: th_lift_def)

lemma th_bind_assoc: "th_bind (th_bind t f) g = th_bind t (\<lambda>a. th_bind (f a) g)"
proof (induction t)
  case (Ret r)
  then show ?case by (cases r) simp_all
next
  case (Act h)
  have "(map_prod (\<lambda>t. th_bind t g) id \<circ> (map_prod (\<lambda>t. th_bind t f) id \<circ> h)) s =
        (map_prod (\<lambda>t. th_bind t (\<lambda>a. th_bind (f a) g)) id \<circ> h) s" for s
  proof -
    obtain t s' where hs: "h s = (t, s')" by fastforce
    with Act.IH [of "h s" t] show ?thesis by (simp add: range_eqI [of _ h s])
  qed
  then show ?case by (simp add: fun_eq_iff)
qed

lemma th_seq_if [simp]: "th_seq (if b then t1 else t2) = (if b then th_seq t1 else th_seq t2)"
  by simp

lemma th_seq_return [simp]: "th_seq (Ret (Inr a)) = py_return a"
  by (rule ext) simp

lemma th_seq_raise [simp]: "th_seq (Ret (Inl e)) = py_raise e"
  by (rule ext) simp

declare th_seq.simps(1) [simp del]

subsection \<open>Invariants kept by every step\<close>

text \<open>\<open>th_pres I t\<close>: every atomic step of \<open>t\<close> and of what remains of it keeps \<open>I\<close>;
  then \<open>I\<close> holds whatever the other threads do in between, as long as their steps keep
  it too.\<close>

inductive th_pres :: "('s \<Rightarrow> bool) \<Rightarrow> ('e, 's, 'a) thread \<Rightarrow> bool" for I where
  th_pres_Ret [intro]: "th_pres I (Ret r)"
| th_pres_Act: "(\<And>s. I s \<Longrightarrow> I (snd (g s)) \<and> th_pres I (fst (g s))) \<Longrightarrow> th_pres I (Act g)"

inductive_cases th_pres_ActE: "th_pres I (Act g)"

lemma th_pres_step: "th_pres I (Act g) \<Longrightarrow> I s \<Longrightarrow> I (snd (g s)) \<and> th_pres I (fst (g s))"
  by (erule th_pres_ActE) blast

lemma th_pres_atom [intro]: "preserves I m \<Longrightarrow> th_pres I (th_atom m)"
  by (auto simp: th_atom_def intro!: th_pres_Act dest: preservesD split: prod.split)

lemma th_pres_bind [intro]:
  "th_pres I t \<Longrightarrow> (\<And>a. th_pres I (f a)) \<Longrightarrow> th_pres I (th_bind t f)"
proof (induction rule: th_pres.induct)
  case (th_pres_Ret r)
  then show ?case by (auto split: sum.split)
next
  case (th_pres_Act g)
  show ?case
  proof (simp, rule th_pres.th_pres_Act)
    fix s assume "I s"
    with th_pres_Act.IH [of s] th_pres_Act.prems
    show "I (snd ((map_prod (\<lambda>t. th_bind t f) id \<circ> g) s)) \<and> th_pres I (fst ((map_prod (\<lambda>t. th_bind t f) id \<circ> g) s))"
      by (cases "g s") simp
  qed
qed

lemma th_pres_catch [intro]:
  "th_pres I t \<Longrightarrow> (\<And>e. th_pres I (h e)) \<Longrightarrow> th_pres I (th_catch t h)"
proof (induction rule: th_pres.induct)
  case (th_pres_Ret r)
  then show ?case by (auto split: sum.split)
next
  case (th_pres_Act g)
  show ?case
  proof (simp, rule th_pres.th_pres_Act)
    fix s assume "I s"
    with th_pres_Act.IH [of s] th_pres_Act.prems
    show "I (snd ((map_prod (\<lambda>t. th_catch t h) id \<circ> g) s)) \<and> th_pres I (fst ((map_prod (\<lambda>t. th_catch t h) id \<circ> g) s))"
      by (cases "g s") simp
  qed
qed

lemma th_pres_if [intro]: "th_pres I t1 \<Longrightarrow> th_pres I t2 \<Longrightarrow> th_pres I (if b then t1 else t2)"
  by simp

lemma th_pres_lift [intro]: "th_pres I (th_lift r)"
  by (simp add: th_lift_def th_pres.th_pres_Ret)

subsection \<open>Rely and guarantee\<close>

text \<open>An assertion on the shared state is \<open>rg_stable\<close> under the relation \<open>R\<close> when no
  step of \<open>R\<close> falsifies it. \<open>th_rg R P t Q\<close> (rely-guarantee): started in a state of
  \<open>P\<close>, every atomic step of \<open>t\<close> is a step of \<open>R\<close>, and the thread ends with result
  \<open>r\<close> in a state of \<open>Q r\<close>, whatever steps of \<open>R\<close> the other threads take in
  between: each intermediate assertion is rg_stable under \<open>R\<close>. The other threads being
  threads of the same kind, \<open>R\<close> is both what a thread relies on and what it
  guarantees.\<close>

definition rg_stable :: "('s \<Rightarrow> 's \<Rightarrow> bool) \<Rightarrow> ('s \<Rightarrow> bool) \<Rightarrow> bool" where
  "rg_stable R P \<longleftrightarrow> (\<forall>s s'. P s \<longrightarrow> R s s' \<longrightarrow> P s')"

inductive th_rg :: "('s \<Rightarrow> 's \<Rightarrow> bool) \<Rightarrow> ('s \<Rightarrow> bool) \<Rightarrow> ('e, 's, 'a) thread \<Rightarrow> ('e + 'a \<Rightarrow> 's \<Rightarrow> bool) \<Rightarrow> bool"
  for R where
  rg_Ret: "rg_stable R P \<Longrightarrow> (\<And>s. P s \<Longrightarrow> Q r s) \<Longrightarrow> th_rg R P (Ret r) Q"
| rg_Act: "rg_stable R P \<Longrightarrow>
    (\<And>s. P s \<Longrightarrow> R s (snd (g s)) \<and> (\<exists>P'. P' (snd (g s)) \<and> th_rg R P' (fst (g s)) Q)) \<Longrightarrow>
    th_rg R P (Act g) Q"

inductive_cases th_rg_RetE: "th_rg R P (Ret r) Q"
inductive_cases th_rg_ActE: "th_rg R P (Act g) Q"

lemma rg_stableI [intro?]: "(\<And>s s'. P s \<Longrightarrow> R s s' \<Longrightarrow> P s') \<Longrightarrow> rg_stable R P"
  by (simp add: rg_stable_def)

lemma rg_stableD: "rg_stable R P \<Longrightarrow> P s \<Longrightarrow> R s s' \<Longrightarrow> P s'"
  by (simp add: rg_stable_def)

lemma rg_stable_const [simp]: "rg_stable R (\<lambda>_. c)"
  by (simp add: rg_stable_def)

lemma rg_stable_conj [intro]: "rg_stable R P \<Longrightarrow> rg_stable R P' \<Longrightarrow> rg_stable R (\<lambda>s. P s \<and> P' s)"
  by (auto simp: rg_stable_def)

lemma th_rg_stable: "th_rg R P t Q \<Longrightarrow> rg_stable R P"
  by (erule th_rg.cases) simp_all

lemma th_rg_step:
  "th_rg R P (Act g) Q \<Longrightarrow> P s \<Longrightarrow> R s (snd (g s)) \<and> (\<exists>P'. P' (snd (g s)) \<and> th_rg R P' (fst (g s)) Q)"
  by (erule th_rg_ActE) blast

lemma th_rg_conseq:
  assumes "th_rg R P t Q" and "rg_stable R P'" and "\<And>s. P' s \<Longrightarrow> P s" and "\<And>r s. Q r s \<Longrightarrow> Q' r s"
  shows "th_rg R P' t Q'"
  using assms
proof (induction arbitrary: P' rule: th_rg.induct)
  case (rg_Ret P Q r)
  show ?case
  proof (rule th_rg.rg_Ret [OF rg_Ret.prems(1)])
    fix s assume "P' s"
    then show "Q' r s" using rg_Ret.hyps(2) rg_Ret.prems(2,3) by blast
  qed
next
  case (rg_Act P g Q)
  show ?case
  proof (rule th_rg.rg_Act [OF rg_Act.prems(1)])
    fix s assume "P' s"
    then have "P s" by (rule rg_Act.prems(2))
    from rg_Act.IH [OF this] obtain P'' where r: "R s (snd (g s))" and p: "P'' (snd (g s))"
      and t: "th_rg R P'' (fst (g s)) Q"
      and ih: "\<And>P'. rg_stable R P' \<Longrightarrow> (\<And>s. P' s \<Longrightarrow> P'' s) \<Longrightarrow> (\<And>r s. Q r s \<Longrightarrow> Q' r s) \<Longrightarrow>
                 th_rg R P' (fst (g s)) Q'"
      by blast
    have "th_rg R P'' (fst (g s)) Q'"
      by (rule ih [OF th_rg_stable [OF t]]) (simp_all add: rg_Act.prems(3))
    with r p show "R s (snd (g s)) \<and> (\<exists>P''. P'' (snd (g s)) \<and> th_rg R P'' (fst (g s)) Q')"
      by (intro conjI exI [of _ P''])
  qed
qed

lemma th_rg_atom:
  assumes "rg_stable R P" and "\<And>r. rg_stable R (Q r)" and "\<And>s. P s \<Longrightarrow> R s (snd (m s)) \<and> Q (fst (m s)) (snd (m s))"
  shows "th_rg R P (th_atom m) Q"
  unfolding th_atom_def
proof (rule th_rg.rg_Act [OF assms(1)])
  fix s assume p: "P s"
  obtain r s' where ms: "m s = (r, s')" by fastforce
  from assms(3) [OF p] ms have "R s s'" and "Q r s'" by simp_all
  moreover have "th_rg R (Q r) (Ret r) Q" by (rule th_rg.rg_Ret [OF assms(2)])
  ultimately show "R s (snd ((\<lambda>s. case m s of (r, s') \<Rightarrow> (Ret r, s')) s)) \<and>
      (\<exists>P'. P' (snd ((\<lambda>s. case m s of (r, s') \<Rightarrow> (Ret r, s')) s)) \<and>
            th_rg R P' (fst ((\<lambda>s. case m s of (r, s') \<Rightarrow> (Ret r, s')) s)) Q)"
    using ms by (intro conjI exI [of _ "Q r"]) simp_all
qed

lemma th_rg_lift: "rg_stable R P \<Longrightarrow> (\<And>s. P s \<Longrightarrow> Q r s) \<Longrightarrow> th_rg R P (th_lift r) Q"
  by (simp add: th_lift_def th_rg.rg_Ret)

lemma th_rg_bind:
  assumes "th_rg R P t Q" and "\<And>a. th_rg R (Q (Inr a)) (f a) Q'" and "\<And>e s. Q (Inl e) s \<Longrightarrow> Q' (Inl e) s"
  shows "th_rg R P (th_bind t f) Q'"
  using assms
proof (induction rule: th_rg.induct)
  case (rg_Ret P Q r)
  show ?case
  proof (cases r)
    case (Inl e)
    from rg_Ret.hyps rg_Ret.prems(2) Inl show ?thesis
      by (simp add: th_rg.rg_Ret)
  next
    case (Inr a)
    from rg_Ret.prems(1) [of a] have "th_rg R P (f a) Q'"
      by (rule th_rg_conseq) (use rg_Ret.hyps Inr in simp_all)
    with Inr show ?thesis by simp
  qed
next
  case (rg_Act P g Q)
  show ?case
  proof (simp only: th_bind.simps, rule th_rg.rg_Act [OF rg_Act.hyps(1)])
    fix s assume p: "P s"
    obtain t' s' where gs: "g s = (t', s')" by fastforce
    from rg_Act.IH [OF p] gs obtain P' where r: "R s s'" and p': "P' s'"
      and ih: "th_rg R P' (th_bind t' f) Q'"
      using rg_Act.prems by auto
    from r p' ih gs show "R s (snd ((map_prod (\<lambda>t. th_bind t f) id \<circ> g) s)) \<and>
      (\<exists>P'. P' (snd ((map_prod (\<lambda>t. th_bind t f) id \<circ> g) s)) \<and>
            th_rg R P' (fst ((map_prod (\<lambda>t. th_bind t f) id \<circ> g) s)) Q')"
      by (intro conjI exI [of _ P']) simp_all
  qed
qed

lemma th_rg_catch:
  assumes "th_rg R P t Q" and "\<And>e. th_rg R (Q (Inl e)) (h e) Q'" and "\<And>a s. Q (Inr a) s \<Longrightarrow> Q' (Inr a) s"
  shows "th_rg R P (th_catch t h) Q'"
  using assms
proof (induction rule: th_rg.induct)
  case (rg_Ret P Q r)
  show ?case
  proof (cases r)
    case (Inl e)
    from rg_Ret.prems(1) [of e] have "th_rg R P (h e) Q'"
      by (rule th_rg_conseq) (use rg_Ret.hyps Inl in simp_all)
    with Inl show ?thesis by simp
  next
    case (Inr a)
    from rg_Ret.hyps rg_Ret.prems(2) Inr show ?thesis
      by (simp add: th_rg.rg_Ret)
  qed
next
  case (rg_Act P g Q)
  show ?case
  proof (simp only: th_catch.simps, rule th_rg.rg_Act [OF rg_Act.hyps(1)])
    fix s assume p: "P s"
    obtain t' s' where gs: "g s = (t', s')" by fastforce
    from rg_Act.IH [OF p] gs obtain P' where r: "R s s'" and p': "P' s'"
      and ih: "th_rg R P' (th_catch t' h) Q'"
      using rg_Act.prems by auto
    from r p' ih gs show "R s (snd ((map_prod (\<lambda>t. th_catch t h) id \<circ> g) s)) \<and>
      (\<exists>P'. P' (snd ((map_prod (\<lambda>t. th_catch t h) id \<circ> g) s)) \<and>
            th_rg R P' (fst ((map_prod (\<lambda>t. th_catch t h) id \<circ> g) s)) Q')"
      by (intro conjI exI [of _ P']) simp_all
  qed
qed

lemma th_rg_bind_atom:
  assumes "rg_stable R P" and "\<And>a. rg_stable R (A a)" and "\<And>e. rg_stable R (Q (Inl e))"
    and "\<And>s. P s \<Longrightarrow> R s (snd (m s)) \<and>
           (case fst (m s) of Inl e \<Rightarrow> Q (Inl e) (snd (m s)) | Inr a \<Rightarrow> A a (snd (m s)))"
    and "\<And>a. th_rg R (A a) (f a) Q"
  shows "th_rg R P (th_bind (th_atom m) f) Q"
proof (rule th_rg_bind [where Q = "\<lambda>r s. case r of Inl e \<Rightarrow> Q (Inl e) s | Inr a \<Rightarrow> A a s"])
  have "\<And>r. rg_stable R (\<lambda>s. case r of Inl e \<Rightarrow> Q (Inl e) s | Inr a \<Rightarrow> A a s)"
    subgoal for r by (cases r) (simp_all add: assms(2,3))
    done
  then show "th_rg R P (th_atom m) (\<lambda>r s. case r of Inl e \<Rightarrow> Q (Inl e) s | Inr a \<Rightarrow> A a s)"
    by (rule th_rg_atom [OF assms(1)]) (use assms(4) in blast)
qed (simp_all add: assms(5))

lemma rg_stable_imp [intro]: "rg_stable R F \<Longrightarrow> rg_stable R (\<lambda>s. b \<longrightarrow> F s)"
  by (cases b) simp_all

lemma th_rg_quiet_atom: "rg_stable R P \<Longrightarrow> (\<And>s. R s (snd (m s))) \<Longrightarrow> th_rg R P (th_atom m) (\<lambda>_. P)"
  by (rule th_rg_atom) (auto dest: rg_stableD)

lemma th_rg_bind_quiet:
  assumes P: "rg_stable R P" and q: "\<And>s. R s (snd (m s))" and e: "\<And>e s. P s \<Longrightarrow> Q (Inl e) s"
    and st: "\<And>e. rg_stable R (Q (Inl e))" and f: "\<And>a. th_rg R P (f a) Q"
  shows "th_rg R P (th_bind (th_atom m) f) Q"
proof (rule th_rg_bind_atom [where A = "\<lambda>_. P", OF P _ st _ f])
  fix s assume "P s"
  moreover from rg_stableD [OF P this q] have "P (snd (m s))" .
  ultimately show "R s (snd (m s)) \<and> (case fst (m s) of Inl e \<Rightarrow> Q (Inl e) (snd (m s)) | Inr a \<Rightarrow> P (snd (m s)))"
    using q e by (simp split: sum.split)
qed (rule P)

end
