(* ===== verification/Workers.thy ===== *)
theory Workers
  imports Polling Thread
begin

text \<open>
  \<^verbatim>\<open>telebot\<close> runs handlers on a pool of worker threads (\<^verbatim>\<open>TeleBot\<close> is made
  with its defaults, \<^verbatim>\<open>threaded=True\<close> and \<^verbatim>\<open>num_threads=2\<close>, line 189), so two
  handlers can run at once on the one process state. This theory cuts the handlers of
  \<^verbatim>\<open>src/app/main.py\<close> into threads whose atomic steps are the points where the
  code touches the shared state or the outside world: \<^verbatim>\<open>socket.socket()\<close>,
  \<^verbatim>\<open>socket.setdefaulttimeout\<close>, \<^verbatim>\<open>connect_ex\<close>, a log record, a draw of
  \<^verbatim>\<open>random\<close>, its seeding, the clock read of the request, and a Bot API call. Pure
  computation between two such points is no step. Each thread definition mirrors the
  monadic definition of the same code, and \<open>th_seq\<close> of it is that definition.
\<close>

subsection \<open>Handler threads\<close>

definition probe_body_th :: "'x probe_env_scheme \<Rightarrow> string list \<Rightarrow> (exc, 'r world, bool) thread" where
  "probe_body_th E addrs =
     th_bind (th_atom (socket_new E)) (\<lambda>sock.
     th_bind (th_atom (set_default_timeout 2)) (\<lambda>_.
     th_bind (th_lift (py_int (addrs ! 1))) (\<lambda>port.
     th_bind (th_atom (connect_ex E sock (addrs ! 0) port)) (\<lambda>result.
     th_return (result = 0)))))"

definition is_socket_open_th :: "'x probe_env_scheme \<Rightarrow> string option \<Rightarrow> (exc, 'r world, bool) thread" where
  "is_socket_open_th E addr =
     (case addr of
        None \<Rightarrow> th_return False
      | Some a \<Rightarrow>
          (let addrs = py_split CHR '':'' a in
           if length addrs < 2 then th_return False
           else th_catch (probe_body_th E addrs) (\<lambda>ex.
                  th_bind (th_atom (py_modify (log_append ERROR ''Unhandled is_socket_open'' (Some ex)))) (\<lambda>_.
                  th_return False))))"

definition addr_step_th ::
  "('r, 'x) sample_env_scheme \<Rightarrow> json \<Rightarrow> string list \<Rightarrow> json \<Rightarrow> (exc, 'r world, string list) thread" where
  "addr_step_th E relay acc a =
     th_bind (th_lift (py_as_str a)) (\<lambda>addr.
     if py_find addr CHR ''['' \<noteq> -1 then th_return acc
     else th_bind (th_lift (check_port addr)) (\<lambda>ok.
       if \<not> ok then th_return acc
       else th_bind (is_socket_open_th E (Some addr)) (\<lambda>is_open.
         if \<not> is_open then th_return acc
         else th_bind (th_lift (exn_bind (relay_fingerprint relay) (py_str_add (addr @ '' '')))) (\<lambda>line.
           th_return (acc @ [line])))))"

primrec scan_addrs_th ::
  "('r, 'x) sample_env_scheme \<Rightarrow> json \<Rightarrow> json list \<Rightarrow> string list \<Rightarrow> (exc, 'r world, string list) thread" where
  "scan_addrs_th E relay [] acc = th_return acc"
| "scan_addrs_th E relay (a # as) acc = th_bind (addr_step_th E relay acc a) (\<lambda>acc'. scan_addrs_th E relay as acc')"

definition draw_relay_th :: "('r, 'x) sample_env_scheme \<Rightarrow> json \<Rightarrow> (exc, 'r world, json) thread" where
  "draw_relay_th E j =
     th_bind (th_lift (exn_bind (get_relays j) py_len)) (\<lambda>n.
     th_bind (th_atom (randint E 0 (int n - 1))) (\<lambda>rnd.
     th_lift (exn_bind (get_relays j) (\<lambda>rs. py_getitem rs (KInt rnd)))))"

definition sample_step_th :: "('r, 'x) sample_env_scheme \<Rightarrow> json \<Rightarrow> string list \<Rightarrow> (exc, 'r world, string list) thread" where
  "sample_step_th E j acc =
     th_bind (draw_relay_th E j) (\<lambda>relay.
     th_bind (th_lift (exn_bind (relay_addresses relay) py_iter)) (\<lambda>addrs.
     scan_addrs_th E relay addrs acc))"

fun sample_loop_th ::
  "('r, 'x) sample_env_scheme \<Rightarrow> json \<Rightarrow> int \<Rightarrow> nat \<Rightarrow> string list \<Rightarrow> (exc, 'r world, string list) thread" where
  "sample_loop_th E j n counter acc =
     (if 0 < counter \<and> int (length acc) < n then
        th_bind (sample_step_th E j acc) (\<lambda>acc'. sample_loop_th E j n (counter - 1) acc')
      else th_return acc)"

declare sample_loop_th.simps [simp del]

definition parse_relays_th :: "('r, 'x) sample_env_scheme \<Rightarrow> json \<Rightarrow> int \<Rightarrow> (exc, 'r world, string) thread" where
  "parse_relays_th E j n =
     th_bind (th_lift (check_relays j)) (\<lambda>_.
     th_bind (th_lift (exn_bind (get_relays j) py_len)) (\<lambda>counter.
     th_bind (sample_loop_th E j n counter []) (\<lambda>filtered.
     th_return (format_relays filtered))))"

definition fetch_relays_th :: "('r, 'x) fetch_env_scheme \<Rightarrow> int \<Rightarrow> int \<Rightarrow> (exc, 'r world, string) thread" where
  "fetch_relays_th E rn tmo =
     th_bind (th_atom (seed_random E)) (\<lambda>_.
     th_catch
       (th_bind (th_atom (py_get clock)) (\<lambda>now.
        th_bind (th_lift (e_get E now onion_url tmo [(''User-Agent'', user_agent)])) (\<lambda>resp.
        if status_code resp \<noteq> 200
        then th_raise (FetchedError (FMsg (''Fetching error, server response code is '' @ str_of_int (status_code resp))))
        else th_bind (th_lift (resp_json resp)) (\<lambda>j. parse_relays_th E j rn))))
       (\<lambda>e. th_raise (fetch_handler e)))"

definition relays_notice_th :: "('r, 'x) bot_env_scheme \<Rightarrow> tg_message \<Rightarrow> (exc, 'r world, unit) thread" where
  "relays_notice_th E m =
     th_catch (th_atom (tg_api E (SendMessage (msg_chat m) ''Trying to get a list of relays''))) (\<lambda>ex.
       th_atom (py_modify (log_append ERROR ''get relays send reply to user'' (Some ex))))"

definition relays_fetch_th :: "('r, 'x) bot_env_scheme \<Rightarrow> config \<Rightarrow> tg_message \<Rightarrow> (exc, 'r world, string option) thread" where
  "relays_fetch_th E cfg m =
     th_catch
       (th_bind (fetch_relays_th E (relays_number cfg) (timeout cfg)) (\<lambda>output.
        th_bind (th_atom (py_modify (log_append DEBUG ''load relays successful'' None))) (\<lambda>_.
        th_return (Some output))))
       (\<lambda>e. if is_fetched_error e
            then th_bind (th_atom (py_modify (log_append ERROR ''get relays fetched error'' (Some e)))) (\<lambda>_.
                 th_bind (th_atom (tg_api E (ReplyTo (msg_chat m) (msg_id m) not_available_text))) (\<lambda>_.
                 th_return None))
            else th_bind (th_atom (py_modify (log_append ERROR ''get relays fetch relays:'' (Some e)))) (\<lambda>_.
                 th_bind (th_atom (tg_api E (ReplyTo (msg_chat m) (msg_id m) not_available_text))) (\<lambda>_.
                 th_return None)))"

definition relays_document_th :: "('r, 'x) bot_env_scheme \<Rightarrow> config \<Rightarrow> tg_message \<Rightarrow> string \<Rightarrow> (exc, 'r world, unit) thread" where
  "relays_document_th E cfg m output =
     th_catch (th_atom (tg_api E (SendDocument (msg_chat m) (relays_caption cfg) output))) (\<lambda>ex.
       th_atom (py_modify (log_append ERROR ''get relays send reply to user'' (Some ex))))"

definition relays_handler_th :: "('r, 'x) bot_env_scheme \<Rightarrow> config \<Rightarrow> tg_message \<Rightarrow> (exc, 'r world, unit) thread" where
  "relays_handler_th E cfg m =
     th_bind (relays_notice_th E m) (\<lambda>_.
     th_bind (relays_fetch_th E cfg m) (\<lambda>r.
     case r of
       None \<Rightarrow> th_return ()
     | Some output \<Rightarrow> relays_document_th E cfg m output))"

definition dispatch_th :: "('r, 'x) bot_env_scheme \<Rightarrow> config \<Rightarrow> update \<Rightarrow> (exc, 'r world, unit) thread" where
  "dispatch_th E cfg u =
     (case upd_command u of
        Some c \<Rightarrow>
          if c = ''start'' \<or> c = ''help'' then th_atom (send_welcome E (upd_msg u))
          else if c = ''relays'' then relays_handler_th E cfg (upd_msg u)
          else th_return ()
      | None \<Rightarrow> th_return ())"

text \<open>An invariant of the process state is \<open>step-stable\<close> when every atomic step a handler
  thread can take keeps it, and so does the clock.\<close>

definition step_stable :: "('r, 'x) bot_env_scheme \<Rightarrow> ('r world \<Rightarrow> bool) \<Rightarrow> bool" where
  "step_stable E I \<longleftrightarrow>
     preserves I (socket_new E) \<and> preserves I (set_default_timeout 2) \<and>
     (\<forall>sk h p. preserves I (connect_ex E sk h p)) \<and>
     (\<forall>lv msg ex. preserves I (py_modify (log_append lv msg ex) :: ('r world, unit) pyM)) \<and>
     (\<forall>c. preserves I (tg_api E c)) \<and> (\<forall>a b. preserves I (randint E a b)) \<and>
     preserves I (seed_random E) \<and> (\<forall>w t. I w \<longrightarrow> I (w\<lparr>clock := t\<rparr>))"

subsection \<open>The worker pool\<close>

text \<open>\<open>pool E cfg w ts\<close>: the process state \<open>w\<close> with the handler threads \<open>ts\<close>
  running on the workers. A new update goes to a free worker; any running thread may
  take the next step; a finished thread frees its worker, its exception logged by the
  polling loop as in \<open>handle_update\<close>.\<close>

definition pool_workers :: nat where
  "pool_workers = 2"

inductive pool :: "('r, 'x) bot_env_scheme \<Rightarrow> config \<Rightarrow> 'r world \<Rightarrow> (exc, 'r world, unit) thread list \<Rightarrow> bool"
  for E cfg where
  start: "pool E cfg (init_world r t) []"
| spawn: "pool E cfg w ts \<Longrightarrow> length ts < pool_workers \<Longrightarrow> pool E cfg w (ts @ [dispatch_th E cfg u])"
| step: "pool E cfg w ts \<Longrightarrow> i < length ts \<Longrightarrow> ts ! i = Act g \<Longrightarrow> g w = (t', w') \<Longrightarrow> pool E cfg w' (ts[i := t'])"
| finish: "pool E cfg w ts \<Longrightarrow> i < length ts \<Longrightarrow> ts ! i = Ret r \<Longrightarrow>
    pool E cfg (case r of Inl ex \<Rightarrow> log_append ERROR ''Infinity polling exception'' (Some ex) w | Inr _ \<Rightarrow> w)
      (take i ts @ drop (Suc i) ts)"
| tick: "pool E cfg w ts \<Longrightarrow> clock w \<le> t \<Longrightarrow> pool E cfg (w\<lparr>clock := t\<rparr>) ts"

text \<open>A schedule of the pool, run one event at a time: an update given to a free
  worker, a step of the \<open>i\<close>-th running thread, or its end.\<close>

datatype sched = Spawn update | Step nat | Finish nat

fun pool_exec ::
  "('r, 'x) bot_env_scheme \<Rightarrow> config \<Rightarrow> sched \<Rightarrow> 'r world \<times> (exc, 'r world, unit) thread list
   \<Rightarrow> ('r world \<times> (exc, 'r world, unit) thread list) option" where
  "pool_exec E cfg (Spawn u) (w, ts) =
     (if length ts < pool_workers then Some (w, ts @ [dispatch_th E cfg u]) else None)"
| "pool_exec E cfg (Step i) (w, ts) =
     (if i < length ts then
        (case ts ! i of Act g \<Rightarrow> (case g w of (t', w') \<Rightarrow> Some (w', ts[i := t'])) | Ret _ \<Rightarrow> None)
      else None)"
| "pool_exec E cfg (Finish i) (w, ts) =
     (if i < length ts then
        (case ts ! i of
           Ret r \<Rightarrow> Some (case r of Inl ex \<Rightarrow> log_append ERROR ''Infinity polling exception'' (Some ex) w | Inr _ \<Rightarrow> w,
                           take i ts @ drop (Suc i) ts)
         | Act _ \<Rightarrow> None)
      else None)"

fun pool_run ::
  "('r, 'x) bot_env_scheme \<Rightarrow> config \<Rightarrow> sched list \<Rightarrow> 'r world \<times> (exc, 'r world, unit) thread list
   \<Rightarrow> ('r world \<times> (exc, 'r world, unit) thread list) option" where
  "pool_run E cfg [] st = Some st"
| "pool_run E cfg (a # as) st = (case pool_exec E cfg a st of None \<Rightarrow> None | Some st' \<Rightarrow> pool_run E cfg as st')"

subsection \<open>Run alone, a handler thread is the handler\<close>

lemma probe_body_th_seq [simp]: "th_seq (probe_body_th E addrs) = probe_body E addrs"
  by (simp add: probe_body_th_def probe_body_def)

lemma is_socket_open_th_seq [simp]: "th_seq (is_socket_open_th E addr) = py_total (is_socket_open E addr)"
  by (rule ext) (simp add: is_socket_open_th_def is_socket_open_def py_total_apply py_catch_apply Let_def
      split: option.split prod.split sum.split)

lemma addr_step_th_seq [simp]: "th_seq (addr_step_th E relay acc a) = addr_step E relay acc a"
  by (simp add: addr_step_th_def addr_step_def cong: if_cong)

lemma scan_addrs_th_seq [simp]: "th_seq (scan_addrs_th E relay as acc) = scan_addrs E relay as acc"
  by (induction as arbitrary: acc) simp_all

lemma sample_step_th_seq [simp]: "th_seq (sample_step_th E j acc) = sample_step E j acc"
  by (simp add: sample_step_th_def sample_step_def draw_relay_th_def draw_relay_def randint_def)

lemma sample_loop_th_seq [simp]: "th_seq (sample_loop_th E j n c acc) = sample_loop E j n c acc"
proof (induction c arbitrary: acc)
  case 0
  then show ?case by (rule ext) (simp add: sample_loop_th.simps sample_loop_unfold)
next
  case (Suc c)
  then show ?case
    by (intro ext) (simp add: sample_loop_th.simps [of _ _ _ "Suc c"] sample_loop_unfold [of _ _ _ "Suc c"]
        py_bind_apply split: prod.split sum.split)
qed

lemma parse_relays_th_seq [simp]: "th_seq (parse_relays_th E j n) = parse_relays E j n"
  by (simp add: parse_relays_th_def parse_relays_def)

lemma fetch_relays_th_seq [simp]: "th_seq (fetch_relays_th E n t) = fetch_relays E n t"
  by (simp add: fetch_relays_th_def fetch_relays_def fetch_body_def cong: if_cong)

lemma th_seq_case_option [simp]:
  "th_seq (case r of None \<Rightarrow> t | Some x \<Rightarrow> f x) = (case r of None \<Rightarrow> th_seq t | Some x \<Rightarrow> th_seq (f x))"
  by (simp split: option.split)

lemma relays_handler_th_seq [simp]: "th_seq (relays_handler_th E cfg m) = relays_handler E cfg m"
  by (simp add: relays_handler_th_def relays_handler_def relays_notice_th_def relays_notice_def
      relays_fetch_th_def relays_fetch_def relays_document_th_def relays_document_def cong: if_cong option.case_cong)

subsection \<open>Schedules\<close>

lemma pool_run_alone:
  assumes "pool E cfg w ts" and "i < length ts" and "ts ! i = t" and "th_seq t w = (r, w')"
  shows "pool E cfg w' (ts[i := Ret r])"
  using assms
proof (induction t arbitrary: w ts)
  case (Ret r0)
  then have "r0 = r" "w' = w" by (simp_all add: th_seq.simps)
  with Ret.prems show ?case by (metis list_update_id)
next
  case (Act g)
  obtain t1 w1 where g: "g w = (t1, w1)" by fastforce
  have p1: "pool E cfg w1 (ts[i := t1])" by (rule pool.step [OF Act.prems(1,2,3) g])
  have "th_seq t1 w1 = (r, w')" using Act.prems(4) g by simp
  from Act.IH [of "g w" t1, OF _ _ p1 _ _ this] g Act.prems(2) show ?case
    by (simp add: range_eqI [of _ g w])
qed

lemma pool_exec_sound:
  assumes "pool E cfg w ts" and "pool_exec E cfg a (w, ts) = Some (w', ts')"
  shows "pool E cfg w' ts'"
proof (cases a)
  case (Spawn u)
  with assms show ?thesis by (auto intro: pool.spawn split: if_splits)
next
  case (Step i)
  with assms show ?thesis
    by (auto intro: pool.step split: if_splits thread.splits prod.splits)
next
  case (Finish i)
  with assms show ?thesis
    by (auto split: if_splits thread.splits dest: pool.finish)
qed

lemma pool_run_sound:
  "pool E cfg w ts \<Longrightarrow> pool_run E cfg as (w, ts) = Some (w', ts') \<Longrightarrow> pool E cfg w' ts'"
proof (induction as arbitrary: w ts)
  case (Cons a as)
  then show ?case
    by (auto split: option.splits dest: pool_exec_sound)
qed simp

subsection \<open>Invariants under interleaving\<close>

lemma step_stable_atoms:
  assumes "step_stable E I"
  shows "preserves I (socket_new E)" "preserves I (set_default_timeout 2)" "preserves I (connect_ex E sk h p)"
    "preserves I (py_modify (log_append lv msg ex) :: ('r world, unit) pyM)" "preserves I (tg_api E c)"
    "preserves I (randint E a b)"
    "preserves I (seed_random E)"
  using assms by (simp_all add: step_stable_def)

lemmas th_pres_intros = th_pres_bind th_pres_catch th_pres_atom th_pres_lift th_pres_if th_pres.th_pres_Ret

lemma is_socket_open_th_pres: "step_stable E I \<Longrightarrow> th_pres I (is_socket_open_th E addr)"
  unfolding is_socket_open_th_def probe_body_th_def
  by (auto intro!: th_pres_intros step_stable_atoms simp: Let_def split: option.split)

lemma scan_addrs_th_pres: "step_stable E I \<Longrightarrow> th_pres I (scan_addrs_th E relay as acc)"
proof (induction as arbitrary: acc)
  case (Cons a as)
  then show ?case
    unfolding scan_addrs_th.simps addr_step_th_def
    by (intro th_pres_intros is_socket_open_th_pres) simp_all
qed (simp add: th_pres.th_pres_Ret)

lemma sample_loop_th_pres: "step_stable E I \<Longrightarrow> th_pres I (sample_loop_th E j n c acc)"
proof (induction c arbitrary: acc)
  case 0
  then show ?case by (simp add: sample_loop_th.simps th_pres.th_pres_Ret)
next
  case (Suc c)
  then show ?case
    unfolding sample_loop_th.simps [of _ _ _ "Suc c"] sample_step_th_def draw_relay_th_def
    by (intro th_pres_intros scan_addrs_th_pres step_stable_atoms) simp_all
qed

lemma dispatch_th_pres: "step_stable E I \<Longrightarrow> th_pres I (dispatch_th E cfg u)"
  unfolding dispatch_th_def relays_handler_th_def relays_notice_th_def relays_fetch_th_def
    relays_document_th_def fetch_relays_th_def parse_relays_th_def send_welcome_def
  by (auto intro!: th_pres_intros sample_loop_th_pres step_stable_atoms preserves_get split: option.split)

lemma pool_invariant:
  assumes "pool E cfg w ts" and "step_stable E I" and "\<And>r t. I (init_world r t)"
  shows "I w \<and> (\<forall>t \<in> set ts. th_pres I t)"
  using assms(1)
proof induction
  case (spawn w ts u)
  with dispatch_th_pres [OF assms(2)] show ?case by simp
next
  case (step w ts i g t' w')
  then have "th_pres I (Act g)" by (metis nth_mem)
  from th_pres_step [OF this, of w] step have "I w'" "th_pres I t'" by simp_all
  with step show ?case by (auto dest: set_update_subset_insert [THEN subsetD])
next
  case (finish w ts i r)
  have "\<And>ex. I w \<Longrightarrow> I (log_append ERROR ''Infinity polling exception'' (Some ex) w)"
    using step_stable_atoms(4) [OF assms(2)] by (simp add: preserves_def)
  with finish show ?case by (auto split: sum.split dest: in_set_takeD in_set_dropD)
next
  case (tick w ts t)
  with assms(2) show ?case by (simp add: step_stable_def)
qed (simp add: assms(3))

lemma step_stable_ports_in_range: "step_stable E ports_in_range"
  by (auto simp: step_stable_def preserves_def ports_in_range_def socket_new_def
      set_default_timeout_def connect_ex_def tg_api_def randint_def seed_random_def Let_def
      split: option.split prod.split)

text \<open>Run alone, the thread of an update is the handler \<^verbatim>\<open>telebot\<close> dispatches
  it to: cutting the handlers into atomic steps changes nothing when no other thread
  runs.\<close>

theorem dispatch_th_seq: "th_seq (dispatch_th E cfg u) = dispatch E cfg u"
  by (simp add: dispatch_th_def dispatch_def split: option.split)

text \<open>With the handlers running on the worker pool, in every state and whatever the
  interleaving of their steps, every connection attempt has its port in 0..65535.\<close>

theorem pool_ports_in_range:
  assumes "pool E cfg w ts"
  shows "ports_in_range w"
  using pool_invariant [OF assms step_stable_ports_in_range] by (simp add: ports_in_range_def init_world_def)

theorem pool_ports_in_range_witness:
  "ports_in_range (init_world (0::nat) 0)"
  by (rule pool_ports_in_range [OF pool.start [of two_addr_env config_init]])

text \<open>The bot handling updates one at a time is one schedule of the worker pool:
  every state the sequential loop reaches, the pool reaches with no thread running.\<close>

theorem reachable_pool:
  assumes "reachable E cfg w"
  shows "pool E cfg w []"
  using assms
proof induction
  case (start r t)
  then show ?case by (rule pool.start)
next
  case (update w u)
  have p1: "pool E cfg w [dispatch_th E cfg u]"
    using pool.spawn [OF update.IH, of u] by (simp add: pool_workers_def)
  obtain r w' where d: "dispatch E cfg u w = (r, w')" by fastforce
  have "pool E cfg w' [Ret r]"
    using pool_run_alone [OF p1, of 0 "dispatch_th E cfg u" r w'] d
    by (simp add: dispatch_th_def dispatch_def th_seq_case_option cong: if_cong option.case_cong)
  from pool.finish [OF this, of 0 r] d show ?case
    by (cases r) (simp_all add: handle_update_def)
next
  case (tick w t)
  from tick.IH tick.hyps(2) show ?case by (rule pool.tick)
qed

theorem reachable_pool_witness:
  "pool two_addr_env config_init (handle_update two_addr_env config_init relays_update (init_world 0 0)) []"
  by (rule reachable_pool [OF reachable.update [OF reachable.start]])

text \<open>C10: the pool does run two probes at once: two \<^verbatim>\<open>/relays\<close> updates handled by the
  two workers, interleaved step by step, both create their socket before either sets the
  default timeout, so two connection attempts are made without a timeout and the
  invariant \<open>timeout_inv\<close> that sequential polling keeps fails.\<close>

theorem pool_concurrent_blocking:
  "\<exists>w ts. pool two_addr_env config_init w ts \<and> \<not> timeout_inv w \<and>
     connects w = [(''1.2.3.4'', 80, None), (''1.2.3.4'', 80, None)]"
proof -
  let ?s = "[Spawn relays_update, Spawn relays_update, Step 0, Step 0, Step 0, Step 0,
             Step 1, Step 1, Step 1, Step 1, Step 0, Step 1, Step 0, Step 0, Step 1, Step 1]"
  have run: "case pool_run two_addr_env config_init ?s (init_world (0::nat) 0, []) of
      None \<Rightarrow> False
    | Some (w, ts) \<Rightarrow> \<not> timeout_inv w \<and>
        connects w = [(''1.2.3.4'', 80, None), (''1.2.3.4'', 80, None)]"
    by code_simp
  then obtain w ts where r: "pool_run two_addr_env config_init ?s (init_world 0 0, []) = Some (w, ts)"
    and p: "\<not> timeout_inv w \<and> connects w = [(''1.2.3.4'', 80, None), (''1.2.3.4'', 80, None)]"
    by (auto split: option.splits)
  have "pool two_addr_env config_init w ts"
    by (rule pool_run_sound [OF pool.start r])
  with p show ?thesis by blast
qed

end
