(* ===== verification/PoolDocs.thy ===== *)
theory PoolDocs
  imports Documents Workers
begin

text \<open>
  The documents the bot sends when its handlers run on the worker pool. Each step of
  a handler thread is a step of \<open>doc_step\<close>: the connection attempts only grow, and the
  Bot API calls it adds are documents made of lines the directory served, each
  accepted by an attempt of the new state. Since the attempts only grow, such a line
  stays served whatever the other worker does, so \<open>doc_step\<close> is both what a handler
  thread relies on and what it guarantees (\<open>th_rg\<close> of theory \<open>Thread\<close>). The
  assertions of the handler threads say what the values they hold are: the answer of
  a probe, the lines gathered so far, the output of the fetch.
\<close>

definition doc_step :: "('r, 'x) bot_env_scheme \<Rightarrow> int \<Rightarrow> 'r world \<Rightarrow> 'r world \<Rightarrow> bool" where
  "doc_step E t w w' \<longleftrightarrow> prefix (connects w) (connects w') \<and>
     (\<exists>cs. tg_calls w' = tg_calls w @ cs \<and>
        (\<forall>c cap doc. SendDocument c cap doc \<in> set cs \<longrightarrow>
           (\<exists>ls. doc = format_relays ls \<and> (\<forall>l \<in> set ls. served_line E t (connects w') l))))"

subsection \<open>Steps\<close>

lemma doc_step_quiet: "tg_calls w' = tg_calls w \<Longrightarrow> prefix (connects w) (connects w') \<Longrightarrow> doc_step E t w w'"
  unfolding doc_step_def by (intro conjI exI [of _ "[]"]) simp_all

lemma doc_step_documents_ok:
  assumes "documents_ok E cfg w" and "doc_step E (timeout cfg) w w'"
  shows "documents_ok E cfg w'"
proof -
  from assms(2) obtain cs where p: "prefix (connects w) (connects w')" and t: "tg_calls w' = tg_calls w @ cs"
    and d: "\<forall>c cap doc. SendDocument c cap doc \<in> set cs \<longrightarrow>
              (\<exists>ls. doc = format_relays ls \<and> (\<forall>l \<in> set ls. served_line E (timeout cfg) (connects w') l))"
    unfolding doc_step_def by blast
  show ?thesis by (rule documents_ok_extend [OF assms(1) p t]) (use d in blast)
qed

named_theorems quiet_step "atomic steps of a handler that send no document"

lemma socket_new_quiet [quiet_step]: "doc_step E t w (snd (socket_new E' w))"
  by (rule doc_step_quiet) (simp_all add: socket_new_def Let_def split: option.split)

lemma set_default_timeout_quiet [quiet_step]: "doc_step E t w (snd (set_default_timeout d w))"
  by (rule doc_step_quiet) (simp_all add: set_default_timeout_def)

lemma connect_ex_quiet [quiet_step]: "doc_step E t w (snd (connect_ex E' sk h p w))"
  by (rule doc_step_quiet) (simp_all add: connect_ex_def)

lemma log_quiet [quiet_step]: "doc_step E t w (snd (py_modify (log_append lv m ex) w))"
  by (rule doc_step_quiet) simp_all

lemma randint_quiet [quiet_step]: "doc_step E t w (snd (randint E' a b w))"
  by (rule doc_step_quiet) (simp_all add: randint_def split: prod.split)

lemma seed_random_quiet [quiet_step]: "doc_step E t w (snd (seed_random E' w))"
  by (rule doc_step_quiet) (simp_all add: seed_random_def)

lemma get_clock_quiet [quiet_step]: "doc_step E t w (snd (py_get clock w))"
  by (rule doc_step_quiet) simp_all

lemma tg_api_message_quiet [quiet_step]:
  "(\<And>ch cap doc. c \<noteq> SendDocument ch cap doc) \<Longrightarrow> doc_step E t w (snd (tg_api E c w))"
  unfolding doc_step_def
  by (intro conjI exI [of _ "[c]"]) (auto simp: tg_api_def Let_def split: option.split)

lemma tg_api_document_step:
  assumes "\<forall>l \<in> set ls. served_line E t (connects w) l"
  shows "doc_step E t w (snd (tg_api E (SendDocument ch cap (format_relays ls)) w))"
  unfolding doc_step_def using assms
  by (intro conjI exI [of _ "[SendDocument ch cap (format_relays ls)]"])
     (auto simp: tg_api_def Let_def split: option.split)

subsection \<open>Assertions kept by every step\<close>

lemma rg_stable_probed_open: "rg_stable (doc_step E t) (\<lambda>s. probed_open E' k (connects s) h p)"
  unfolding rg_stable_def doc_step_def by (blast intro: probed_open_mono order_refl)

lemma rg_stable_dir_lines: "rg_stable (doc_step E t) (\<lambda>s. \<forall>l \<in> set acc. dir_line E' j 0 (connects s) l)"
  unfolding rg_stable_def doc_step_def by (blast intro: dir_line_mono order_refl)

lemma rg_stable_served: "rg_stable (doc_step E t) (\<lambda>s. \<forall>l \<in> set ls. served_line E' t' (connects s) l)"
  unfolding rg_stable_def doc_step_def by (blast intro: served_line_mono)

subsection \<open>The probe\<close>

text \<open>What a probe answering \<open>True\<close> tells: the port of the address is in range and
  a connection attempt to it, among the attempts of the state, was answered with 0.\<close>

definition probe_ok :: "'x probe_env_scheme \<Rightarrow> string list \<Rightarrow> attempt list \<Rightarrow> bool" where
  "probe_ok E addrs c \<longleftrightarrow>
     (\<exists>port. py_int (addrs ! 1) = Inr port \<and> 0 \<le> port \<and> port \<le> 65535 \<and> probed_open E 0 c (addrs ! 0) port)"

lemma rg_stable_probe_ok [intro]: "rg_stable (doc_step E t) (\<lambda>s. probe_ok E' addrs (connects s))"
  unfolding rg_stable_def doc_step_def probe_ok_def by (blast intro: probed_open_mono order_refl)

lemma connect_ex_th_rg:
  assumes P: "rg_stable (doc_step E t) P" and port: "py_int (addrs ! 1) = Inr port"
  shows "th_rg (doc_step E t) P
           (th_bind (th_atom (connect_ex E sk (addrs ! 0) port)) (\<lambda>result. th_return (result = 0)))
           (\<lambda>r s. P s \<and> (r = Inr True \<longrightarrow> probe_ok E addrs (connects s)))"
proof (rule th_rg_bind_atom [where A = "\<lambda>res s. P s \<and> (res = 0 \<longrightarrow> probe_ok E addrs (connects s))", OF P])
  fix s assume ps: "P s"
  let ?s' = "snd (connect_ex E sk (addrs ! 0) port s)"
  have q: "doc_step E t s ?s'" by (rule connect_ex_quiet)
  have p': "P ?s'" by (rule rg_stableD [OF P ps q])
  show "doc_step E t s ?s' \<and> (case fst (connect_ex E sk (addrs ! 0) port s) of
          Inl e \<Rightarrow> P ?s' \<and> (Inl e = Inr True \<longrightarrow> probe_ok E addrs (connects ?s'))
        | Inr a \<Rightarrow> P ?s' \<and> (a = 0 \<longrightarrow> probe_ok E addrs (connects ?s')))"
  proof (cases "port < 0 \<or> 65535 < port")
    case True
    with q p' show ?thesis by (simp add: connect_ex_def)
  next
    case False
    then have "e_connect E (length (connects s)) (addrs ! 0) port (sock_timeout sk) = Inr 0 \<Longrightarrow>
        probe_ok E addrs (connects s @ [(addrs ! 0, port, sock_timeout sk)])"
      using port unfolding probe_ok_def probed_open_def
      by (intro exI [of _ port]) (auto intro!: exI [of _ "length (connects s)"])
    with q p' False show ?thesis by (auto simp: connect_ex_def split: sum.split)
  qed
qed (auto intro!: th_rg.rg_Ret rg_stable_conj rg_stable_imp rg_stable_probe_ok simp: P)

lemma probe_body_th_rg:
  assumes P: "rg_stable (doc_step E t) P"
  shows "th_rg (doc_step E t) P (probe_body_th E addrs) (\<lambda>r s. P s \<and> (r = Inr True \<longrightarrow> probe_ok E addrs (connects s)))"
  unfolding probe_body_th_def
proof (intro th_rg_bind_quiet [OF P socket_new_quiet] th_rg_bind_quiet [OF P set_default_timeout_quiet])
  fix sk u
  show "th_rg (doc_step E t) P (th_bind (th_lift (py_int (addrs ! 1))) (\<lambda>port.
          th_bind (th_atom (connect_ex E sk (addrs ! 0) port)) (\<lambda>result. th_return (result = 0))))
        (\<lambda>r s. P s \<and> (r = Inr True \<longrightarrow> probe_ok E addrs (connects s)))"
    by (cases "py_int (addrs ! 1)") (simp_all add: th_bind_lift th_rg.rg_Ret P connect_ex_th_rg)
qed (simp_all add: P)

lemma is_socket_open_th_rg:
  assumes P: "rg_stable (doc_step E t) P"
  shows "th_rg (doc_step E t) P (is_socket_open_th E (Some a))
           (\<lambda>r s. P s \<and> (r = Inr True \<longrightarrow> probe_ok E (py_split CHR '':'' a) (connects s)))"
proof (cases "length (py_split CHR '':'' a) < 2")
  case True
  then show ?thesis by (simp add: is_socket_open_th_def th_rg.rg_Ret P)
next
  case False
  have h: "th_rg (doc_step E t) P
      (th_bind (th_atom (py_modify (log_append ERROR ''Unhandled is_socket_open'' (Some ex)))) (\<lambda>_. th_return False))
      (\<lambda>r s. P s \<and> (r = Inr True \<longrightarrow> probe_ok E (py_split CHR '':'' a) (connects s)))" for ex
    by (rule th_rg_bind_quiet [OF P log_quiet]) (auto intro!: th_rg.rg_Ret simp: P)
  from False have eq: "is_socket_open_th E (Some a) = th_catch (probe_body_th E (py_split CHR '':'' a)) (\<lambda>ex.
      th_bind (th_atom (py_modify (log_append ERROR ''Unhandled is_socket_open'' (Some ex)))) (\<lambda>_. th_return False))"
    by (simp add: is_socket_open_th_def Let_def)
  show ?thesis
    unfolding eq by (rule th_rg_catch [OF probe_body_th_rg [OF P]]) (simp_all add: h)
qed

subsection \<open>The address loop\<close>

text \<open>The lines gathered so far are lines of the directory \<open>j\<close>, each accepted by an
  attempt of the state.\<close>

definition acc_ok :: "'x probe_env_scheme \<Rightarrow> json \<Rightarrow> string list \<Rightarrow> 'r world \<Rightarrow> bool" where
  "acc_ok E j acc s \<longleftrightarrow> (\<forall>l \<in> set acc. dir_line E j 0 (connects s) l)"

lemma rg_stable_acc_ok [intro]: "rg_stable (doc_step E t) (acc_ok E' j acc)"
  unfolding acc_ok_def by (rule rg_stable_dir_lines)

lemma addr_line_dir_line:
  assumes ctx: "get_relays j = Inr (JList xs)" "relay \<in> set xs" "exn_bind (relay_addresses relay) py_iter = Inr addrs"
    and a: "JStr addr \<in> set addrs"
    and cp: "check_port addr = Inr True" and po: "probe_ok E (py_split CHR '':'' addr) c"
    and nb: "CHR ''['' \<notin> set addr"
    and ln: "exn_bind (relay_fingerprint relay) (py_str_add (addr @ '' '')) = Inr line"
  shows "dir_line E j 0 c line"
proof -
  from cp obtain port where ap: "addr_port addr = Inr port" and bad: "port \<notin> set bad_ports"
    by (auto simp: check_port_def exn_bind_eq_Inr)
  from po obtain p where pi: "py_int (py_split CHR '':'' addr ! 1) = Inr p" and r: "0 \<le> p" "p \<le> 65535"
    and o: "probed_open E 0 c (py_split CHR '':'' addr ! 0) p"
    unfolding probe_ok_def by blast
  from ap pi have "p = port"
    by (auto simp: addr_port_def exn_bind_eq_Inr py_index_nonneg split: if_splits)
  moreover from ln obtain fp where fp: "relay_fingerprint relay = Inr (JStr fp)" and l: "line = addr @ CHR '' '' # fp"
    by (auto simp: exn_bind_eq_Inr elim!: py_str_add.elims)
  ultimately have "accepted E 0 c relay addrs line"
    unfolding accepted_def using a ap bad r o nb by auto
  with ctx show ?thesis unfolding dir_line_def by blast
qed

lemma rg_Ret_acc:
  "(\<And>s. P s \<Longrightarrow> acc_ok E j acc s) \<Longrightarrow> rg_stable (doc_step E' t) P \<Longrightarrow>
   th_rg (doc_step E' t) P (th_return acc) (\<lambda>r s. \<forall>acc'. r = Inr acc' \<longrightarrow> acc_ok E j acc' s)"
  by (rule th_rg.rg_Ret) simp_all

text \<open>After the probe of an address: the line is added only when the probe answered
  \<open>True\<close>, which makes it a line of the directory.\<close>

lemma addr_probed_th_rg:
  assumes ctx: "get_relays j = Inr (JList xs)" "relay \<in> set xs" "exn_bind (relay_addresses relay) py_iter = Inr addrs"
    and a: "JStr addr \<in> set addrs" and cp: "check_port addr = Inr True" and nb: "CHR ''['' \<notin> set addr"
  shows "th_rg (doc_step E t) (\<lambda>s. acc_ok E j acc s \<and> (Inr is_open = Inr True \<longrightarrow> probe_ok E (py_split CHR '':'' addr) (connects s)))
           (if \<not> is_open then th_return acc
            else th_bind (th_lift (exn_bind (relay_fingerprint relay) (py_str_add (addr @ '' '')))) (\<lambda>line.
              th_return (acc @ [line])))
           (\<lambda>r s. \<forall>acc'. r = Inr acc' \<longrightarrow> acc_ok E j acc' s)"
proof (cases is_open)
  case False
  then show ?thesis by (auto intro!: rg_Ret_acc)
next
  case True
  show ?thesis
  proof (cases "exn_bind (relay_fingerprint relay) (py_str_add (addr @ '' ''))")
    case (Inl e)
    with True show ?thesis by (auto simp: th_bind_lift intro!: th_rg.rg_Ret)
  next
    case (Inr line)
    have "acc_ok E j (acc @ [line]) s" if "acc_ok E j acc s" and "probe_ok E (py_split CHR '':'' addr) (connects s)" for s
      using that addr_line_dir_line [OF ctx a cp _ nb Inr] by (simp add: acc_ok_def)
    with True Inr show ?thesis by (auto simp: th_bind_lift intro!: rg_Ret_acc)
  qed
qed

lemma addr_step_th_rg:
  assumes ctx: "get_relays j = Inr (JList xs)" "relay \<in> set xs" "exn_bind (relay_addresses relay) py_iter = Inr addrs"
    and a: "a \<in> set addrs"
  shows "th_rg (doc_step E t) (acc_ok E j acc) (addr_step_th E relay acc a) (\<lambda>r s. \<forall>acc'. r = Inr acc' \<longrightarrow> acc_ok E j acc' s)"
proof (cases "py_as_str a")
  case (Inl e)
  then show ?thesis by (auto simp: addr_step_th_def th_bind_lift intro!: th_rg.rg_Ret)
next
  case (Inr addr)
  then have aJ: "JStr addr \<in> set addrs" using a by (cases a) simp_all
  show ?thesis
  proof (cases "py_find addr CHR ''['' \<noteq> -1 \<or> check_port addr \<noteq> Inr True")
    case True
    with Inr show ?thesis
      by (cases "check_port addr") (auto simp: addr_step_th_def th_bind_lift intro!: th_rg.rg_Ret)
  next
    case False
    then have nb: "CHR ''['' \<notin> set addr" and cp: "check_port addr = Inr True"
      by (simp_all add: py_find_eq_minus_one)
    from Inr nb cp have eq: "addr_step_th E relay acc a = th_bind (is_socket_open_th E (Some addr)) (\<lambda>is_open.
        if \<not> is_open then th_return acc
        else th_bind (th_lift (exn_bind (relay_fingerprint relay) (py_str_add (addr @ '' '')))) (\<lambda>line.
          th_return (acc @ [line])))"
      by (simp add: addr_step_th_def th_bind_lift py_find_eq_minus_one)
    show ?thesis
      unfolding eq
      by (rule th_rg_bind [OF is_socket_open_th_rg [OF rg_stable_acc_ok] addr_probed_th_rg [OF ctx aJ cp nb]]) simp
  qed
qed

lemma scan_addrs_th_rg:
  assumes ctx: "get_relays j = Inr (JList xs)" "relay \<in> set xs" "exn_bind (relay_addresses relay) py_iter = Inr addrs"
  shows "set as \<subseteq> set addrs \<Longrightarrow>
    th_rg (doc_step E t) (acc_ok E j acc) (scan_addrs_th E relay as acc) (\<lambda>r s. \<forall>acc'. r = Inr acc' \<longrightarrow> acc_ok E j acc' s)"
proof (induction as arbitrary: acc)
  case Nil
  then show ?case by (auto intro!: rg_Ret_acc)
next
  case (Cons a as)
  then show ?case
    by (simp, intro th_rg_bind [OF addr_step_th_rg [OF ctx]]) simp_all
qed

subsection \<open>The sampling loop\<close>

text \<open>A relay drawn from the document whose addresses can be read is a relay of its
  list (a character of a string has none).\<close>

lemma drawn_relay_in_list:
  assumes "exn_bind (get_relays j) (\<lambda>rs. py_getitem rs (KInt i)) = Inr relay"
    and "exn_bind (relay_addresses relay) py_iter = Inr addrs"
  shows "\<exists>xs. get_relays j = Inr (JList xs) \<and> relay \<in> set xs"
  using relay_item_cases [OF assms(1)] assms(2) by (auto simp: relay_addresses_def exn_bind_eq_Inr)

lemma sample_step_th_rg:
  "th_rg (doc_step E t) (acc_ok E j acc) (sample_step_th E j acc) (\<lambda>r s. \<forall>acc'. r = Inr acc' \<longrightarrow> acc_ok E j acc' s)"
proof (cases "exn_bind (get_relays j) py_len")
  case (Inl e)
  then show ?thesis
    by (auto simp: sample_step_th_def draw_relay_th_def th_bind_lift intro!: th_rg.rg_Ret)
next
  case (Inr n)
  have scan: "th_rg (doc_step E t) (acc_ok E j acc)
      (th_bind (th_lift (exn_bind (get_relays j) (\<lambda>rs. py_getitem rs (KInt rnd)))) (\<lambda>relay.
       th_bind (th_lift (exn_bind (relay_addresses relay) py_iter)) (\<lambda>addrs. scan_addrs_th E relay addrs acc)))
      (\<lambda>r s. \<forall>acc'. r = Inr acc' \<longrightarrow> acc_ok E j acc' s)" for rnd
  proof (cases "exn_bind (get_relays j) (\<lambda>rs. py_getitem rs (KInt rnd))")
    case (Inr relay)
    show ?thesis
    proof (cases "exn_bind (relay_addresses relay) py_iter")
      case (Inr addrs)
      with \<open>_ = Inr relay\<close> obtain xs where "get_relays j = Inr (JList xs)" "relay \<in> set xs"
        by (blast dest: drawn_relay_in_list)
      from scan_addrs_th_rg [OF this Inr subset_refl] Inr \<open>_ = Inr relay\<close> show ?thesis
        by (simp add: th_bind_lift)
    qed (use Inr in \<open>auto simp: th_bind_lift intro!: th_rg.rg_Ret\<close>)
  qed (auto simp: th_bind_lift intro!: th_rg.rg_Ret)
  show ?thesis
    unfolding sample_step_th_def draw_relay_th_def
    by (simp add: Inr th_bind_lift th_bind_assoc, rule th_rg_bind_quiet [OF rg_stable_acc_ok randint_quiet])
       (simp_all add: scan [unfolded th_bind_lift])
qed

lemma sample_loop_th_rg:
  "th_rg (doc_step E t) (acc_ok E j acc) (sample_loop_th E j n counter acc) (\<lambda>r s. \<forall>acc'. r = Inr acc' \<longrightarrow> acc_ok E j acc' s)"
proof (induction E j n counter acc rule: sample_loop_th.induct)
  case (1 E j n counter acc)
  show ?case
  proof (cases "0 < counter \<and> int (length acc) < n")
    case True
    with 1 show ?thesis
      by (subst sample_loop_th.simps) (simp, rule th_rg_bind [OF sample_step_th_rg], simp_all)
  next
    case False
    then show ?thesis by (subst sample_loop_th.simps) (auto intro!: rg_Ret_acc)
  qed
qed

text \<open>What \<^verbatim>\<open>parse_relays\<close> returns: lines of the directory \<open>j\<close>, newline-joined.\<close>

lemma parse_relays_th_rg:
  "th_rg (doc_step E t) (\<lambda>_. True) (parse_relays_th E j n)
     (\<lambda>r s. \<forall>out. r = Inr out \<longrightarrow> (\<exists>ls. out = format_relays ls \<and> acc_ok E j ls s))"
proof (cases "check_relays j = Inr () \<and> (\<exists>c. exn_bind (get_relays j) py_len = Inr c)")
  case True
  then obtain c where c: "check_relays j = Inr ()" "exn_bind (get_relays j) py_len = Inr c" by blast
  have eq: "parse_relays_th E j n = th_bind (sample_loop_th E j n c []) (\<lambda>filtered. th_return (format_relays filtered))"
    by (simp add: parse_relays_th_def c th_bind_lift)
  show ?thesis
    unfolding eq
  proof (rule th_rg_bind)
    show "th_rg (doc_step E t) (\<lambda>_. True) (sample_loop_th E j n c [])
        (\<lambda>r s. \<forall>out. r = Inr out \<longrightarrow> acc_ok E j out s)"
      by (rule th_rg_conseq [OF sample_loop_th_rg]) (simp_all add: acc_ok_def)
  qed (auto intro!: th_rg.rg_Ret)
next
  case False
  then show ?thesis
    by (cases "check_relays j"; cases "exn_bind (get_relays j) py_len")
       (auto simp: parse_relays_th_def th_bind_lift intro!: th_rg.rg_Ret)
qed

subsection \<open>The fetch\<close>

text \<open>An output made of served lines, for the timeout \<open>t\<close>.\<close>

definition served_doc :: "('r, 'x) fetch_env_scheme \<Rightarrow> int \<Rightarrow> string \<Rightarrow> attempt list \<Rightarrow> bool" where
  "served_doc E t out c \<longleftrightarrow> (\<exists>ls. out = format_relays ls \<and> (\<forall>l \<in> set ls. served_line E t c l))"

lemma rg_stable_served_doc [intro]: "rg_stable (doc_step E t) (\<lambda>s. served_doc E' t' out (connects s))"
  unfolding rg_stable_def doc_step_def served_doc_def by (blast intro: served_line_mono)

lemma acc_ok_served:
  assumes "e_get E now onion_url t [(''User-Agent'', user_agent)] = Inr resp" and "status_code resp = 200"
    and "resp_json resp = Inr j" and "acc_ok E j ls s"
  shows "\<forall>l \<in> set ls. served_line E t (connects s) l"
  using assms unfolding acc_ok_def served_line_def by blast

lemma fetch_relays_th_rg:
  "th_rg (doc_step E t) (\<lambda>_. True) (fetch_relays_th E rn tmo)
     (\<lambda>r s. \<forall>out. r = Inr out \<longrightarrow> served_doc E tmo out (connects s))"
    (is "th_rg _ _ _ ?Q")
proof -
  have body: "th_rg (doc_step E t) (\<lambda>_. True)
      (th_bind (th_lift (e_get E now onion_url tmo [(''User-Agent'', user_agent)])) (\<lambda>resp.
        if status_code resp \<noteq> 200
        then th_raise (FetchedError (FMsg (''Fetching error, server response code is '' @ str_of_int (status_code resp))))
        else th_bind (th_lift (resp_json resp)) (\<lambda>j. parse_relays_th E j rn))) ?Q" for now
  proof (cases "e_get E now onion_url tmo [(''User-Agent'', user_agent)]")
    case (Inr resp)
    show ?thesis
    proof (cases "status_code resp = 200 \<and> (\<exists>j. resp_json resp = Inr j)")
      case True
      then obtain j where st: "status_code resp = 200" and js: "resp_json resp = Inr j" by blast
      have "th_rg (doc_step E t) (\<lambda>_. True) (parse_relays_th E j rn) ?Q"
        by (rule th_rg_conseq [OF parse_relays_th_rg]) (simp, simp, unfold served_doc_def, blast dest: acc_ok_served [OF Inr st js])
      with Inr st js show ?thesis by (simp add: th_bind_lift)
    next
      case False
      with Inr show ?thesis
        by (cases "resp_json resp") (auto simp: th_bind_lift intro!: th_rg.rg_Ret)
    qed
  qed (auto simp: th_bind_lift intro!: th_rg.rg_Ret)
  show ?thesis
    unfolding fetch_relays_th_def
  proof (rule th_rg_bind_quiet [where m = "seed_random E", OF rg_stable_const [of "doc_step E t" True] seed_random_quiet])
    show "th_rg (doc_step E t) (\<lambda>_. True) (th_catch (th_bind (th_atom (py_get clock)) (\<lambda>now.
        th_bind (th_lift (e_get E now onion_url tmo [(''User-Agent'', user_agent)])) (\<lambda>resp.
          if status_code resp \<noteq> 200
          then th_raise (FetchedError (FMsg (''Fetching error, server response code is '' @ str_of_int (status_code resp))))
          else th_bind (th_lift (resp_json resp)) (\<lambda>j. parse_relays_th E j rn))))
        (\<lambda>e. th_raise (fetch_handler e))) ?Q" for u
      by (rule th_rg_catch [OF th_rg_bind_quiet [where m = "py_get clock", OF rg_stable_const [of "doc_step E t" True] get_clock_quiet _ _ body]])
         (auto intro!: th_rg.rg_Ret)
  qed simp_all
qed

subsection \<open>The handlers\<close>

lemma relays_notice_th_rg:
  "rg_stable (doc_step E t) P \<Longrightarrow> th_rg (doc_step E t) P (relays_notice_th E m) (\<lambda>_. P)"
  unfolding relays_notice_th_def
  by (rule th_rg_catch, rule th_rg_quiet_atom, assumption, rule tg_api_message_quiet)
     (auto intro: th_rg_quiet_atom log_quiet)

lemma relays_fetch_th_rg:
  "th_rg (doc_step E (timeout cfg)) (\<lambda>_. True) (relays_fetch_th E cfg m)
     (\<lambda>r s. \<forall>out. r = Inr (Some out) \<longrightarrow> served_doc E (timeout cfg) out (connects s))"
proof -
  have reply: "th_rg (doc_step E (timeout cfg)) (\<lambda>_. True)
      (th_bind (th_atom (py_modify (log_append ERROR msg (Some e)))) (\<lambda>_.
       th_bind (th_atom (tg_api E (ReplyTo (msg_chat m) (msg_id m) not_available_text))) (\<lambda>_. th_return None)))
      (\<lambda>r s. \<forall>out. r = Inr (Some out) \<longrightarrow> served_doc E (timeout cfg) out (connects s))" for msg e
    by (intro th_rg_bind_quiet [OF rg_stable_const [of "doc_step E (timeout cfg)" True] log_quiet]
              th_rg_bind_quiet [OF rg_stable_const [of "doc_step E (timeout cfg)" True] tg_api_message_quiet])
       (auto intro!: th_rg.rg_Ret)
  have ok: "th_rg (doc_step E (timeout cfg)) (\<lambda>s. served_doc E (timeout cfg) out (connects s))
      (th_bind (th_atom (py_modify (log_append DEBUG ''load relays successful'' None))) (\<lambda>_. th_return (Some out)))
      (\<lambda>r s. \<forall>out. r = Inr (Some out) \<longrightarrow> served_doc E (timeout cfg) out (connects s))" for out
    by (rule th_rg_bind_quiet [OF rg_stable_served_doc log_quiet]) (auto intro!: th_rg.rg_Ret)
  have body: "th_rg (doc_step E (timeout cfg)) (\<lambda>_. True)
      (th_bind (fetch_relays_th E (relays_number cfg) (timeout cfg)) (\<lambda>output.
        th_bind (th_atom (py_modify (log_append DEBUG ''load relays successful'' None))) (\<lambda>_.
        th_return (Some output))))
      (\<lambda>r s. \<forall>out. r = Inr (Some out) \<longrightarrow> served_doc E (timeout cfg) out (connects s))"
    by (rule th_rg_bind [OF fetch_relays_th_rg]) (simp_all add: ok)
  show ?thesis
    unfolding relays_fetch_th_def
    by (rule th_rg_catch [OF body]) (simp_all add: reply split: if_split)
qed

lemma relays_document_th_rg:
  "th_rg (doc_step E (timeout cfg)) (\<lambda>s. served_doc E (timeout cfg) out (connects s))
     (relays_document_th E cfg m out) (\<lambda>_ _. True)"
proof -
  have send: "\<And>s. served_doc E (timeout cfg) out (connects s) \<Longrightarrow>
      doc_step E (timeout cfg) s (snd (tg_api E (SendDocument (msg_chat m) (relays_caption cfg) out) s)) \<and> True"
    unfolding served_doc_def by (auto intro: tg_api_document_step)
  have log: "th_rg (doc_step E (timeout cfg)) (\<lambda>_. True)
      (th_atom (py_modify (log_append ERROR ''get relays send reply to user'' (Some ex)))) (\<lambda>_ _. True)" for ex
    by (rule th_rg_quiet_atom [OF rg_stable_const [of "doc_step E (timeout cfg)" True] log_quiet])
  show ?thesis
    unfolding relays_document_th_def
    by (rule th_rg_catch [OF th_rg_atom [OF rg_stable_served_doc _ send]]) (simp_all add: log)
qed

lemma relays_handler_th_rg:
  "th_rg (doc_step E (timeout cfg)) (\<lambda>_. True) (relays_handler_th E cfg m) (\<lambda>_ _. True)"
  unfolding relays_handler_th_def
proof (rule th_rg_bind [OF relays_notice_th_rg [OF rg_stable_const [of "doc_step E (timeout cfg)" True]]])
  show "th_rg (doc_step E (timeout cfg)) (\<lambda>_. True) (th_bind (relays_fetch_th E cfg m) (\<lambda>r.
      case r of None \<Rightarrow> th_return () | Some output \<Rightarrow> relays_document_th E cfg m output)) (\<lambda>_ _. True)" for u
  proof (rule th_rg_bind [OF relays_fetch_th_rg])
    show "th_rg (doc_step E (timeout cfg)) (\<lambda>s. \<forall>out. Inr r = Inr (Some out) \<longrightarrow> served_doc E (timeout cfg) out (connects s))
        (case r of None \<Rightarrow> th_return () | Some output \<Rightarrow> relays_document_th E cfg m output) (\<lambda>_ _. True)" for r
      by (cases r) (auto intro!: th_rg.rg_Ret relays_document_th_rg)
  qed simp
qed simp

lemma dispatch_th_rg:
  "th_rg (doc_step E (timeout cfg)) (\<lambda>_. True) (dispatch_th E cfg u) (\<lambda>_ _. True)"
proof -
  have "th_rg (doc_step E (timeout cfg)) (\<lambda>_. True) (th_atom (send_welcome E (upd_msg u))) (\<lambda>_ _. True)"
    unfolding send_welcome_def
    by (rule th_rg_quiet_atom [where m = "tg_api E (ReplyTo (msg_chat (upd_msg u)) (msg_id (upd_msg u)) welcome_text)",
          OF rg_stable_const [of "doc_step E (timeout cfg)" True] tg_api_message_quiet]) simp
  then show ?thesis
    unfolding dispatch_th_def
    by (auto split: option.split intro!: th_rg.rg_Ret relays_handler_th_rg)
qed

subsection \<open>The pool\<close>

text \<open>The invariant of the pool: the documents sent so far are sound, and every running
  thread is in a state from which it keeps them sound, whatever the other runs.\<close>

definition threads_ok :: "('r, 'x) bot_env_scheme \<Rightarrow> config \<Rightarrow> 'r world \<Rightarrow> (exc, 'r world, unit) thread list \<Rightarrow> bool" where
  "threads_ok E cfg w ts \<longleftrightarrow>
     (\<forall>t \<in> set ts. \<exists>P. P w \<and> th_rg (doc_step E (timeout cfg)) P t (\<lambda>_ _. True))"

lemma threads_ok_step:
  "threads_ok E cfg w ts \<Longrightarrow> doc_step E (timeout cfg) w w' \<Longrightarrow> set ts' \<subseteq> set ts \<Longrightarrow> threads_ok E cfg w' ts'"
  unfolding threads_ok_def by (blast dest: th_rg_stable rg_stableD)

lemma pool_docs_inv:
  assumes "pool E cfg w ts"
  shows "documents_ok E cfg w \<and> threads_ok E cfg w ts"
  using assms
proof induction
  case (start r t)
  then show ?case by (simp add: documents_ok_def threads_ok_def init_world_def)
next
  case (spawn w ts u)
  then show ?case by (auto simp: threads_ok_def intro: dispatch_th_rg)
next
  case (step w ts i g t' w')
  then obtain P where pw: "P w" and th: "th_rg (doc_step E (timeout cfg)) P (Act g) (\<lambda>_ _. True)"
    by (auto simp: threads_ok_def dest!: nth_mem [of i ts])
  from th_rg_step [OF th pw] step.hyps(4) obtain P' where d: "doc_step E (timeout cfg) w w'"
    and "P' w'" and "th_rg (doc_step E (timeout cfg)) P' t' (\<lambda>_ _. True)" by auto
  then have "threads_ok E cfg w' [t']" by (auto simp: threads_ok_def)
  moreover have "threads_ok E cfg w' ts" by (rule threads_ok_step [OF _ d order_refl]) (use step.IH in blast)
  ultimately show ?case
    using step.IH d set_update_subset_insert [of ts i t']
    by (auto simp: threads_ok_def intro: doc_step_documents_ok)
next
  case (finish w ts i r)
  let ?w' = "case r of Inl ex \<Rightarrow> log_append ERROR ''Infinity polling exception'' (Some ex) w | Inr _ \<Rightarrow> w"
  have d: "doc_step E (timeout cfg) w ?w'" by (rule doc_step_quiet) (simp_all split: sum.split)
  have "set (take i ts @ drop (Suc i) ts) \<subseteq> set ts" by (auto dest: in_set_takeD in_set_dropD)
  with finish.IH d show ?case by (blast intro: doc_step_documents_ok threads_ok_step)
next
  case (tick w ts t)
  have "doc_step E (timeout cfg) w (w\<lparr>clock := t\<rparr>)" by (rule doc_step_quiet) simp_all
  with tick.IH show ?case by (blast intro: doc_step_documents_ok threads_ok_step)
qed

text \<open>C11: with the handlers running on the two worker threads, under every interleaving
  of their steps, every document the bot has sent is a newline-joined list of
  \<^verbatim>\<open>addr fingerprint\<close> lines of a directory the server answered with status 200 for
  the configured timeout, each accepted by a successful connection attempt: the race
  on the default timeout (C10) does not reach the documents.\<close>

theorem pool_documents_sound:
  assumes "pool E cfg w ts" and "SendDocument c cap doc \<in> set (tg_calls w)"
  shows "\<exists>ls. doc = format_relays ls \<and> (\<forall>l \<in> set ls. served_line E (timeout cfg) (connects w) l)"
  using pool_docs_inv [OF assms(1)] assms(2) by (auto simp: documents_ok_def)

theorem pool_documents_sound_witness:
  "\<exists>w ts. pool two_addr_env config_init w ts \<and>
     SendDocument 7 ''List of 30 tor relays'' (format_relays [''1.2.3.4:80 F'', ''5.6.7.8:443 F'']) \<in> set (tg_calls w) \<and>
     (\<exists>ls. format_relays [''1.2.3.4:80 F'', ''5.6.7.8:443 F''] = format_relays ls \<and>
        (\<forall>l \<in> set ls. served_line two_addr_env (timeout config_init) (connects w) l))"
proof -
  let ?s = "Spawn relays_update # replicate 12 (Step 0)"
  have run: "case pool_run two_addr_env config_init ?s (init_world (0::nat) 0, []) of
      None \<Rightarrow> False
    | Some (w, ts) \<Rightarrow>
        SendDocument 7 ''List of 30 tor relays'' (format_relays [''1.2.3.4:80 F'', ''5.6.7.8:443 F'']) \<in> set (tg_calls w)"
    by code_simp
  then obtain w ts where r: "pool_run two_addr_env config_init ?s (init_world 0 0, []) = Some (w, ts)"
    and d: "SendDocument 7 ''List of 30 tor relays'' (format_relays [''1.2.3.4:80 F'', ''5.6.7.8:443 F'']) \<in> set (tg_calls w)"
    by (auto split: option.splits)
  have p: "pool two_addr_env config_init w ts" by (rule pool_run_sound [OF pool.start r])
  from pool_documents_sound [OF p d] p d show ?thesis by blast
qed

end
