(* ===== verification/Spec2Isabelle.thy ===== *)
theory Spec2Isabelle
  imports Startup SelectSpec PortLookup PoolDocs
begin

text \<open>
  \<^bold>\<open>A verification development of the t2r bot.\<close>

  The program (\<^verbatim>\<open>src/app/main.py\<close>, \<^verbatim>\<open>src/app/config.py\<close>) is a Telegram bot that,
  on \<^verbatim>\<open>/relays\<close>, downloads the Tor relay directory, samples relays at random,
  keeps the addresses whose port is not denied and that accept a TCP connection, and
  sends them as a text document, one \<^verbatim>\<open>host:port fingerprint\<close> per line. Its
  parts, leaves first, and the theory that models each:

  \<^item> \<open>Prelude\<close>: the semantics of Python statements as a state-and-exception monad
    (\<open>py_return\<close>, \<open>py_raise\<close>, \<open>py_bind\<close>, \<open>py_catch\<close> for \<^verbatim>\<open>try/except\<close>,
    \<open>py_lift\<close> for a pure expression that may raise), and two predicates on such
    computations: \<open>preserves I m\<close> (the state invariant \<open>I\<close> is kept) and
    \<open>raises_only P m\<close> (every exception that leaves \<open>m\<close> satisfies \<open>P\<close>), with
    introduction rules for every combinator, so that both are proved by \<open>intro\<close>.
  \<^item> \<open>PyRuntime\<close>: what the code uses of Python itself: the exceptions
    (\<open>exc\<close>, \<^verbatim>\<open>FetchedError\<close> of \<^verbatim>\<open>errors.py\<close> included), decoded JSON values
    (\<open>json\<close>), \<^verbatim>\<open>int()\<close> (\<open>py_int\<close>, whitespace, sign and underscores included)
    and \<^verbatim>\<open>str()\<close> of an integer with their round trip \<open>py_int_str_of_int\<close>,
    \<^verbatim>\<open>str.split\<close>, \<^verbatim>\<open>str.find\<close>, \<^verbatim>\<open>str.join\<close> with
    \<open>py_split_join\<close>, indexing with negative indices, subscripts, \<^verbatim>\<open>len\<close> and
    iteration of JSON values with their \<^verbatim>\<open>KeyError\<close>/\<^verbatim>\<open>TypeError\<close> cases.
  \<^item> \<open>World\<close>: the process state the code reads and changes (record \<open>world\<close>):
    the socket default timeout, the connection attempts, the state of
    \<^verbatim>\<open>random\<close>, the log, the clock and the Bot API calls.
  \<^item> \<open>PortFilter\<close>: \<^verbatim>\<open>check_port\<close> and its 80-port denylist.
  \<^item> \<open>Prober\<close>: \<^verbatim>\<open>is_socket_open\<close>, with \<^verbatim>\<open>socket.socket\<close> and
    \<^verbatim>\<open>connect_ex\<close> as environment oracles (\<open>probe_env\<close>), the process-wide
    default timeout that a socket takes when it is created, and the logging of faults;
    \<open>timeout_inv\<close>, the invariant of the default timeout.
  \<^item> \<open>Directory\<close> and \<open>Output\<close>: the lookups of \<^verbatim>\<open>parse_relays\<close> on the
    document and \<^verbatim>\<open>"\n".join\<close>.
  \<^item> \<open>Sampler\<close>: \<^verbatim>\<open>parse_relays\<close>: the \<^verbatim>\<open>while\<close> loop (\<open>sample_loop\<close>, one
    pass \<open>sample_step\<close>), the draw with \<^verbatim>\<open>random.randint\<close> (an oracle of
    \<open>sample_env\<close>), the \<^verbatim>\<open>for\<close> loop over the addresses (\<open>scan_addrs\<close> of
    \<open>addr_step\<close>) with its short-circuit filter.
  \<^item> \<open>Fetch\<close>: \<^verbatim>\<open>fetch_relays\<close>, with \<^verbatim>\<open>requests.get\<close> and the seed of
    \<^verbatim>\<open>random\<close> as oracles of \<open>fetch_env\<close>, the status check and both
    \<^verbatim>\<open>except\<close> clauses.
  \<^item> \<open>Config\<close>: \<^verbatim>\<open>Config.__init__\<close> and \<^verbatim>\<open>Config.init_env\<close> over an
    environment given as a partial map.
  \<^item> \<open>Bot\<close>: the handlers \<^verbatim>\<open>send_welcome\<close> and \<^verbatim>\<open>relays\<close>, every Bot API
    call an oracle of \<open>bot_env\<close> that may raise, every \<^verbatim>\<open>try\<close>, \<^verbatim>\<open>except\<close> and
    early \<^verbatim>\<open>return\<close> of the handler.
  \<^item> \<open>Polling\<close>: the dispatch of commands to handlers and
    \<^verbatim>\<open>bot.infinity_polling()\<close>, and \<open>reachable\<close>, the inductive set of the process
    states after start, any sequence of updates and any advance of the clock.
  \<^item> \<open>Startup\<close>: the module's top level (lines 181--199 and 246--250): the banner and
    every \<^verbatim>\<open>print\<close> as lines of standard output, \<^verbatim>\<open>Config()\<close> and \<^verbatim>\<open>init_env()\<close>
    (\<open>startup\<close>), the \<^verbatim>\<open>TeleBot\<close> made with the token, the level given to
    \<^verbatim>\<open>logging.basicConfig\<close> and the records it writes at that level (\<open>emitted\<close>), all
    in \<open>main_start\<close>; and \<open>running\<close>, the states of the whole process: a start-up that
    succeeds, then the polling loop with the configuration it built.
  \<^item> \<open>SelectSpec\<close>: the selection algorithm of the specification (section 4.4) as a
    pure function \<open>select\<close> of the records, the drawn indices and a reachability
    predicate, with the refinement lemma that \<^verbatim>\<open>parse_relays\<close> implements it.
  \<^item> \<open>PortLookup\<close>: a binary search over the sorted denylist, the set-backed lookup
    the specification (section 4.2) asks a reimplementation for, proved equivalent.
  \<^item> \<open>Thread\<close>: a handler as a thread of atomic steps: the resumption datatype
    \<open>thread\<close> (a result, or a step of the shared state returning the rest of the thread),
    its bind and \<^verbatim>\<open>try/except\<close> (\<open>th_bind\<close>, \<open>th_catch\<close>), \<open>th_seq\<close>, which runs a
    thread alone as a computation of the monad, and \<open>th_pres\<close>, an invariant kept by
    every step of a thread.
  \<^item> \<open>Workers\<close>: \<^verbatim>\<open>telebot\<close>'s pool of two worker threads (\<^verbatim>\<open>TeleBot\<close> is
    threaded by default). Each handler of \<^verbatim>\<open>main.py\<close> is written again as a thread
    whose atomic steps are its Python-level calls (\<open>dispatch_th\<close>, \<open>relays_handler_th\<close>,
    down to \<open>probe_body_th\<close>, where \<^verbatim>\<open>socket.socket()\<close>,
    \<^verbatim>\<open>setdefaulttimeout\<close> and \<^verbatim>\<open>connect_ex\<close> are three steps); \<open>pool\<close> is the
    inductive set of the states of the process and its running threads, where an update
    is taken when a worker is free, any running thread takes its next step, and a
    finished thread's exception is logged as \<^verbatim>\<open>infinity_polling\<close> does;
    \<open>pool_run\<close> executes a given schedule of these events.
  \<^item> \<open>Documents\<close>: \<open>documents_ok\<close>, that every document sent is made of lines a
    directory served, each accepted by a connection attempt, kept by \<^verbatim>\<open>relays\<close> and
    the sequential polling loop.
  \<^item> \<open>PoolDocs\<close>: the same on the worker pool. \<open>doc_step\<close> is what every atomic step
    of a handler thread does to the shared state (attempts only grow; a document it
    sends is made of served lines); each handler thread, down to the probe, is given a
    rely-guarantee specification (\<open>th_rg\<close>) whose assertions are about the values it
    holds (the answer of a probe, \<open>acc_ok\<close> for the lines gathered, \<open>served_doc\<close> for
    the output) and stay true whatever the other worker does; \<open>threads_ok\<close> with
    \<open>documents_ok\<close> is the invariant of the pool.
  \<^item> This theory: the property that spans the configuration, the fetch, the sampler,
    the handlers and the polling loop, \<open>documents_ok\<close>, stated of the running process.

  The environment records are nested (\<open>probe_env\<close> \<open>\<subseteq>\<close> \<open>sample_env\<close> \<open>\<subseteq>\<close>
  \<open>fetch_env\<close> \<open>\<subseteq>\<close> \<open>bot_env\<close>) and every operation is polymorphic in the
  extension, so a lemma about the prober holds unchanged inside the bot. An oracle
  answers the \<open>k\<close>-th call of its kind, \<open>k\<close> read from the state, so one fixed
  environment describes any sequence of answers; the directory server answers by the
  time of the request, so two fetches may see two directories.

  \<^bold>\<open>What the lemmas show.\<close> The claims C1 to C30, by theory:
  \<^item> \<open>Sampler\<close>: soundness of every returned line (C1: its address is one of
    the relay's, free of \<^verbatim>\<open>[\<close>, of an allowed in-range port, and a connection attempt
    to it succeeded during the run); termination with at most one draw per relay
    (C4); exhaustion when fewer lines are found (C14); the overshoot bound
    (C13); the exceptions: an address without a colon ends the address loop (C16),
    a document without \<^verbatim>\<open>relays\<close> (C25); the empty cases (C26).
    Concrete runs (the example of the specification, an output longer than
    \<^verbatim>\<open>relays_number\<close>, ports \<^verbatim>\<open>int()\<close> reads loosely) are kept as lemmas
    evaluated by \<open>code_simp\<close>, the evidence of the findings.
  \<^item> \<open>SelectSpec\<close>: refinement of the specification's algorithm (C3).
  \<^item> \<open>PortFilter\<close>: the denylist exactly (C5); \<open>PortLookup\<close> holds a
    binary-search lookup proved equal to it, a lemma for a reimplementation.
  \<^item> \<open>Prober\<close>: when the probe answers \<open>True\<close> (C6), faults absorbed (C17), and
    the first probe of the process blocking (C15).
  \<^item> \<open>Fetch\<close>: only \<^verbatim>\<open>FetchedError\<close> leaves \<^verbatim>\<open>fetch_relays\<close> (C7), and its
    behaviour on each branch (C22, C23, C24).
  \<^item> \<open>Bot\<close>: the two outcomes of \<^verbatim>\<open>relays\<close> (C18, C19).
  \<^item> \<open>Polling\<close>: invariants of the sequential regime, updates handled one at a time,
    proved by rule induction on \<open>reachable\<close> through \<open>reachable_invariant\<close>: the shape of
    the Bot API transcript (C9), the 2-second timeout of every connection attempt
    but the first (C8, which the worker pool breaks, C10), no more attempts than sockets
    (C21), the dead generic \<^verbatim>\<open>except\<close> clause of \<^verbatim>\<open>relays\<close> (C20); and that every
    \<^verbatim>\<open>/relays\<close> update is answered (C12).
  \<^item> \<open>Config\<close>, \<open>Startup\<close>: what start-up prints and the configuration it builds, with the
    logging level (C29), when it fails (C30), unchecked \<^verbatim>\<open>RELAYS_NUMBER\<close> (C27),
    the \<^verbatim>\<open>ValueError\<close> of a bad \<^verbatim>\<open>REQUEST_TIMEOUT\<close> (C28).
  \<^item> \<open>Workers\<close>: two probes can connect at once without timeout, a schedule found by
    executing \<open>pool_run\<close> (C10). Lemmas relate the two models: run alone a thread is
    its handler (\<open>dispatch_th_seq\<close>), sequential polling is one schedule of the pool
    (\<open>reachable_pool\<close>).
  \<^item> \<open>PoolDocs\<close>: under every interleaving every document sent is sound
    (C11): the race of the default timeout does not reach the output.
  \<^item> This theory: every document the bot has sent, in every state of the process started
    from any environment, is made of lines of a directory the server served for the
    \<^verbatim>\<open>REQUEST_TIMEOUT\<close> of the environment, each accepted by a successful connection
    attempt (C2).

  The invariants compose: an invariant that a probe and a change of the random state
  keep (\<open>probe_stable\<close>) is kept by \<^verbatim>\<open>parse_relays\<close> and \<^verbatim>\<open>fetch_relays\<close>
  (\<open>parse_relays_preserves\<close>, \<open>fetch_relays_preserves\<close>); one that, besides, Bot API
  calls and every log record but the generic clause's keep (\<open>bot_stable\<close>) is kept by
  every handler and holds in every reachable state.

  \<^bold>\<open>Loops and fuel.\<close> No fuel is needed: the \<^verbatim>\<open>while\<close> loop of
  \<^verbatim>\<open>parse_relays\<close> is bounded by its counter, which starts at the number of relays
  and decreases by one per pass, so \<open>sample_loop\<close> is a \<open>fun\<close> terminating on that
  counter; the \<^verbatim>\<open>for\<close> loop is structural recursion on the address list; the binary
  search terminates on the length of the list. The polling loop never ends and is
  modelled as the reachability relation, not as a function; a run of the worker pool
  is a finite schedule, which \<open>pool_run\<close> executes in as many steps as it has events.

  \<^bold>\<open>Not modelled.\<close> The drawing of the banner by \<^verbatim>\<open>pyfiglet\<close>, a library: the
  banner enters start-up as its text; the format \<^verbatim>\<open>logging\<close> writes a record in
  (the model keeps the records, and which of them the configured level lets through);
  the closing of sockets; the bytes of
  \<^verbatim>\<open>output.encode("utf-8")\<close> (strings are the model's byte strings); CPython's
  limit on the digits of \<^verbatim>\<open>int()\<close> and non-ASCII digits and spaces.
  \<^verbatim>\<open>telebot\<close> is a library the sources only call: its dispatch by command, its
  catching of handler exceptions and its two worker threads are modelled from its
  documented behaviour; the granularity of interleaving is one Python-level call of
  the handlers (the GIL may switch inside a library call, which the model treats as
  atomic), and the polling of updates from the Bot API itself is not modelled, an
  update being any value of \<open>update\<close>. \<^verbatim>\<open>telebot.TeleBot(token)\<close> is taken never to
  raise: the repository pins no version of the library, and the releases that check
  the token when the bot is made would add a failure of start-up for a missing or
  malformed \<^verbatim>\<open>TOKEN\<close> that \<open>main_start\<close> does not have.
\<close>

subsection \<open>The running process\<close>

text \<open>C2: in every state of the running process, started from any environment, every
  document the bot has sent is a newline-joined list of \<^verbatim>\<open>addr fingerprint\<close> lines,
  each taken from a directory the server answered with status 200 to a request with
  the \<^verbatim>\<open>REQUEST_TIMEOUT\<close> of the environment (5 seconds when it is unset): the
  fingerprint and the address are a relay's, the address has no \<^verbatim>\<open>[\<close>, its port is
  off the denylist and in range, and a connection attempt to it succeeded.\<close>

theorem running_documents_sound:
  assumes "running E banner env w" and "SendDocument c cap doc \<in> set (tg_calls w)"
  shows "\<exists>ls. doc = format_relays ls \<and>
           (\<forall>l \<in> set ls. served_line E (env_int env ''REQUEST_TIMEOUT'' 5) (connects w) l)"
proof -
  obtain cfg where t: "timeout cfg = env_int env ''REQUEST_TIMEOUT'' 5" and r: "reachable E cfg w"
    using running_config [OF assms(1)] .
  from reachable_documents_sound [OF r] assms(2) t show ?thesis
    by (auto simp: documents_ok_def)
qed

theorem running_documents_sound_witness:
  "running two_addr_env ''tor2relays'' (\<lambda>_. None)
     (handle_update two_addr_env \<lparr>timeout = 5, relays_number = 30, telegram_token = None, debug = True\<rparr>
        relays_update (init_world 0 0)) \<and>
   SendDocument 7 ''List of 30 tor relays'' (format_relays [''1.2.3.4:80 F'', ''5.6.7.8:443 F'']) \<in>
     set (tg_calls (handle_update two_addr_env \<lparr>timeout = 5, relays_number = 30, telegram_token = None, debug = True\<rparr>
        relays_update (init_world 0 0))) \<and>
   (\<exists>ls. format_relays [''1.2.3.4:80 F'', ''5.6.7.8:443 F''] = format_relays ls \<and>
      (\<forall>l \<in> set ls. served_line two_addr_env (env_int (\<lambda>_. None) ''REQUEST_TIMEOUT'' 5)
         (connects (handle_update two_addr_env \<lparr>timeout = 5, relays_number = 30, telegram_token = None, debug = True\<rparr>
            relays_update (init_world 0 0))) l))"
proof -
  let ?cfg = "\<lparr>timeout = 5, relays_number = 30, telegram_token = None, debug = True\<rparr>"
  let ?w = "handle_update two_addr_env ?cfg relays_update (init_world (0::nat) 0)"
  have m: "main_start ''tor2relays'' (\<lambda>_. None) =
     (Inr (TeleBot None, ?cfg, DEBUG),
      [''tor2relays'', ''t2r bot started'', ''logging level is DEBUG'', ''Listen telegram connections''])"
    by (simp add: main_start_def startup_def init_env_def config_init_def py_bind_apply level_name_def)
  have r: "running two_addr_env ''tor2relays'' (\<lambda>_. None) ?w"
    by (rule running.run [OF m reachable.update [OF reachable.start]])
  have d: "SendDocument 7 ''List of 30 tor relays'' (format_relays [''1.2.3.4:80 F'', ''5.6.7.8:443 F'']) \<in> set (tg_calls ?w)"
    by code_simp
  from running_documents_sound [OF r d] r d show ?thesis by blast
qed

end
